theory Spec2Isabelle
  imports Main "HOL-Library.Word"
begin

section \<open>Go values, the environment and the observable world\<close>

text \<open>
  The three mock clients of the repository (\<^verbatim>\<open>G2engine\<close> in
  \<^verbatim>\<open>g2engine/g2engine.go\<close>, \<^verbatim>\<open>G2configmgr\<close> and \<^verbatim>\<open>G2product\<close>)
  are embedded with explicit state passing: every method takes the client and the
  world and gives back an outcome holding the returned tuple, the updated client and
  the updated world. The \<^verbatim>\<open>ctx context.Context\<close> parameter is dropped: no method
  reads it, it is only handed on to the observers.
\<close>

type_synonym int64 = "64 word"
type_synonym uintptr = "64 word"

text \<open>A Go \<^verbatim>\<open>error\<close> is \<open>error option\<close>: \<open>None\<close> is \<^verbatim>\<open>nil\<close>,
  \<open>Error_text\<close> is \<^verbatim>\<open>err.Error()\<close>.\<close>

datatype error = Error (Error_text: string)

text \<open>\<^verbatim>\<open>logger.Level\<close> and \<^verbatim>\<open>messagelogger.Level\<close> (go-logging): the seven levels
  that the doc comment of \<^verbatim>\<open>SetLogLevel\<close> lists. The conversion
  \<^verbatim>\<open>messagelogger.Level(logLevel)\<close> is the identity on them.\<close>

datatype Level = LevelTrace | LevelDebug | LevelInfo | LevelWarn | LevelError | LevelFatal | LevelPanic

text \<open>\<^verbatim>\<open>observer.Observer\<close> (go-observing): an observer is known to the clients only by
  \<^verbatim>\<open>GetObserverId(ctx)\<close>. The parameter is never \<^verbatim>\<open>nil\<close> in this model.\<close>

datatype Observer = Observer (GetObserverId: string)

text \<open>Values handed to the variadic \<^verbatim>\<open>details ...interface{}\<close> of the trace calls and
  values of a returned tuple.\<close>

datatype gval =
    VString string
  | VInt int
  | VInt64 int64
  | VUintptr uintptr
  | VLevel Level
  | VError "error option"
  | VDuration int

text \<open>The body of every goroutine the clients launch is one call of \<^verbatim>\<open>client.notify\<close>:
  message id, error and details map.\<close>

datatype task = NotifyTask int "error option" "string \<rightharpoonup> string"

text \<open>What a call leaves in the world, in program order: a call of the logger's
  \<^verbatim>\<open>Log\<close>, the launch of a goroutine (\<^verbatim>\<open>go func() {...}()\<close>), a message handed to one
  observer, a line printed by \<^verbatim>\<open>fmt.Printf\<close>.\<close>

datatype event =
    Log int "gval list"
  | Go task
  | UpdateObserver Observer string
  | Printf string

record World =
  ticks :: nat
  events :: "event list"

text \<open>What the code uses and \<^verbatim>\<open>src/\<close> does not hold, taken as parameters: the three
  package constants \<^verbatim>\<open>ProductId\<close>, \<^verbatim>\<open>encoding/json.Marshal\<close> on a
  \<^verbatim>\<open>map[string]string\<close> (\<open>Inl\<close> the error text, \<open>Inr\<close> the JSON text) and the clock:
  \<open>clock env n\<close> is what the \<open>n\<close>-th reading of \<^verbatim>\<open>time.Now()\<close> gives, in
  nanoseconds since the epoch.\<close>

record Env =
  g2engine_ProductId :: int
  g2configmgr_ProductId :: int
  g2product_ProductId :: int
  json_Marshal :: "(string \<rightharpoonup> string) \<Rightarrow> string + string"
  clock :: "nat \<Rightarrow> int"

definition emit :: "event \<Rightarrow> World \<Rightarrow> World" where
  "emit e w = w\<lparr>events := events w @ [e]\<rparr>"

definition time_Now :: "Env \<Rightarrow> World \<Rightarrow> int \<times> World" where
  "time_Now env w = (clock env (ticks w), w\<lparr>ticks := Suc (ticks w)\<rparr>)"

definition time_Since :: "Env \<Rightarrow> int \<Rightarrow> World \<Rightarrow> int \<times> World" where
  "time_Since env t w = (let (now, w') = time_Now env w in (now - t, w'))"

subsection \<open>strconv\<close>

fun decimal :: "nat \<Rightarrow> string" where
  "decimal n =
     (if n < 10 then [char_of (48 + n)]
      else decimal (n div 10) @ [char_of (48 + n mod 10)])"

declare decimal.simps [simp del]

definition Itoa :: "int \<Rightarrow> string" where
  "Itoa i = (if i < 0 then CHR ''-'' # decimal (nat (- i)) else decimal (nat i))"

definition FormatInt :: "int64 \<Rightarrow> string" where
  "FormatInt x = Itoa (sint x)"

subsection \<open>The logger (go-logging)\<close>

text \<open>Modelled from the spec: the logger handle of spec 3 (\<^verbatim>\<open>messagelogger\<close> of
  go-logging is not under \<^verbatim>\<open>src/\<close>; spec 1 names it an external collaborator). All the
  clients use of it is its level.\<close>

record MessageLogger =
  currentLevel :: Level

text \<open>Modelled from the spec: \<^verbatim>\<open>messagelogger.NewSenzingApiLogger\<close>, which is missing from
  \<^verbatim>\<open>src/\<close>; it gives a logger at the level it is handed (the clients hand it
  \<^verbatim>\<open>LevelInfo\<close> and drop its error result).\<close>

definition NewSenzingApiLogger :: "Level \<Rightarrow> MessageLogger" where
  "NewSenzingApiLogger l = \<lparr>currentLevel = l\<rparr>"

text \<open>Modelled from the spec: the logger's \<^verbatim>\<open>SetLogLevel\<close>, which is missing from
  \<^verbatim>\<open>src/\<close>; it stores the level (spec 6, log-level control).\<close>

definition logger_SetLogLevel :: "Level \<Rightarrow> MessageLogger \<Rightarrow> MessageLogger" where
  "logger_SetLogLevel l lg = lg\<lparr>currentLevel := l\<rparr>"

text \<open>Modelled from the spec: the logger's \<^verbatim>\<open>GetLogLevel\<close>, which is missing from
  \<^verbatim>\<open>src/\<close>; it reads the stored level back.\<close>

definition logger_GetLogLevel :: "MessageLogger \<Rightarrow> Level" where
  "logger_GetLogLevel lg = currentLevel lg"

text \<open>Modelled from the spec: the logger's \<^verbatim>\<open>Log\<close>, which is missing from \<^verbatim>\<open>src/\<close>
  (spec 4.3: a call into the logger keyed by a numeric code). The call is recorded as
  an event, whatever the level.\<close>

definition logger_Log :: "MessageLogger \<Rightarrow> int \<Rightarrow> gval list \<Rightarrow> World \<Rightarrow> World" where
  "logger_Log lg errorNumber details w = emit (Log errorNumber details) w"

text \<open>Modelled from the spec: the table \<^verbatim>\<open>logger.LevelToTextMap\<close>, which is missing from
  \<^verbatim>\<open>src/\<close>, with the level names of the doc comment of \<^verbatim>\<open>SetLogLevel\<close>.\<close>

fun LevelToTextMap :: "Level \<Rightarrow> string" where
  "LevelToTextMap LevelTrace = ''TRACE''"
| "LevelToTextMap LevelDebug = ''DEBUG''"
| "LevelToTextMap LevelInfo = ''INFO''"
| "LevelToTextMap LevelWarn = ''WARN''"
| "LevelToTextMap LevelError = ''ERROR''"
| "LevelToTextMap LevelFatal = ''FATAL''"
| "LevelToTextMap LevelPanic = ''PANIC''"

subsection \<open>The observer registry (go-observing, \<^verbatim>\<open>subject.SubjectImpl\<close>)\<close>

text \<open>Modelled from the spec: the registry type \<^verbatim>\<open>subject.SubjectImpl\<close>, which is missing
  from \<^verbatim>\<open>src/\<close>. Spec 2 and 4.1: it tracks zero or more observers, compared by their
  observer id; \<open>SubjectImpl\<close> is the empty registry \<^verbatim>\<open>&subject.SubjectImpl{}\<close>.\<close>

type_synonym Subject = "Observer list"

definition SubjectImpl :: Subject where
  "SubjectImpl = []"

text \<open>Modelled from the spec: the registry's \<^verbatim>\<open>RegisterObserver\<close>, which is missing from
  \<^verbatim>\<open>src/\<close>. Spec 4.1: adding an observer whose id is already present does not
  duplicate it; spec 7: the error is \<^verbatim>\<open>nil\<close>.\<close>

definition subject_RegisterObserver :: "Observer \<Rightarrow> Subject \<Rightarrow> error option \<times> Subject" where
  "subject_RegisterObserver obs s =
     (None, if GetObserverId obs \<in> GetObserverId ` set s then s else s @ [obs])"

text \<open>Modelled from the spec: the registry's \<^verbatim>\<open>UnregisterObserver\<close>, which is missing from
  \<^verbatim>\<open>src/\<close>. Spec 4.1: it removes the observer with that id; spec 7: the error is
  \<^verbatim>\<open>nil\<close>.\<close>

definition subject_UnregisterObserver :: "Observer \<Rightarrow> Subject \<Rightarrow> error option \<times> Subject" where
  "subject_UnregisterObserver obs s =
     (None, filter (\<lambda>x. GetObserverId x \<noteq> GetObserverId obs) s)"

text \<open>Modelled from the spec: the registry's \<^verbatim>\<open>HasObservers\<close>, which is missing from
  \<^verbatim>\<open>src/\<close>. Spec 4.1: true iff the registry is non-empty.\<close>

definition subject_HasObservers :: "Subject \<Rightarrow> bool" where
  "subject_HasObservers s \<longleftrightarrow> s \<noteq> []"

text \<open>Modelled from the spec: the registry's \<^verbatim>\<open>NotifyObservers\<close>, which is missing from
  \<^verbatim>\<open>src/\<close>. Spec 4.2: it publishes the string to every registered observer (the
  order of delivery is not specified; the model keeps the order of the list).\<close>

definition subject_NotifyObservers :: "string \<Rightarrow> Subject \<Rightarrow> World \<Rightarrow> World" where
  "subject_NotifyObservers message s w =
     foldl (\<lambda>w' obs. emit (UpdateObserver obs message) w') w s"

section \<open>The clients\<close>

text \<open>The three structs start with the same three fields; the canned result fields
  follow in each struct.\<close>

record Client =
  isTrace :: bool
  logger :: "MessageLogger option"
  observers :: "Subject option"

text \<open>A call either returns its tuple of results or panics (a method called on a
  \<^verbatim>\<open>nil\<close> interface value); both carry the client and the world as the call left them.\<close>

datatype 'c outcome =
    Return "gval list" 'c World
  | Panic 'c World

subsection \<open>Internal methods\<close>

text \<open>\<^verbatim>\<open>getLogger\<close>: the logger singleton, created on first use.\<close>

definition getLogger :: "'a Client_scheme \<Rightarrow> MessageLogger \<times> 'a Client_scheme" where
  "getLogger client =
     (case logger client of
        None \<Rightarrow> (let lg = NewSenzingApiLogger LevelInfo in (lg, client\<lparr>logger := Some lg\<rparr>))
      | Some lg \<Rightarrow> (lg, client))"

text \<open>\<^verbatim>\<open>notify\<close>; the three copies differ in the package constant \<^verbatim>\<open>ProductId\<close> only.\<close>

definition notify ::
  "Env \<Rightarrow> int \<Rightarrow> int \<Rightarrow> error option \<Rightarrow> (string \<rightharpoonup> string) \<Rightarrow>
   'a Client_scheme \<Rightarrow> World \<Rightarrow> 'a Client_scheme outcome" where
  "notify env ProductId messageId err details client w =
     (let (now, w1) = time_Now env w;
          details1 = details(''subjectId'' \<mapsto> Itoa ProductId);
          details2 = details1(''messageId'' \<mapsto> Itoa messageId);
          details3 = details2(''messageTime'' \<mapsto> Itoa now);
          details4 = (case err of None \<Rightarrow> details3
                      | Some e \<Rightarrow> details3(''error'' \<mapsto> Error_text e))
      in case json_Marshal env details4 of
           Inl e \<Rightarrow> Return [] client (emit (Printf (''Error: '' @ e)) w1)
         | Inr message \<Rightarrow>
             (case observers client of
                None \<Rightarrow> Panic client w1
              | Some s \<Rightarrow> Return [] client (subject_NotifyObservers message s w1)))"

definition G2engine_notify ::
  "Env \<Rightarrow> int \<Rightarrow> error option \<Rightarrow> (string \<rightharpoonup> string) \<Rightarrow>
   'a Client_scheme \<Rightarrow> World \<Rightarrow> 'a Client_scheme outcome" where
  "G2engine_notify env = notify env (g2engine_ProductId env)"

definition G2configmgr_notify ::
  "Env \<Rightarrow> int \<Rightarrow> error option \<Rightarrow> (string \<rightharpoonup> string) \<Rightarrow>
   'a Client_scheme \<Rightarrow> World \<Rightarrow> 'a Client_scheme outcome" where
  "G2configmgr_notify env = notify env (g2configmgr_ProductId env)"

definition G2product_notify ::
  "Env \<Rightarrow> int \<Rightarrow> error option \<Rightarrow> (string \<rightharpoonup> string) \<Rightarrow>
   'a Client_scheme \<Rightarrow> World \<Rightarrow> 'a Client_scheme outcome" where
  "G2product_notify env = notify env (g2product_ProductId env)"

text \<open>\<^verbatim>\<open>traceEntry\<close> and \<^verbatim>\<open>traceExit\<close>: both are \<^verbatim>\<open>client.getLogger().Log(...)\<close>.\<close>

definition traceEntry ::
  "int \<Rightarrow> gval list \<Rightarrow> 'a Client_scheme \<Rightarrow> World \<Rightarrow> 'a Client_scheme \<times> World" where
  "traceEntry errorNumber details client w =
     (let (lg, client') = getLogger client in (client', logger_Log lg errorNumber details w))"

definition traceExit ::
  "int \<Rightarrow> gval list \<Rightarrow> 'a Client_scheme \<Rightarrow> World \<Rightarrow> 'a Client_scheme \<times> World" where
  "traceExit errorNumber details client w =
     (let (lg, client') = getLogger client in (client', logger_Log lg errorNumber details w))"

subsection \<open>The method bodies\<close>

text \<open>
  Every interface method other than \<^verbatim>\<open>RegisterObserver\<close>, \<^verbatim>\<open>SetLogLevel\<close> and
  \<^verbatim>\<open>UnregisterObserver\<close> has the same body up to its literals:
  \<^verbatim>\<open>
  if client.isTrace { client.traceEntry(entryCode, entryArgs...) }
  var err error = nil
  entryTime := time.Now()
  if client.observers != nil {
      go func() { details := ...; client.notify(ctx, eventId, err, details) }()
  }
  if client.isTrace {
      defer client.traceExit(exitCode, exitArgs..., err, time.Since(entryTime))
  }
  return results
  \<close>
  \<open>facade\<close> is that body. Its arguments are, in this order: the code and the arguments
  of the trace entry; the event id and the details map of the notification; the code
  of the trace exit and its arguments ahead of \<^verbatim>\<open>err\<close> and the elapsed time; the
  returned tuple, as a function of \<^verbatim>\<open>err\<close>. The arguments of the deferred call are evaluated at the
  \<^verbatim>\<open>defer\<close> statement and the call runs when the method returns. The goroutine is
  recorded as launched (\<open>Go\<close>), with the details map it will build; what it does when
  it runs is \<open>notify\<close>.
\<close>

definition facade ::
  "Env \<Rightarrow> int \<Rightarrow> gval list \<Rightarrow> int \<Rightarrow> (string \<rightharpoonup> string) \<Rightarrow> int \<Rightarrow> gval list \<Rightarrow>
   (error option \<Rightarrow> gval list) \<Rightarrow> 'a Client_scheme \<Rightarrow> World \<Rightarrow> 'a Client_scheme outcome" where
  "facade env entryCode entryArgs eventId details exitCode exitArgs results client w =
     (let (client1, w1) =
            (if isTrace client then traceEntry entryCode entryArgs client w else (client, w));
          err = None;
          (entryTime, w2) = time_Now env w1;
          w3 = (if observers client1 \<noteq> None then emit (Go (NotifyTask eventId err details)) w2
                else w2);
          deferred =
            (if isTrace client1
             then (let (d, w4) = time_Since env entryTime w3
                   in (\<lambda>c. traceExit exitCode (exitArgs @ [VError err, VDuration d]) c w4))
             else (\<lambda>c. (c, w3)));
          rs = results err;
          (client2, w5) = deferred client1
      in Return rs client2 w5)"

text \<open>\<^verbatim>\<open>RegisterObserver\<close>; the three copies differ in the three codes only.\<close>

definition RegisterObserver ::
  "Env \<Rightarrow> int \<Rightarrow> int \<Rightarrow> int \<Rightarrow> Observer \<Rightarrow> 'a Client_scheme \<Rightarrow> World \<Rightarrow>
   'a Client_scheme outcome" where
  "RegisterObserver env entryCode eventId exitCode observer client w =
     (let (client1, w1) =
            (if isTrace client
             then traceEntry entryCode [VString (GetObserverId observer)] client w
             else (client, w));
          (entryTime, w2) = time_Now env w1;
          client2 = (if observers client1 = None then client1\<lparr>observers := Some SubjectImpl\<rparr>
                     else client1)
      in case observers client2 of
           None \<Rightarrow> Panic client2 w2
         | Some s \<Rightarrow>
             (let (err, s') = subject_RegisterObserver observer s;
                  client3 = client2\<lparr>observers := Some s'\<rparr>;
                  w3 = (if observers client3 \<noteq> None
                        then emit (Go (NotifyTask eventId err
                                         [''observerID'' \<mapsto> GetObserverId observer])) w2
                        else w2);
                  deferred =
                    (if isTrace client3
                     then (let (d, w4) = time_Since env entryTime w3
                           in (\<lambda>c. traceExit exitCode
                                      [VString (GetObserverId observer), VError err, VDuration d] c w4))
                     else (\<lambda>c. (c, w3)));
                  (client4, w5) = deferred client3
              in Return [VError err] client4 w5))"

text \<open>\<^verbatim>\<open>SetLogLevel\<close>; the three copies differ in the three codes only.\<close>

definition SetLogLevel ::
  "Env \<Rightarrow> int \<Rightarrow> int \<Rightarrow> int \<Rightarrow> Level \<Rightarrow> 'a Client_scheme \<Rightarrow> World \<Rightarrow>
   'a Client_scheme outcome" where
  "SetLogLevel env entryCode eventId exitCode lvl client w =
     (let (client1, w1) =
            (if isTrace client then traceEntry entryCode [VLevel lvl] client w
             else (client, w));
          (entryTime, w2) = time_Now env w1;
          err = None;
          (lg, client2) = getLogger client1;
          client3 = client2\<lparr>logger := Some (logger_SetLogLevel lvl lg)\<rparr>;
          (lg', client4) = getLogger client3;
          client5 = client4\<lparr>isTrace := (logger_GetLogLevel lg' = LevelTrace)\<rparr>;
          w3 = (if observers client5 \<noteq> None
                then emit (Go (NotifyTask eventId err [''logLevel'' \<mapsto> LevelToTextMap lvl])) w2
                else w2);
          deferred =
            (if isTrace client5
             then (let (d, w4) = time_Since env entryTime w3
                   in (\<lambda>c. traceExit exitCode [VLevel lvl, VError err, VDuration d] c w4))
             else (\<lambda>c. (c, w3)));
          (client6, w5) = deferred client5
      in Return [VError err] client6 w5)"

text \<open>\<^verbatim>\<open>UnregisterObserver\<close>; the three copies differ in the three codes and in the
  \<^verbatim>\<open>notify\<close> they call (\<open>ProductId\<close>). Here \<^verbatim>\<open>notify\<close> is called synchronously, and
  \<^verbatim>\<open>client.observers.UnregisterObserver\<close> is called without a test of
  \<^verbatim>\<open>client.observers\<close>: on a \<^verbatim>\<open>nil\<close> interface value that call panics.\<close>

definition UnregisterObserver ::
  "Env \<Rightarrow> int \<Rightarrow> int \<Rightarrow> int \<Rightarrow> int \<Rightarrow> Observer \<Rightarrow> 'a Client_scheme \<Rightarrow> World \<Rightarrow>
   'a Client_scheme outcome" where
  "UnregisterObserver env ProductId entryCode eventId exitCode observer client w =
     (let (client1, w1) =
            (if isTrace client
             then traceEntry entryCode [VString (GetObserverId observer)] client w
             else (client, w));
          (entryTime, w2) = time_Now env w1;
          err = None;
          notified =
            (if observers client1 \<noteq> None
             then notify env ProductId eventId err
                    [''observerID'' \<mapsto> GetObserverId observer] client1 w2
             else Return [] client1 w2)
      in case notified of
           Panic c wp \<Rightarrow> Panic c wp
         | Return _ client2 w3 \<Rightarrow>
             (case observers client2 of
                None \<Rightarrow> Panic client2 w3
              | Some s \<Rightarrow>
                  (let (err', s') = subject_UnregisterObserver observer s;
                       client3 = client2\<lparr>observers := Some s'\<rparr>;
                       client4 = (if \<not> subject_HasObservers s' then client3\<lparr>observers := None\<rparr>
                                  else client3);
                       deferred =
                         (if isTrace client4
                          then (let (d, w4) = time_Since env entryTime w3
                                in (\<lambda>c. traceExit exitCode
                                           [VString (GetObserverId observer), VError err', VDuration d]
                                           c w4))
                          else (\<lambda>c. (c, w3)));
                       (client5, w5) = deferred client4
                   in Return [VError err'] client5 w5)))"

subsection \<open>\<^verbatim>\<open>G2engine\<close>\<close>

record G2engine = Client +
  AddRecordWithInfoResult :: string
  AddRecordWithInfoWithReturnedRecordIDResultGetWithInfo :: string
  AddRecordWithInfoWithReturnedRecordIDResultRecordID :: string
  AddRecordWithReturnedRecordIDResult :: string
  CheckRecordResult :: string
  CountRedoRecordsResult :: int64
  DeleteRecordWithInfoResult :: string
  ExportConfigResult :: string
  ExportConfigAndConfigIDResultConfig :: string
  ExportConfigAndConfigIDResultConfigID :: int64
  ExportCSVEntityReportResult :: uintptr
  ExportJSONEntityReportResult :: uintptr
  FetchNextResult :: string
  FindInterestingEntitiesByEntityIDResult :: string
  FindInterestingEntitiesByRecordIDResult :: string
  FindNetworkByEntityID_V2Result :: string
  FindNetworkByEntityIDResult :: string
  FindNetworkByRecordID_V2Result :: string
  FindNetworkByRecordIDResult :: string
  FindPathByEntityID_V2Result :: string
  FindPathByEntityIDResult :: string
  FindPathByRecordID_V2Result :: string
  FindPathByRecordIDResult :: string
  FindPathExcludingByEntityID_V2Result :: string
  FindPathExcludingByEntityIDResult :: string
  FindPathExcludingByRecordID_V2Result :: string
  FindPathExcludingByRecordIDResult :: string
  FindPathIncludingSourceByEntityID_V2Result :: string
  FindPathIncludingSourceByEntityIDResult :: string
  FindPathIncludingSourceByRecordID_V2Result :: string
  FindPathIncludingSourceByRecordIDResult :: string
  GetActiveConfigIDResult :: int64
  GetEntityByEntityID_V2Result :: string
  GetEntityByEntityIDResult :: string
  GetEntityByRecordID_V2Result :: string
  GetEntityByRecordIDResult :: string
  GetRecord_V2Result :: string
  GetRecordResult :: string
  GetRedoRecordResult :: string
  GetRepositoryLastModifiedTimeResult :: int64
  GetVirtualEntityByRecordID_V2Result :: string
  GetVirtualEntityByRecordIDResult :: string
  HowEntityByEntityID_V2Result :: string
  HowEntityByEntityIDResult :: string
  ProcessRedoRecordResult :: string
  ProcessRedoRecordWithInfoResult :: string
  ProcessRedoRecordWithInfoResultWithInfo :: string
  ProcessWithInfoResult :: string
  ProcessWithResponseResult :: string
  ProcessWithResponseResizeResult :: string
  ReevaluateEntityWithInfoResult :: string
  ReevaluateRecordWithInfoResult :: string
  ReplaceRecordWithInfoResult :: string
  SearchByAttributes_V2Result :: string
  SearchByAttributesResult :: string
  StatsResult :: string
  WhyEntities_V2Result :: string
  WhyEntitiesResult :: string
  WhyEntityByEntityID_V2Result :: string
  WhyEntityByEntityIDResult :: string
  WhyEntityByRecordID_V2Result :: string
  WhyEntityByRecordIDResult :: string
  WhyRecords_V2Result :: string
  WhyRecordsResult :: string

text \<open>The zero value of the struct: what a freshly constructed client is.\<close>

definition G2engine_zero :: G2engine where
  "G2engine_zero =
     \<lparr>isTrace = False,
      logger = None,
      observers = None,
      AddRecordWithInfoResult = '''',
      AddRecordWithInfoWithReturnedRecordIDResultGetWithInfo = '''',
      AddRecordWithInfoWithReturnedRecordIDResultRecordID = '''',
      AddRecordWithReturnedRecordIDResult = '''',
      CheckRecordResult = '''',
      CountRedoRecordsResult = 0,
      DeleteRecordWithInfoResult = '''',
      ExportConfigResult = '''',
      ExportConfigAndConfigIDResultConfig = '''',
      ExportConfigAndConfigIDResultConfigID = 0,
      ExportCSVEntityReportResult = 0,
      ExportJSONEntityReportResult = 0,
      FetchNextResult = '''',
      FindInterestingEntitiesByEntityIDResult = '''',
      FindInterestingEntitiesByRecordIDResult = '''',
      FindNetworkByEntityID_V2Result = '''',
      FindNetworkByEntityIDResult = '''',
      FindNetworkByRecordID_V2Result = '''',
      FindNetworkByRecordIDResult = '''',
      FindPathByEntityID_V2Result = '''',
      FindPathByEntityIDResult = '''',
      FindPathByRecordID_V2Result = '''',
      FindPathByRecordIDResult = '''',
      FindPathExcludingByEntityID_V2Result = '''',
      FindPathExcludingByEntityIDResult = '''',
      FindPathExcludingByRecordID_V2Result = '''',
      FindPathExcludingByRecordIDResult = '''',
      FindPathIncludingSourceByEntityID_V2Result = '''',
      FindPathIncludingSourceByEntityIDResult = '''',
      FindPathIncludingSourceByRecordID_V2Result = '''',
      FindPathIncludingSourceByRecordIDResult = '''',
      GetActiveConfigIDResult = 0,
      GetEntityByEntityID_V2Result = '''',
      GetEntityByEntityIDResult = '''',
      GetEntityByRecordID_V2Result = '''',
      GetEntityByRecordIDResult = '''',
      GetRecord_V2Result = '''',
      GetRecordResult = '''',
      GetRedoRecordResult = '''',
      GetRepositoryLastModifiedTimeResult = 0,
      GetVirtualEntityByRecordID_V2Result = '''',
      GetVirtualEntityByRecordIDResult = '''',
      HowEntityByEntityID_V2Result = '''',
      HowEntityByEntityIDResult = '''',
      ProcessRedoRecordResult = '''',
      ProcessRedoRecordWithInfoResult = '''',
      ProcessRedoRecordWithInfoResultWithInfo = '''',
      ProcessWithInfoResult = '''',
      ProcessWithResponseResult = '''',
      ProcessWithResponseResizeResult = '''',
      ReevaluateEntityWithInfoResult = '''',
      ReevaluateRecordWithInfoResult = '''',
      ReplaceRecordWithInfoResult = '''',
      SearchByAttributes_V2Result = '''',
      SearchByAttributesResult = '''',
      StatsResult = '''',
      WhyEntities_V2Result = '''',
      WhyEntitiesResult = '''',
      WhyEntityByEntityID_V2Result = '''',
      WhyEntityByEntityIDResult = '''',
      WhyEntityByRecordID_V2Result = '''',
      WhyEntityByRecordIDResult = '''',
      WhyRecords_V2Result = '''',
      WhyRecordsResult = ''''\<rparr>"

definition G2engine_AddRecord ::
  "Env \<Rightarrow> string \<Rightarrow> string \<Rightarrow> string \<Rightarrow> string \<Rightarrow> G2engine \<Rightarrow> World \<Rightarrow> G2engine outcome" where
  "G2engine_AddRecord env dataSourceCode recordID jsonData loadID client w =
     facade env
       1 [VString dataSourceCode, VString recordID, VString jsonData, VString loadID]
       8001 [''dataSourceCode'' \<mapsto> dataSourceCode, ''recordID'' \<mapsto> recordID,
            ''loadID'' \<mapsto> loadID]
       2 [VString dataSourceCode, VString recordID, VString jsonData, VString loadID]
       (\<lambda>err. [VError err])
       client w"

definition G2engine_AddRecordWithInfo ::
  "Env \<Rightarrow> string \<Rightarrow> string \<Rightarrow> string \<Rightarrow> string \<Rightarrow> int64 \<Rightarrow> G2engine \<Rightarrow> World \<Rightarrow> G2engine outcome" where
  "G2engine_AddRecordWithInfo env dataSourceCode recordID jsonData loadID flags client w =
     facade env
       3 [VString dataSourceCode, VString recordID, VString jsonData, VString loadID, VInt64 flags]
       8002 [''dataSourceCode'' \<mapsto> dataSourceCode, ''recordID'' \<mapsto> recordID,
            ''loadID'' \<mapsto> loadID]
       4 [VString dataSourceCode, VString recordID, VString jsonData, VString loadID, VInt64 flags,
         VString (AddRecordWithInfoResult client)]
       (\<lambda>err. [VString (AddRecordWithInfoResult client), VError err])
       client w"

definition G2engine_AddRecordWithInfoWithReturnedRecordID ::
  "Env \<Rightarrow> string \<Rightarrow> string \<Rightarrow> string \<Rightarrow> int64 \<Rightarrow> G2engine \<Rightarrow> World \<Rightarrow> G2engine outcome" where
  "G2engine_AddRecordWithInfoWithReturnedRecordID env dataSourceCode jsonData loadID flags client w =
     facade env
       5 [VString dataSourceCode, VString jsonData, VString loadID, VInt64 flags]
       8003 [''dataSourceCode'' \<mapsto> dataSourceCode,
            ''recordID'' \<mapsto> AddRecordWithInfoWithReturnedRecordIDResultRecordID client,
            ''loadID'' \<mapsto> loadID]
       6 [VString dataSourceCode, VString jsonData, VString loadID, VInt64 flags,
         VString (AddRecordWithInfoWithReturnedRecordIDResultGetWithInfo client),
         VString (AddRecordWithInfoWithReturnedRecordIDResultRecordID client)]
       (\<lambda>err. [VString (AddRecordWithInfoWithReturnedRecordIDResultGetWithInfo client),
                VString (AddRecordWithInfoWithReturnedRecordIDResultRecordID client),
                VError err])
       client w"

definition G2engine_AddRecordWithReturnedRecordID ::
  "Env \<Rightarrow> string \<Rightarrow> string \<Rightarrow> string \<Rightarrow> G2engine \<Rightarrow> World \<Rightarrow> G2engine outcome" where
  "G2engine_AddRecordWithReturnedRecordID env dataSourceCode jsonData loadID client w =
     facade env
       7 [VString dataSourceCode, VString jsonData, VString loadID]
       8004 [''dataSourceCode'' \<mapsto> dataSourceCode,
            ''recordID'' \<mapsto> AddRecordWithReturnedRecordIDResult client,
            ''loadID'' \<mapsto> loadID]
       8 [VString dataSourceCode, VString jsonData, VString loadID,
         VString (AddRecordWithReturnedRecordIDResult client)]
       (\<lambda>err. [VString (AddRecordWithReturnedRecordIDResult client), VError err])
       client w"

definition G2engine_CheckRecord ::
  "Env \<Rightarrow> string \<Rightarrow> string \<Rightarrow> G2engine \<Rightarrow> World \<Rightarrow> G2engine outcome" where
  "G2engine_CheckRecord env record recordQueryList client w =
     facade env
       9 [VString record, VString recordQueryList]
       8005 Map.empty
       10 [VString record, VString recordQueryList, VString (CheckRecordResult client)]
       (\<lambda>err. [VString (CheckRecordResult client), VError err])
       client w"

definition G2engine_CloseExport ::
  "Env \<Rightarrow> uintptr \<Rightarrow> G2engine \<Rightarrow> World \<Rightarrow> G2engine outcome" where
  "G2engine_CloseExport env responseHandle client w =
     facade env
       13 [VUintptr responseHandle]
       8006 Map.empty
       14 [VUintptr responseHandle]
       (\<lambda>err. [VError err])
       client w"

definition G2engine_CountRedoRecords ::
  "Env \<Rightarrow> G2engine \<Rightarrow> World \<Rightarrow> G2engine outcome" where
  "G2engine_CountRedoRecords env client w =
     facade env
       15 []
       8007 Map.empty
       16 [VInt64 (CountRedoRecordsResult client)]
       (\<lambda>err. [VInt64 (CountRedoRecordsResult client), VError err])
       client w"

definition G2engine_DeleteRecord ::
  "Env \<Rightarrow> string \<Rightarrow> string \<Rightarrow> string \<Rightarrow> G2engine \<Rightarrow> World \<Rightarrow> G2engine outcome" where
  "G2engine_DeleteRecord env dataSourceCode recordID loadID client w =
     facade env
       17 [VString dataSourceCode, VString recordID, VString loadID]
       8008 [''dataSourceCode'' \<mapsto> dataSourceCode, ''recordID'' \<mapsto> recordID,
            ''loadID'' \<mapsto> loadID]
       18 [VString dataSourceCode, VString recordID, VString loadID]
       (\<lambda>err. [VError err])
       client w"

definition G2engine_DeleteRecordWithInfo ::
  "Env \<Rightarrow> string \<Rightarrow> string \<Rightarrow> string \<Rightarrow> int64 \<Rightarrow> G2engine \<Rightarrow> World \<Rightarrow> G2engine outcome" where
  "G2engine_DeleteRecordWithInfo env dataSourceCode recordID loadID flags client w =
     facade env
       19 [VString dataSourceCode, VString recordID, VString loadID, VInt64 flags]
       8009 [''dataSourceCode'' \<mapsto> dataSourceCode, ''recordID'' \<mapsto> recordID,
            ''loadID'' \<mapsto> loadID]
       20 [VString dataSourceCode, VString recordID, VString loadID, VInt64 flags,
         VString (DeleteRecordWithInfoResult client)]
       (\<lambda>err. [VString (DeleteRecordWithInfoResult client), VError err])
       client w"

definition G2engine_Destroy ::
  "Env \<Rightarrow> G2engine \<Rightarrow> World \<Rightarrow> G2engine outcome" where
  "G2engine_Destroy env client w =
     facade env
       21 []
       8010 Map.empty
       22 []
       (\<lambda>err. [VError err])
       client w"

definition G2engine_ExportConfig ::
  "Env \<Rightarrow> G2engine \<Rightarrow> World \<Rightarrow> G2engine outcome" where
  "G2engine_ExportConfig env client w =
     facade env
       25 []
       8011 Map.empty
       26 [VString (ExportConfigResult client)]
       (\<lambda>err. [VString (ExportConfigResult client), VError err])
       client w"

definition G2engine_ExportConfigAndConfigID ::
  "Env \<Rightarrow> G2engine \<Rightarrow> World \<Rightarrow> G2engine outcome" where
  "G2engine_ExportConfigAndConfigID env client w =
     facade env
       23 []
       8012 [''configID'' \<mapsto> FormatInt (ExportConfigAndConfigIDResultConfigID client)]
       24 [VString (ExportConfigAndConfigIDResultConfig client),
         VInt64 (ExportConfigAndConfigIDResultConfigID client)]
       (\<lambda>err. [VString (ExportConfigAndConfigIDResultConfig client),
                VInt64 (ExportConfigAndConfigIDResultConfigID client), VError err])
       client w"

definition G2engine_ExportCSVEntityReport ::
  "Env \<Rightarrow> string \<Rightarrow> int64 \<Rightarrow> G2engine \<Rightarrow> World \<Rightarrow> G2engine outcome" where
  "G2engine_ExportCSVEntityReport env csvColumnList flags client w =
     facade env
       27 [VString csvColumnList, VInt64 flags]
       8013 Map.empty
       28 [VString csvColumnList, VInt64 flags, VUintptr (ExportCSVEntityReportResult client)]
       (\<lambda>err. [VUintptr (ExportCSVEntityReportResult client), VError err])
       client w"

definition G2engine_ExportJSONEntityReport ::
  "Env \<Rightarrow> int64 \<Rightarrow> G2engine \<Rightarrow> World \<Rightarrow> G2engine outcome" where
  "G2engine_ExportJSONEntityReport env flags client w =
     facade env
       29 [VInt64 flags]
       8014 Map.empty
       30 [VInt64 flags, VUintptr (ExportJSONEntityReportResult client)]
       (\<lambda>err. [VUintptr (ExportJSONEntityReportResult client), VError err])
       client w"

definition G2engine_FetchNext ::
  "Env \<Rightarrow> uintptr \<Rightarrow> G2engine \<Rightarrow> World \<Rightarrow> G2engine outcome" where
  "G2engine_FetchNext env responseHandle client w =
     facade env
       31 [VUintptr responseHandle]
       8015 Map.empty
       32 [VUintptr responseHandle, VString (FetchNextResult client)]
       (\<lambda>err. [VString (FetchNextResult client), VError err])
       client w"

definition G2engine_FindInterestingEntitiesByEntityID ::
  "Env \<Rightarrow> int64 \<Rightarrow> int64 \<Rightarrow> G2engine \<Rightarrow> World \<Rightarrow> G2engine outcome" where
  "G2engine_FindInterestingEntitiesByEntityID env entityID flags client w =
     facade env
       33 [VInt64 entityID, VInt64 flags]
       8016 [''entityID'' \<mapsto> FormatInt entityID]
       34 [VInt64 entityID, VInt64 flags, VString (FindInterestingEntitiesByEntityIDResult client)]
       (\<lambda>err. [VString (FindInterestingEntitiesByEntityIDResult client), VError err])
       client w"

definition G2engine_FindInterestingEntitiesByRecordID ::
  "Env \<Rightarrow> string \<Rightarrow> string \<Rightarrow> int64 \<Rightarrow> G2engine \<Rightarrow> World \<Rightarrow> G2engine outcome" where
  "G2engine_FindInterestingEntitiesByRecordID env dataSourceCode recordID flags client w =
     facade env
       35 [VString dataSourceCode, VString recordID, VInt64 flags]
       8017 [''dataSourceCode'' \<mapsto> dataSourceCode, ''recordID'' \<mapsto> recordID]
       36 [VString dataSourceCode, VString recordID, VInt64 flags,
         VString (FindInterestingEntitiesByRecordIDResult client)]
       (\<lambda>err. [VString (FindInterestingEntitiesByRecordIDResult client), VError err])
       client w"

definition G2engine_FindNetworkByEntityID ::
  "Env \<Rightarrow> string \<Rightarrow> int \<Rightarrow> int \<Rightarrow> int \<Rightarrow> G2engine \<Rightarrow> World \<Rightarrow> G2engine outcome" where
  "G2engine_FindNetworkByEntityID env entityList maxDegree buildOutDegree maxEntities client w =
     facade env
       37 [VString entityList, VInt maxDegree, VInt buildOutDegree, VInt maxDegree]
       8018 [''entityList'' \<mapsto> entityList]
       38 [VString entityList, VInt maxDegree, VInt buildOutDegree, VInt maxDegree,
         VString (FindNetworkByEntityIDResult client)]
       (\<lambda>err. [VString (FindNetworkByEntityIDResult client), VError err])
       client w"

definition G2engine_FindNetworkByEntityID_V2 ::
  "Env \<Rightarrow> string \<Rightarrow> int \<Rightarrow> int \<Rightarrow> int \<Rightarrow> int64 \<Rightarrow> G2engine \<Rightarrow> World \<Rightarrow> G2engine outcome" where
  "G2engine_FindNetworkByEntityID_V2 env entityList maxDegree buildOutDegree maxEntities flags client w =
     facade env
       39 [VString entityList, VInt maxDegree, VInt buildOutDegree, VInt maxDegree, VInt64 flags]
       8019 [''entityList'' \<mapsto> entityList]
       40 [VString entityList, VInt maxDegree, VInt buildOutDegree, VInt maxDegree, VInt64 flags,
         VString (FindNetworkByEntityID_V2Result client)]
       (\<lambda>err. [VString (FindNetworkByEntityID_V2Result client), VError err])
       client w"

definition G2engine_FindNetworkByRecordID ::
  "Env \<Rightarrow> string \<Rightarrow> int \<Rightarrow> int \<Rightarrow> int \<Rightarrow> G2engine \<Rightarrow> World \<Rightarrow> G2engine outcome" where
  "G2engine_FindNetworkByRecordID env recordList maxDegree buildOutDegree maxEntities client w =
     facade env
       41 [VString recordList, VInt maxDegree, VInt buildOutDegree, VInt maxDegree]
       8020 [''recordList'' \<mapsto> recordList]
       42 [VString recordList, VInt maxDegree, VInt buildOutDegree, VInt maxDegree,
         VString (FindNetworkByRecordIDResult client)]
       (\<lambda>err. [VString (FindNetworkByRecordIDResult client), VError err])
       client w"

definition G2engine_FindNetworkByRecordID_V2 ::
  "Env \<Rightarrow> string \<Rightarrow> int \<Rightarrow> int \<Rightarrow> int \<Rightarrow> int64 \<Rightarrow> G2engine \<Rightarrow> World \<Rightarrow> G2engine outcome" where
  "G2engine_FindNetworkByRecordID_V2 env recordList maxDegree buildOutDegree maxEntities flags client w =
     facade env
       43 [VString recordList, VInt maxDegree, VInt buildOutDegree, VInt maxDegree, VInt64 flags]
       8021 [''recordList'' \<mapsto> recordList]
       44 [VString recordList, VInt maxDegree, VInt buildOutDegree, VInt maxDegree, VInt64 flags,
         VString (FindNetworkByRecordID_V2Result client)]
       (\<lambda>err. [VString (FindNetworkByRecordID_V2Result client), VError err])
       client w"

definition G2engine_FindPathByEntityID ::
  "Env \<Rightarrow> int64 \<Rightarrow> int64 \<Rightarrow> int \<Rightarrow> G2engine \<Rightarrow> World \<Rightarrow> G2engine outcome" where
  "G2engine_FindPathByEntityID env entityID1 entityID2 maxDegree client w =
     facade env
       45 [VInt64 entityID1, VInt64 entityID2, VInt maxDegree]
       8022 [''entityID1'' \<mapsto> FormatInt entityID1, ''entityID2'' \<mapsto> FormatInt entityID2]
       46 [VInt64 entityID1, VInt64 entityID2, VInt maxDegree, VString (FindPathByEntityIDResult client)]
       (\<lambda>err. [VString (FindPathByEntityIDResult client), VError err])
       client w"

definition G2engine_FindPathByEntityID_V2 ::
  "Env \<Rightarrow> int64 \<Rightarrow> int64 \<Rightarrow> int \<Rightarrow> int64 \<Rightarrow> G2engine \<Rightarrow> World \<Rightarrow> G2engine outcome" where
  "G2engine_FindPathByEntityID_V2 env entityID1 entityID2 maxDegree flags client w =
     facade env
       47 [VInt64 entityID1, VInt64 entityID2, VInt maxDegree, VInt64 flags]
       8023 [''entityID1'' \<mapsto> FormatInt entityID1, ''entityID2'' \<mapsto> FormatInt entityID2]
       48 [VInt64 entityID1, VInt64 entityID2, VInt maxDegree, VInt64 flags,
         VString (FindPathByEntityID_V2Result client)]
       (\<lambda>err. [VString (FindPathByEntityID_V2Result client), VError err])
       client w"

definition G2engine_FindPathByRecordID ::
  "Env \<Rightarrow> string \<Rightarrow> string \<Rightarrow> string \<Rightarrow> string \<Rightarrow> int \<Rightarrow> G2engine \<Rightarrow> World \<Rightarrow> G2engine outcome" where
  "G2engine_FindPathByRecordID env dataSourceCode1 recordID1 dataSourceCode2 recordID2 maxDegree client w =
     facade env
       49 [VString dataSourceCode1, VString recordID1, VString dataSourceCode2, VString recordID2,
         VInt maxDegree]
       8024 [''dataSourceCode1'' \<mapsto> dataSourceCode1, ''recordID1'' \<mapsto> recordID1,
            ''dataSourceCode2'' \<mapsto> dataSourceCode2, ''recordID2'' \<mapsto> recordID2]
       50 [VString dataSourceCode1, VString recordID1, VString dataSourceCode2, VString recordID2,
         VInt maxDegree, VString (FindPathByRecordIDResult client)]
       (\<lambda>err. [VString (FindPathByRecordIDResult client), VError err])
       client w"

definition G2engine_FindPathByRecordID_V2 ::
  "Env \<Rightarrow> string \<Rightarrow> string \<Rightarrow> string \<Rightarrow> string \<Rightarrow> int \<Rightarrow> int64 \<Rightarrow> G2engine \<Rightarrow> World \<Rightarrow> G2engine outcome" where
  "G2engine_FindPathByRecordID_V2 env dataSourceCode1 recordID1 dataSourceCode2 recordID2 maxDegree flags client w =
     facade env
       51 [VString dataSourceCode1, VString recordID1, VString dataSourceCode2, VString recordID2,
         VInt maxDegree, VInt64 flags]
       8025 [''dataSourceCode1'' \<mapsto> dataSourceCode1, ''recordID1'' \<mapsto> recordID1,
            ''dataSourceCode2'' \<mapsto> dataSourceCode2, ''recordID2'' \<mapsto> recordID2]
       52 [VString dataSourceCode1, VString recordID1, VString dataSourceCode2, VString recordID2,
         VInt maxDegree, VInt64 flags, VString (FindPathByRecordID_V2Result client)]
       (\<lambda>err. [VString (FindPathByRecordID_V2Result client), VError err])
       client w"

definition G2engine_FindPathExcludingByEntityID ::
  "Env \<Rightarrow> int64 \<Rightarrow> int64 \<Rightarrow> int \<Rightarrow> string \<Rightarrow> G2engine \<Rightarrow> World \<Rightarrow> G2engine outcome" where
  "G2engine_FindPathExcludingByEntityID env entityID1 entityID2 maxDegree excludedEntities client w =
     facade env
       53 [VInt64 entityID1, VInt64 entityID2, VInt maxDegree, VString excludedEntities]
       8026 [''entityID1'' \<mapsto> FormatInt entityID1, ''entityID2'' \<mapsto> FormatInt entityID2]
       54 [VInt64 entityID1, VInt64 entityID2, VInt maxDegree, VString excludedEntities,
         VString (FindPathExcludingByEntityIDResult client)]
       (\<lambda>err. [VString (FindPathExcludingByEntityIDResult client), VError err])
       client w"

definition G2engine_FindPathExcludingByEntityID_V2 ::
  "Env \<Rightarrow> int64 \<Rightarrow> int64 \<Rightarrow> int \<Rightarrow> string \<Rightarrow> int64 \<Rightarrow> G2engine \<Rightarrow> World \<Rightarrow> G2engine outcome" where
  "G2engine_FindPathExcludingByEntityID_V2 env entityID1 entityID2 maxDegree excludedEntities flags client w =
     facade env
       55 [VInt64 entityID1, VInt64 entityID2, VInt maxDegree, VString excludedEntities, VInt64 flags]
       8027 [''entityID1'' \<mapsto> FormatInt entityID1, ''entityID2'' \<mapsto> FormatInt entityID2]
       56 [VInt64 entityID1, VInt64 entityID2, VInt maxDegree, VString excludedEntities, VInt64 flags,
         VString (FindPathExcludingByEntityID_V2Result client)]
       (\<lambda>err. [VString (FindPathExcludingByEntityID_V2Result client), VError err])
       client w"

definition G2engine_FindPathExcludingByRecordID ::
  "Env \<Rightarrow> string \<Rightarrow> string \<Rightarrow> string \<Rightarrow> string \<Rightarrow> int \<Rightarrow> string \<Rightarrow> G2engine \<Rightarrow> World \<Rightarrow> G2engine outcome" where
  "G2engine_FindPathExcludingByRecordID env dataSourceCode1 recordID1 dataSourceCode2 recordID2 maxDegree excludedRecords client w =
     facade env
       57 [VString dataSourceCode1, VString recordID1, VString dataSourceCode2, VString recordID2,
         VInt maxDegree, VString excludedRecords]
       8028 [''dataSourceCode1'' \<mapsto> dataSourceCode1, ''recordID1'' \<mapsto> recordID1,
            ''dataSourceCode2'' \<mapsto> dataSourceCode2, ''recordID2'' \<mapsto> recordID2]
       58 [VString dataSourceCode1, VString recordID1, VString dataSourceCode2, VString recordID2,
         VInt maxDegree, VString excludedRecords,
         VString (FindPathExcludingByRecordIDResult client)]
       (\<lambda>err. [VString (FindPathExcludingByRecordIDResult client), VError err])
       client w"

definition G2engine_FindPathExcludingByRecordID_V2 ::
  "Env \<Rightarrow> string \<Rightarrow> string \<Rightarrow> string \<Rightarrow> string \<Rightarrow> int \<Rightarrow> string \<Rightarrow> int64 \<Rightarrow> G2engine \<Rightarrow> World \<Rightarrow> G2engine outcome" where
  "G2engine_FindPathExcludingByRecordID_V2 env dataSourceCode1 recordID1 dataSourceCode2 recordID2 maxDegree excludedRecords flags client w =
     facade env
       59 [VString dataSourceCode1, VString recordID1, VString dataSourceCode2, VString recordID2,
         VInt maxDegree, VString excludedRecords, VInt64 flags]
       8029 [''dataSourceCode1'' \<mapsto> dataSourceCode1, ''recordID1'' \<mapsto> recordID1,
            ''dataSourceCode2'' \<mapsto> dataSourceCode2, ''recordID2'' \<mapsto> recordID2]
       60 [VString dataSourceCode1, VString recordID1, VString dataSourceCode2, VString recordID2,
         VInt maxDegree, VString excludedRecords, VInt64 flags,
         VString (FindPathExcludingByRecordID_V2Result client)]
       (\<lambda>err. [VString (FindPathExcludingByRecordID_V2Result client), VError err])
       client w"

definition G2engine_FindPathIncludingSourceByEntityID ::
  "Env \<Rightarrow> int64 \<Rightarrow> int64 \<Rightarrow> int \<Rightarrow> string \<Rightarrow> string \<Rightarrow> G2engine \<Rightarrow> World \<Rightarrow> G2engine outcome" where
  "G2engine_FindPathIncludingSourceByEntityID env entityID1 entityID2 maxDegree excludedEntities requiredDsrcs client w =
     facade env
       61 [VInt64 entityID1, VInt64 entityID2, VInt maxDegree, VString excludedEntities,
         VString requiredDsrcs]
       8030 [''entityID1'' \<mapsto> FormatInt entityID1, ''entityID2'' \<mapsto> FormatInt entityID2]
       62 [VInt64 entityID1, VInt64 entityID2, VInt maxDegree, VString excludedEntities,
         VString requiredDsrcs, VString (FindPathIncludingSourceByEntityIDResult client)]
       (\<lambda>err. [VString (FindPathIncludingSourceByEntityIDResult client), VError err])
       client w"

definition G2engine_FindPathIncludingSourceByEntityID_V2 ::
  "Env \<Rightarrow> int64 \<Rightarrow> int64 \<Rightarrow> int \<Rightarrow> string \<Rightarrow> string \<Rightarrow> int64 \<Rightarrow> G2engine \<Rightarrow> World \<Rightarrow> G2engine outcome" where
  "G2engine_FindPathIncludingSourceByEntityID_V2 env entityID1 entityID2 maxDegree excludedEntities requiredDsrcs flags client w =
     facade env
       63 [VInt64 entityID1, VInt64 entityID2, VInt maxDegree, VString excludedEntities,
         VString requiredDsrcs, VInt64 flags]
       8031 [''entityID1'' \<mapsto> FormatInt entityID1, ''entityID2'' \<mapsto> FormatInt entityID2]
       64 [VInt64 entityID1, VInt64 entityID2, VInt maxDegree, VString excludedEntities,
         VString requiredDsrcs, VInt64 flags,
         VString (FindPathIncludingSourceByEntityID_V2Result client)]
       (\<lambda>err. [VString (FindPathIncludingSourceByEntityID_V2Result client), VError err])
       client w"

definition G2engine_FindPathIncludingSourceByRecordID ::
  "Env \<Rightarrow> string \<Rightarrow> string \<Rightarrow> string \<Rightarrow> string \<Rightarrow> int \<Rightarrow> string \<Rightarrow> string \<Rightarrow> G2engine \<Rightarrow> World \<Rightarrow> G2engine outcome" where
  "G2engine_FindPathIncludingSourceByRecordID env dataSourceCode1 recordID1 dataSourceCode2 recordID2 maxDegree excludedRecords requiredDsrcs client w =
     facade env
       65 [VString dataSourceCode1, VString recordID1, VString dataSourceCode2, VString recordID2,
         VInt maxDegree, VString excludedRecords, VString requiredDsrcs]
       8032 [''dataSourceCode1'' \<mapsto> dataSourceCode1, ''recordID1'' \<mapsto> recordID1,
            ''dataSourceCode2'' \<mapsto> dataSourceCode2, ''recordID2'' \<mapsto> recordID2]
       66 [VString dataSourceCode1, VString recordID1, VString dataSourceCode2, VString recordID2,
         VInt maxDegree, VString excludedRecords, VString requiredDsrcs,
         VString (FindPathIncludingSourceByRecordIDResult client)]
       (\<lambda>err. [VString (FindPathIncludingSourceByRecordIDResult client), VError err])
       client w"

definition G2engine_FindPathIncludingSourceByRecordID_V2 ::
  "Env \<Rightarrow> string \<Rightarrow> string \<Rightarrow> string \<Rightarrow> string \<Rightarrow> int \<Rightarrow> string \<Rightarrow> string \<Rightarrow> int64 \<Rightarrow> G2engine \<Rightarrow> World \<Rightarrow> G2engine outcome" where
  "G2engine_FindPathIncludingSourceByRecordID_V2 env dataSourceCode1 recordID1 dataSourceCode2 recordID2 maxDegree excludedRecords requiredDsrcs flags client w =
     facade env
       67 [VString dataSourceCode1, VString recordID1, VString dataSourceCode2, VString recordID2,
         VInt maxDegree, VString excludedRecords, VString requiredDsrcs, VInt64 flags]
       8033 [''dataSourceCode1'' \<mapsto> dataSourceCode1, ''recordID1'' \<mapsto> recordID1,
            ''dataSourceCode2'' \<mapsto> dataSourceCode2, ''recordID2'' \<mapsto> recordID2]
       68 [VString dataSourceCode1, VString recordID1, VString dataSourceCode2, VString recordID2,
         VInt maxDegree, VString excludedRecords, VString requiredDsrcs, VInt64 flags,
         VString (FindPathIncludingSourceByRecordID_V2Result client)]
       (\<lambda>err. [VString (FindPathIncludingSourceByRecordID_V2Result client), VError err])
       client w"

definition G2engine_GetActiveConfigID ::
  "Env \<Rightarrow> G2engine \<Rightarrow> World \<Rightarrow> G2engine outcome" where
  "G2engine_GetActiveConfigID env client w =
     facade env
       69 []
       8034 Map.empty
       70 [VInt64 (GetActiveConfigIDResult client)]
       (\<lambda>err. [VInt64 (GetActiveConfigIDResult client), VError err])
       client w"

definition G2engine_GetEntityByEntityID ::
  "Env \<Rightarrow> int64 \<Rightarrow> G2engine \<Rightarrow> World \<Rightarrow> G2engine outcome" where
  "G2engine_GetEntityByEntityID env entityID client w =
     facade env
       71 [VInt64 entityID]
       8035 [''entityID'' \<mapsto> FormatInt entityID]
       72 [VInt64 entityID, VString (GetEntityByEntityIDResult client)]
       (\<lambda>err. [VString (GetEntityByEntityIDResult client), VError err])
       client w"

definition G2engine_GetEntityByEntityID_V2 ::
  "Env \<Rightarrow> int64 \<Rightarrow> int64 \<Rightarrow> G2engine \<Rightarrow> World \<Rightarrow> G2engine outcome" where
  "G2engine_GetEntityByEntityID_V2 env entityID flags client w =
     facade env
       73 [VInt64 entityID, VInt64 flags]
       8036 [''entityID'' \<mapsto> FormatInt entityID]
       74 [VInt64 entityID, VInt64 flags, VString (GetEntityByEntityID_V2Result client)]
       (\<lambda>err. [VString (GetEntityByEntityID_V2Result client), VError err])
       client w"

definition G2engine_GetEntityByRecordID ::
  "Env \<Rightarrow> string \<Rightarrow> string \<Rightarrow> G2engine \<Rightarrow> World \<Rightarrow> G2engine outcome" where
  "G2engine_GetEntityByRecordID env dataSourceCode recordID client w =
     facade env
       75 [VString dataSourceCode, VString recordID]
       8037 [''dataSourceCode'' \<mapsto> dataSourceCode, ''recordID'' \<mapsto> recordID]
       76 [VString dataSourceCode, VString recordID, VString (GetEntityByRecordIDResult client)]
       (\<lambda>err. [VString (GetEntityByRecordIDResult client), VError err])
       client w"

definition G2engine_GetEntityByRecordID_V2 ::
  "Env \<Rightarrow> string \<Rightarrow> string \<Rightarrow> int64 \<Rightarrow> G2engine \<Rightarrow> World \<Rightarrow> G2engine outcome" where
  "G2engine_GetEntityByRecordID_V2 env dataSourceCode recordID flags client w =
     facade env
       77 [VString dataSourceCode, VString recordID, VInt64 flags]
       8038 [''dataSourceCode'' \<mapsto> dataSourceCode, ''recordID'' \<mapsto> recordID]
       78 [VString dataSourceCode, VString recordID, VInt64 flags,
         VString (GetEntityByRecordID_V2Result client)]
       (\<lambda>err. [VString (GetEntityByRecordID_V2Result client), VError err])
       client w"

definition G2engine_GetRecord ::
  "Env \<Rightarrow> string \<Rightarrow> string \<Rightarrow> G2engine \<Rightarrow> World \<Rightarrow> G2engine outcome" where
  "G2engine_GetRecord env dataSourceCode recordID client w =
     facade env
       83 [VString dataSourceCode, VString recordID]
       8039 [''dataSourceCode'' \<mapsto> dataSourceCode, ''recordID'' \<mapsto> recordID]
       84 [VString dataSourceCode, VString recordID, VString (GetRecordResult client)]
       (\<lambda>err. [VString (GetRecordResult client), VError err])
       client w"

definition G2engine_GetRecord_V2 ::
  "Env \<Rightarrow> string \<Rightarrow> string \<Rightarrow> int64 \<Rightarrow> G2engine \<Rightarrow> World \<Rightarrow> G2engine outcome" where
  "G2engine_GetRecord_V2 env dataSourceCode recordID flags client w =
     facade env
       85 [VString dataSourceCode, VString recordID, VInt64 flags]
       8040 [''dataSourceCode'' \<mapsto> dataSourceCode, ''recordID'' \<mapsto> recordID]
       86 [VString dataSourceCode, VString recordID, VInt64 flags, VString (GetRecord_V2Result client)]
       (\<lambda>err. [VString (GetRecord_V2Result client), VError err])
       client w"

definition G2engine_GetRedoRecord ::
  "Env \<Rightarrow> G2engine \<Rightarrow> World \<Rightarrow> G2engine outcome" where
  "G2engine_GetRedoRecord env client w =
     facade env
       87 []
       8041 Map.empty
       88 [VString (GetRedoRecordResult client)]
       (\<lambda>err. [VString (GetRedoRecordResult client), VError err])
       client w"

definition G2engine_GetRepositoryLastModifiedTime ::
  "Env \<Rightarrow> G2engine \<Rightarrow> World \<Rightarrow> G2engine outcome" where
  "G2engine_GetRepositoryLastModifiedTime env client w =
     facade env
       89 []
       8042 Map.empty
       90 [VInt64 (GetRepositoryLastModifiedTimeResult client)]
       (\<lambda>err. [VInt64 (GetRepositoryLastModifiedTimeResult client), VError err])
       client w"

definition G2engine_GetSdkId ::
  "Env \<Rightarrow> G2engine \<Rightarrow> World \<Rightarrow> G2engine outcome" where
  "G2engine_GetSdkId env client w =
     facade env
       161 []
       8075 Map.empty
       162 []
       (\<lambda>err. [VString ''mock''])
       client w"

definition G2engine_GetVirtualEntityByRecordID ::
  "Env \<Rightarrow> string \<Rightarrow> G2engine \<Rightarrow> World \<Rightarrow> G2engine outcome" where
  "G2engine_GetVirtualEntityByRecordID env recordList client w =
     facade env
       91 [VString recordList]
       8043 [''recordList'' \<mapsto> recordList]
       92 [VString recordList, VString (GetVirtualEntityByRecordIDResult client)]
       (\<lambda>err. [VString (GetVirtualEntityByRecordIDResult client), VError err])
       client w"

definition G2engine_GetVirtualEntityByRecordID_V2 ::
  "Env \<Rightarrow> string \<Rightarrow> int64 \<Rightarrow> G2engine \<Rightarrow> World \<Rightarrow> G2engine outcome" where
  "G2engine_GetVirtualEntityByRecordID_V2 env recordList flags client w =
     facade env
       93 [VString recordList, VInt64 flags]
       8044 [''recordList'' \<mapsto> recordList]
       94 [VString recordList, VInt64 flags, VString (GetVirtualEntityByRecordID_V2Result client)]
       (\<lambda>err. [VString (GetVirtualEntityByRecordID_V2Result client), VError err])
       client w"

definition G2engine_HowEntityByEntityID ::
  "Env \<Rightarrow> int64 \<Rightarrow> G2engine \<Rightarrow> World \<Rightarrow> G2engine outcome" where
  "G2engine_HowEntityByEntityID env entityID client w =
     facade env
       95 [VInt64 entityID]
       8045 [''entityID'' \<mapsto> FormatInt entityID]
       96 [VInt64 entityID, VString (HowEntityByEntityIDResult client)]
       (\<lambda>err. [VString (HowEntityByEntityIDResult client), VError err])
       client w"

definition G2engine_HowEntityByEntityID_V2 ::
  "Env \<Rightarrow> int64 \<Rightarrow> int64 \<Rightarrow> G2engine \<Rightarrow> World \<Rightarrow> G2engine outcome" where
  "G2engine_HowEntityByEntityID_V2 env entityID flags client w =
     facade env
       97 [VInt64 entityID, VInt64 flags]
       8046 [''entityID'' \<mapsto> FormatInt entityID]
       98 [VInt64 entityID, VInt64 flags, VString (HowEntityByEntityID_V2Result client)]
       (\<lambda>err. [VString (HowEntityByEntityID_V2Result client), VError err])
       client w"

definition G2engine_Init ::
  "Env \<Rightarrow> string \<Rightarrow> string \<Rightarrow> int \<Rightarrow> G2engine \<Rightarrow> World \<Rightarrow> G2engine outcome" where
  "G2engine_Init env moduleName iniParams verboseLogging client w =
     facade env
       99 [VString moduleName, VString iniParams, VInt verboseLogging]
       8047 [''iniParams'' \<mapsto> iniParams, ''moduleName'' \<mapsto> moduleName,
            ''verboseLogging'' \<mapsto> Itoa verboseLogging]
       100 [VString moduleName, VString iniParams, VInt verboseLogging]
       (\<lambda>err. [VError err])
       client w"

definition G2engine_InitWithConfigID ::
  "Env \<Rightarrow> string \<Rightarrow> string \<Rightarrow> int64 \<Rightarrow> int \<Rightarrow> G2engine \<Rightarrow> World \<Rightarrow> G2engine outcome" where
  "G2engine_InitWithConfigID env moduleName iniParams initConfigID verboseLogging client w =
     facade env
       101 [VString moduleName, VString iniParams, VInt64 initConfigID, VInt verboseLogging]
       8048 [''iniParams'' \<mapsto> iniParams, ''initConfigID'' \<mapsto> FormatInt initConfigID,
            ''moduleName'' \<mapsto> moduleName, ''verboseLogging'' \<mapsto> Itoa verboseLogging]
       102 [VString moduleName, VString iniParams, VInt64 initConfigID, VInt verboseLogging]
       (\<lambda>err. [VError err])
       client w"

definition G2engine_PrimeEngine ::
  "Env \<Rightarrow> G2engine \<Rightarrow> World \<Rightarrow> G2engine outcome" where
  "G2engine_PrimeEngine env client w =
     facade env
       103 []
       8049 Map.empty
       104 []
       (\<lambda>err. [VError err])
       client w"

definition G2engine_Process ::
  "Env \<Rightarrow> string \<Rightarrow> G2engine \<Rightarrow> World \<Rightarrow> G2engine outcome" where
  "G2engine_Process env record client w =
     facade env
       105 [VString record]
       8050 Map.empty
       106 [VString record]
       (\<lambda>err. [VError err])
       client w"

definition G2engine_ProcessRedoRecord ::
  "Env \<Rightarrow> G2engine \<Rightarrow> World \<Rightarrow> G2engine outcome" where
  "G2engine_ProcessRedoRecord env client w =
     facade env
       107 []
       8051 Map.empty
       108 [VString (ProcessRedoRecordResult client)]
       (\<lambda>err. [VString (ProcessRedoRecordResult client), VError err])
       client w"

definition G2engine_ProcessRedoRecordWithInfo ::
  "Env \<Rightarrow> int64 \<Rightarrow> G2engine \<Rightarrow> World \<Rightarrow> G2engine outcome" where
  "G2engine_ProcessRedoRecordWithInfo env flags client w =
     facade env
       109 [VInt64 flags]
       8052 Map.empty
       110 [VInt64 flags, VString (ProcessRedoRecordWithInfoResult client),
         VString (ProcessRedoRecordWithInfoResultWithInfo client)]
       (\<lambda>err. [VString (ProcessRedoRecordWithInfoResult client),
                VString (ProcessRedoRecordWithInfoResultWithInfo client), VError err])
       client w"

definition G2engine_ProcessWithInfo ::
  "Env \<Rightarrow> string \<Rightarrow> int64 \<Rightarrow> G2engine \<Rightarrow> World \<Rightarrow> G2engine outcome" where
  "G2engine_ProcessWithInfo env record flags client w =
     facade env
       111 [VString record, VInt64 flags]
       8053 Map.empty
       112 [VString record, VInt64 flags, VString (ProcessWithInfoResult client)]
       (\<lambda>err. [VString (ProcessWithInfoResult client), VError err])
       client w"

definition G2engine_ProcessWithResponse ::
  "Env \<Rightarrow> string \<Rightarrow> G2engine \<Rightarrow> World \<Rightarrow> G2engine outcome" where
  "G2engine_ProcessWithResponse env record client w =
     facade env
       113 [VString record]
       8054 Map.empty
       114 [VString record, VString (ProcessWithResponseResult client)]
       (\<lambda>err. [VString (ProcessWithResponseResult client), VError err])
       client w"

definition G2engine_ProcessWithResponseResize ::
  "Env \<Rightarrow> string \<Rightarrow> G2engine \<Rightarrow> World \<Rightarrow> G2engine outcome" where
  "G2engine_ProcessWithResponseResize env record client w =
     facade env
       115 [VString record]
       8055 Map.empty
       116 [VString record, VString (ProcessWithResponseResizeResult client)]
       (\<lambda>err. [VString (ProcessWithResponseResizeResult client), VError err])
       client w"

definition G2engine_PurgeRepository ::
  "Env \<Rightarrow> G2engine \<Rightarrow> World \<Rightarrow> G2engine outcome" where
  "G2engine_PurgeRepository env client w =
     facade env
       117 []
       8056 Map.empty
       118 []
       (\<lambda>err. [VError err])
       client w"

definition G2engine_ReevaluateEntity ::
  "Env \<Rightarrow> int64 \<Rightarrow> int64 \<Rightarrow> G2engine \<Rightarrow> World \<Rightarrow> G2engine outcome" where
  "G2engine_ReevaluateEntity env entityID flags client w =
     facade env
       119 [VInt64 entityID, VInt64 flags]
       8057 [''entityID'' \<mapsto> FormatInt entityID]
       120 [VInt64 entityID, VInt64 flags]
       (\<lambda>err. [VError err])
       client w"

definition G2engine_ReevaluateEntityWithInfo ::
  "Env \<Rightarrow> int64 \<Rightarrow> int64 \<Rightarrow> G2engine \<Rightarrow> World \<Rightarrow> G2engine outcome" where
  "G2engine_ReevaluateEntityWithInfo env entityID flags client w =
     facade env
       121 [VInt64 entityID, VInt64 flags]
       8058 [''entityID'' \<mapsto> FormatInt entityID]
       122 [VInt64 entityID, VInt64 flags, VString (ReevaluateEntityWithInfoResult client)]
       (\<lambda>err. [VString (ReevaluateEntityWithInfoResult client), VError err])
       client w"

definition G2engine_ReevaluateRecord ::
  "Env \<Rightarrow> string \<Rightarrow> string \<Rightarrow> int64 \<Rightarrow> G2engine \<Rightarrow> World \<Rightarrow> G2engine outcome" where
  "G2engine_ReevaluateRecord env dataSourceCode recordID flags client w =
     facade env
       123 [VString dataSourceCode, VString recordID, VInt64 flags]
       8059 [''dataSourceCode'' \<mapsto> dataSourceCode, ''recordID'' \<mapsto> recordID]
       124 [VString dataSourceCode, VString recordID, VInt64 flags]
       (\<lambda>err. [VError err])
       client w"

definition G2engine_ReevaluateRecordWithInfo ::
  "Env \<Rightarrow> string \<Rightarrow> string \<Rightarrow> int64 \<Rightarrow> G2engine \<Rightarrow> World \<Rightarrow> G2engine outcome" where
  "G2engine_ReevaluateRecordWithInfo env dataSourceCode recordID flags client w =
     facade env
       125 [VString dataSourceCode, VString recordID, VInt64 flags]
       8060 [''dataSourceCode'' \<mapsto> dataSourceCode, ''recordID'' \<mapsto> recordID]
       126 [VString dataSourceCode, VString recordID, VInt64 flags,
         VString (ReevaluateRecordWithInfoResult client)]
       (\<lambda>err. [VString (ReevaluateRecordWithInfoResult client), VError err])
       client w"

definition G2engine_RegisterObserver ::
  "Env \<Rightarrow> Observer \<Rightarrow> G2engine \<Rightarrow> World \<Rightarrow> G2engine outcome" where
  "G2engine_RegisterObserver env observer client w =
     RegisterObserver env 157 8076 158 observer client w"

definition G2engine_Reinit ::
  "Env \<Rightarrow> int64 \<Rightarrow> G2engine \<Rightarrow> World \<Rightarrow> G2engine outcome" where
  "G2engine_Reinit env initConfigID client w =
     facade env
       127 [VInt64 initConfigID]
       8061 [''initConfigID'' \<mapsto> FormatInt initConfigID]
       128 [VInt64 initConfigID]
       (\<lambda>err. [VError err])
       client w"

definition G2engine_ReplaceRecord ::
  "Env \<Rightarrow> string \<Rightarrow> string \<Rightarrow> string \<Rightarrow> string \<Rightarrow> G2engine \<Rightarrow> World \<Rightarrow> G2engine outcome" where
  "G2engine_ReplaceRecord env dataSourceCode recordID jsonData loadID client w =
     facade env
       129 [VString dataSourceCode, VString recordID, VString jsonData, VString loadID]
       8062 [''dataSourceCode'' \<mapsto> dataSourceCode, ''recordID'' \<mapsto> recordID,
            ''loadID'' \<mapsto> loadID]
       130 [VString dataSourceCode, VString recordID, VString jsonData, VString loadID]
       (\<lambda>err. [VError err])
       client w"

definition G2engine_ReplaceRecordWithInfo ::
  "Env \<Rightarrow> string \<Rightarrow> string \<Rightarrow> string \<Rightarrow> string \<Rightarrow> int64 \<Rightarrow> G2engine \<Rightarrow> World \<Rightarrow> G2engine outcome" where
  "G2engine_ReplaceRecordWithInfo env dataSourceCode recordID jsonData loadID flags client w =
     facade env
       131 [VString dataSourceCode, VString recordID, VString jsonData, VString loadID, VInt64 flags]
       8063 [''dataSourceCode'' \<mapsto> dataSourceCode, ''recordID'' \<mapsto> recordID,
            ''loadID'' \<mapsto> loadID]
       132 [VString dataSourceCode, VString recordID, VString jsonData, VString loadID, VInt64 flags,
         VString (ReplaceRecordWithInfoResult client)]
       (\<lambda>err. [VString (ReplaceRecordWithInfoResult client), VError err])
       client w"

definition G2engine_SearchByAttributes ::
  "Env \<Rightarrow> string \<Rightarrow> G2engine \<Rightarrow> World \<Rightarrow> G2engine outcome" where
  "G2engine_SearchByAttributes env jsonData client w =
     facade env
       133 [VString jsonData]
       8064 Map.empty
       134 [VString jsonData, VString (SearchByAttributesResult client)]
       (\<lambda>err. [VString (SearchByAttributesResult client), VError err])
       client w"

definition G2engine_SearchByAttributes_V2 ::
  "Env \<Rightarrow> string \<Rightarrow> int64 \<Rightarrow> G2engine \<Rightarrow> World \<Rightarrow> G2engine outcome" where
  "G2engine_SearchByAttributes_V2 env jsonData flags client w =
     facade env
       135 [VString jsonData, VInt64 flags]
       8065 Map.empty
       136 [VString jsonData, VInt64 flags, VString (SearchByAttributes_V2Result client)]
       (\<lambda>err. [VString (SearchByAttributes_V2Result client), VError err])
       client w"

definition G2engine_SetLogLevel ::
  "Env \<Rightarrow> Level \<Rightarrow> G2engine \<Rightarrow> World \<Rightarrow> G2engine outcome" where
  "G2engine_SetLogLevel env logLevel client w =
     SetLogLevel env 137 8077 138 logLevel client w"

definition G2engine_Stats ::
  "Env \<Rightarrow> G2engine \<Rightarrow> World \<Rightarrow> G2engine outcome" where
  "G2engine_Stats env client w =
     facade env
       139 []
       8066 Map.empty
       140 [VString (StatsResult client)]
       (\<lambda>err. [VString (StatsResult client), VError err])
       client w"

definition G2engine_UnregisterObserver ::
  "Env \<Rightarrow> Observer \<Rightarrow> G2engine \<Rightarrow> World \<Rightarrow> G2engine outcome" where
  "G2engine_UnregisterObserver env observer client w =
     UnregisterObserver env (g2engine_ProductId env) 159 8078 160 observer client w"

definition G2engine_WhyEntities ::
  "Env \<Rightarrow> int64 \<Rightarrow> int64 \<Rightarrow> G2engine \<Rightarrow> World \<Rightarrow> G2engine outcome" where
  "G2engine_WhyEntities env entityID1 entityID2 client w =
     facade env
       141 [VInt64 entityID1, VInt64 entityID2]
       8067 [''entityID1'' \<mapsto> FormatInt entityID1, ''entityID2'' \<mapsto> FormatInt entityID2]
       142 [VInt64 entityID1, VInt64 entityID2, VString (WhyEntitiesResult client)]
       (\<lambda>err. [VString (WhyEntitiesResult client), VError err])
       client w"

definition G2engine_WhyEntities_V2 ::
  "Env \<Rightarrow> int64 \<Rightarrow> int64 \<Rightarrow> int64 \<Rightarrow> G2engine \<Rightarrow> World \<Rightarrow> G2engine outcome" where
  "G2engine_WhyEntities_V2 env entityID1 entityID2 flags client w =
     facade env
       143 [VInt64 entityID1, VInt64 entityID2, VInt64 flags]
       8068 [''entityID1'' \<mapsto> FormatInt entityID1, ''entityID2'' \<mapsto> FormatInt entityID2]
       144 [VInt64 entityID1, VInt64 entityID2, VInt64 flags, VString (WhyEntities_V2Result client)]
       (\<lambda>err. [VString (WhyEntities_V2Result client), VError err])
       client w"

definition G2engine_WhyEntityByEntityID ::
  "Env \<Rightarrow> int64 \<Rightarrow> G2engine \<Rightarrow> World \<Rightarrow> G2engine outcome" where
  "G2engine_WhyEntityByEntityID env entityID client w =
     facade env
       145 [VInt64 entityID]
       8069 [''entityID'' \<mapsto> FormatInt entityID]
       146 [VInt64 entityID, VString (WhyEntityByEntityIDResult client)]
       (\<lambda>err. [VString (WhyEntityByEntityIDResult client), VError err])
       client w"

definition G2engine_WhyEntityByEntityID_V2 ::
  "Env \<Rightarrow> int64 \<Rightarrow> int64 \<Rightarrow> G2engine \<Rightarrow> World \<Rightarrow> G2engine outcome" where
  "G2engine_WhyEntityByEntityID_V2 env entityID flags client w =
     facade env
       147 [VInt64 entityID, VInt64 flags]
       8070 [''entityID'' \<mapsto> FormatInt entityID]
       148 [VInt64 entityID, VInt64 flags, VString (WhyEntityByEntityID_V2Result client)]
       (\<lambda>err. [VString (WhyEntityByEntityID_V2Result client), VError err])
       client w"

definition G2engine_WhyEntityByRecordID ::
  "Env \<Rightarrow> string \<Rightarrow> string \<Rightarrow> G2engine \<Rightarrow> World \<Rightarrow> G2engine outcome" where
  "G2engine_WhyEntityByRecordID env dataSourceCode recordID client w =
     facade env
       149 [VString dataSourceCode, VString recordID]
       8071 [''dataSourceCode'' \<mapsto> dataSourceCode, ''recordID'' \<mapsto> recordID]
       150 [VString dataSourceCode, VString recordID, VString (WhyEntityByRecordIDResult client)]
       (\<lambda>err. [VString (WhyEntityByRecordIDResult client), VError err])
       client w"

definition G2engine_WhyEntityByRecordID_V2 ::
  "Env \<Rightarrow> string \<Rightarrow> string \<Rightarrow> int64 \<Rightarrow> G2engine \<Rightarrow> World \<Rightarrow> G2engine outcome" where
  "G2engine_WhyEntityByRecordID_V2 env dataSourceCode recordID flags client w =
     facade env
       151 [VString dataSourceCode, VString recordID, VInt64 flags]
       8072 [''dataSourceCode'' \<mapsto> dataSourceCode, ''recordID'' \<mapsto> recordID]
       152 [VString dataSourceCode, VString recordID, VInt64 flags,
         VString (WhyEntityByRecordID_V2Result client)]
       (\<lambda>err. [VString (WhyEntityByRecordID_V2Result client), VError err])
       client w"

definition G2engine_WhyRecords ::
  "Env \<Rightarrow> string \<Rightarrow> string \<Rightarrow> string \<Rightarrow> string \<Rightarrow> G2engine \<Rightarrow> World \<Rightarrow> G2engine outcome" where
  "G2engine_WhyRecords env dataSourceCode1 recordID1 dataSourceCode2 recordID2 client w =
     facade env
       153 [VString dataSourceCode1, VString recordID1, VString dataSourceCode2, VString recordID2]
       8073 [''dataSourceCode1'' \<mapsto> dataSourceCode1, ''recordID1'' \<mapsto> recordID1,
            ''dataSourceCode2'' \<mapsto> dataSourceCode2, ''recordID2'' \<mapsto> recordID2]
       154 [VString dataSourceCode1, VString recordID1, VString dataSourceCode2, VString recordID2,
         VString (WhyRecordsResult client)]
       (\<lambda>err. [VString (WhyRecordsResult client), VError err])
       client w"

definition G2engine_WhyRecords_V2 ::
  "Env \<Rightarrow> string \<Rightarrow> string \<Rightarrow> string \<Rightarrow> string \<Rightarrow> int64 \<Rightarrow> G2engine \<Rightarrow> World \<Rightarrow> G2engine outcome" where
  "G2engine_WhyRecords_V2 env dataSourceCode1 recordID1 dataSourceCode2 recordID2 flags client w =
     facade env
       155 [VString dataSourceCode1, VString recordID1, VString dataSourceCode2, VString recordID2,
         VInt64 flags]
       8074 [''dataSourceCode1'' \<mapsto> dataSourceCode1, ''recordID1'' \<mapsto> recordID1,
            ''dataSourceCode2'' \<mapsto> dataSourceCode2, ''recordID2'' \<mapsto> recordID2]
       156 [VString dataSourceCode1, VString recordID1, VString dataSourceCode2, VString recordID2,
         VInt64 flags, VString (WhyRecords_V2Result client)]
       (\<lambda>err. [VString (WhyRecords_V2Result client), VError err])
       client w"

text \<open>The method set of \<^verbatim>\<open>G2engine\<close>: \<open>G2engine_operation env name m\<close> holds when \<open>m\<close> is
  the method \<open>name\<close> applied to some arguments.\<close>

inductive G2engine_operation ::
  "Env \<Rightarrow> string \<Rightarrow> (G2engine \<Rightarrow> World \<Rightarrow> G2engine outcome) \<Rightarrow> bool"
  for env :: Env where
  op_G2engine_AddRecord:
    "G2engine_operation env ''AddRecord'' (G2engine_AddRecord env dataSourceCode recordID jsonData loadID)"
| op_G2engine_AddRecordWithInfo:
    "G2engine_operation env ''AddRecordWithInfo'' (G2engine_AddRecordWithInfo env dataSourceCode recordID jsonData loadID flags)"
| op_G2engine_AddRecordWithInfoWithReturnedRecordID:
    "G2engine_operation env ''AddRecordWithInfoWithReturnedRecordID'' (G2engine_AddRecordWithInfoWithReturnedRecordID env dataSourceCode jsonData loadID flags)"
| op_G2engine_AddRecordWithReturnedRecordID:
    "G2engine_operation env ''AddRecordWithReturnedRecordID'' (G2engine_AddRecordWithReturnedRecordID env dataSourceCode jsonData loadID)"
| op_G2engine_CheckRecord:
    "G2engine_operation env ''CheckRecord'' (G2engine_CheckRecord env record recordQueryList)"
| op_G2engine_CloseExport:
    "G2engine_operation env ''CloseExport'' (G2engine_CloseExport env responseHandle)"
| op_G2engine_CountRedoRecords:
    "G2engine_operation env ''CountRedoRecords'' (G2engine_CountRedoRecords env)"
| op_G2engine_DeleteRecord:
    "G2engine_operation env ''DeleteRecord'' (G2engine_DeleteRecord env dataSourceCode recordID loadID)"
| op_G2engine_DeleteRecordWithInfo:
    "G2engine_operation env ''DeleteRecordWithInfo'' (G2engine_DeleteRecordWithInfo env dataSourceCode recordID loadID flags)"
| op_G2engine_Destroy:
    "G2engine_operation env ''Destroy'' (G2engine_Destroy env)"
| op_G2engine_ExportConfig:
    "G2engine_operation env ''ExportConfig'' (G2engine_ExportConfig env)"
| op_G2engine_ExportConfigAndConfigID:
    "G2engine_operation env ''ExportConfigAndConfigID'' (G2engine_ExportConfigAndConfigID env)"
| op_G2engine_ExportCSVEntityReport:
    "G2engine_operation env ''ExportCSVEntityReport'' (G2engine_ExportCSVEntityReport env csvColumnList flags)"
| op_G2engine_ExportJSONEntityReport:
    "G2engine_operation env ''ExportJSONEntityReport'' (G2engine_ExportJSONEntityReport env flags)"
| op_G2engine_FetchNext:
    "G2engine_operation env ''FetchNext'' (G2engine_FetchNext env responseHandle)"
| op_G2engine_FindInterestingEntitiesByEntityID:
    "G2engine_operation env ''FindInterestingEntitiesByEntityID'' (G2engine_FindInterestingEntitiesByEntityID env entityID flags)"
| op_G2engine_FindInterestingEntitiesByRecordID:
    "G2engine_operation env ''FindInterestingEntitiesByRecordID'' (G2engine_FindInterestingEntitiesByRecordID env dataSourceCode recordID flags)"
| op_G2engine_FindNetworkByEntityID:
    "G2engine_operation env ''FindNetworkByEntityID'' (G2engine_FindNetworkByEntityID env entityList maxDegree buildOutDegree maxEntities)"
| op_G2engine_FindNetworkByEntityID_V2:
    "G2engine_operation env ''FindNetworkByEntityID_V2'' (G2engine_FindNetworkByEntityID_V2 env entityList maxDegree buildOutDegree maxEntities flags)"
| op_G2engine_FindNetworkByRecordID:
    "G2engine_operation env ''FindNetworkByRecordID'' (G2engine_FindNetworkByRecordID env recordList maxDegree buildOutDegree maxEntities)"
| op_G2engine_FindNetworkByRecordID_V2:
    "G2engine_operation env ''FindNetworkByRecordID_V2'' (G2engine_FindNetworkByRecordID_V2 env recordList maxDegree buildOutDegree maxEntities flags)"
| op_G2engine_FindPathByEntityID:
    "G2engine_operation env ''FindPathByEntityID'' (G2engine_FindPathByEntityID env entityID1 entityID2 maxDegree)"
| op_G2engine_FindPathByEntityID_V2:
    "G2engine_operation env ''FindPathByEntityID_V2'' (G2engine_FindPathByEntityID_V2 env entityID1 entityID2 maxDegree flags)"
| op_G2engine_FindPathByRecordID:
    "G2engine_operation env ''FindPathByRecordID'' (G2engine_FindPathByRecordID env dataSourceCode1 recordID1 dataSourceCode2 recordID2 maxDegree)"
| op_G2engine_FindPathByRecordID_V2:
    "G2engine_operation env ''FindPathByRecordID_V2'' (G2engine_FindPathByRecordID_V2 env dataSourceCode1 recordID1 dataSourceCode2 recordID2 maxDegree flags)"
| op_G2engine_FindPathExcludingByEntityID:
    "G2engine_operation env ''FindPathExcludingByEntityID'' (G2engine_FindPathExcludingByEntityID env entityID1 entityID2 maxDegree excludedEntities)"
| op_G2engine_FindPathExcludingByEntityID_V2:
    "G2engine_operation env ''FindPathExcludingByEntityID_V2'' (G2engine_FindPathExcludingByEntityID_V2 env entityID1 entityID2 maxDegree excludedEntities flags)"
| op_G2engine_FindPathExcludingByRecordID:
    "G2engine_operation env ''FindPathExcludingByRecordID'' (G2engine_FindPathExcludingByRecordID env dataSourceCode1 recordID1 dataSourceCode2 recordID2 maxDegree excludedRecords)"
| op_G2engine_FindPathExcludingByRecordID_V2:
    "G2engine_operation env ''FindPathExcludingByRecordID_V2'' (G2engine_FindPathExcludingByRecordID_V2 env dataSourceCode1 recordID1 dataSourceCode2 recordID2 maxDegree excludedRecords flags)"
| op_G2engine_FindPathIncludingSourceByEntityID:
    "G2engine_operation env ''FindPathIncludingSourceByEntityID'' (G2engine_FindPathIncludingSourceByEntityID env entityID1 entityID2 maxDegree excludedEntities requiredDsrcs)"
| op_G2engine_FindPathIncludingSourceByEntityID_V2:
    "G2engine_operation env ''FindPathIncludingSourceByEntityID_V2'' (G2engine_FindPathIncludingSourceByEntityID_V2 env entityID1 entityID2 maxDegree excludedEntities requiredDsrcs flags)"
| op_G2engine_FindPathIncludingSourceByRecordID:
    "G2engine_operation env ''FindPathIncludingSourceByRecordID'' (G2engine_FindPathIncludingSourceByRecordID env dataSourceCode1 recordID1 dataSourceCode2 recordID2 maxDegree excludedRecords requiredDsrcs)"
| op_G2engine_FindPathIncludingSourceByRecordID_V2:
    "G2engine_operation env ''FindPathIncludingSourceByRecordID_V2'' (G2engine_FindPathIncludingSourceByRecordID_V2 env dataSourceCode1 recordID1 dataSourceCode2 recordID2 maxDegree excludedRecords requiredDsrcs flags)"
| op_G2engine_GetActiveConfigID:
    "G2engine_operation env ''GetActiveConfigID'' (G2engine_GetActiveConfigID env)"
| op_G2engine_GetEntityByEntityID:
    "G2engine_operation env ''GetEntityByEntityID'' (G2engine_GetEntityByEntityID env entityID)"
| op_G2engine_GetEntityByEntityID_V2:
    "G2engine_operation env ''GetEntityByEntityID_V2'' (G2engine_GetEntityByEntityID_V2 env entityID flags)"
| op_G2engine_GetEntityByRecordID:
    "G2engine_operation env ''GetEntityByRecordID'' (G2engine_GetEntityByRecordID env dataSourceCode recordID)"
| op_G2engine_GetEntityByRecordID_V2:
    "G2engine_operation env ''GetEntityByRecordID_V2'' (G2engine_GetEntityByRecordID_V2 env dataSourceCode recordID flags)"
| op_G2engine_GetRecord:
    "G2engine_operation env ''GetRecord'' (G2engine_GetRecord env dataSourceCode recordID)"
| op_G2engine_GetRecord_V2:
    "G2engine_operation env ''GetRecord_V2'' (G2engine_GetRecord_V2 env dataSourceCode recordID flags)"
| op_G2engine_GetRedoRecord:
    "G2engine_operation env ''GetRedoRecord'' (G2engine_GetRedoRecord env)"
| op_G2engine_GetRepositoryLastModifiedTime:
    "G2engine_operation env ''GetRepositoryLastModifiedTime'' (G2engine_GetRepositoryLastModifiedTime env)"
| op_G2engine_GetSdkId:
    "G2engine_operation env ''GetSdkId'' (G2engine_GetSdkId env)"
| op_G2engine_GetVirtualEntityByRecordID:
    "G2engine_operation env ''GetVirtualEntityByRecordID'' (G2engine_GetVirtualEntityByRecordID env recordList)"
| op_G2engine_GetVirtualEntityByRecordID_V2:
    "G2engine_operation env ''GetVirtualEntityByRecordID_V2'' (G2engine_GetVirtualEntityByRecordID_V2 env recordList flags)"
| op_G2engine_HowEntityByEntityID:
    "G2engine_operation env ''HowEntityByEntityID'' (G2engine_HowEntityByEntityID env entityID)"
| op_G2engine_HowEntityByEntityID_V2:
    "G2engine_operation env ''HowEntityByEntityID_V2'' (G2engine_HowEntityByEntityID_V2 env entityID flags)"
| op_G2engine_Init:
    "G2engine_operation env ''Init'' (G2engine_Init env moduleName iniParams verboseLogging)"
| op_G2engine_InitWithConfigID:
    "G2engine_operation env ''InitWithConfigID'' (G2engine_InitWithConfigID env moduleName iniParams initConfigID verboseLogging)"
| op_G2engine_PrimeEngine:
    "G2engine_operation env ''PrimeEngine'' (G2engine_PrimeEngine env)"
| op_G2engine_Process:
    "G2engine_operation env ''Process'' (G2engine_Process env record)"
| op_G2engine_ProcessRedoRecord:
    "G2engine_operation env ''ProcessRedoRecord'' (G2engine_ProcessRedoRecord env)"
| op_G2engine_ProcessRedoRecordWithInfo:
    "G2engine_operation env ''ProcessRedoRecordWithInfo'' (G2engine_ProcessRedoRecordWithInfo env flags)"
| op_G2engine_ProcessWithInfo:
    "G2engine_operation env ''ProcessWithInfo'' (G2engine_ProcessWithInfo env record flags)"
| op_G2engine_ProcessWithResponse:
    "G2engine_operation env ''ProcessWithResponse'' (G2engine_ProcessWithResponse env record)"
| op_G2engine_ProcessWithResponseResize:
    "G2engine_operation env ''ProcessWithResponseResize'' (G2engine_ProcessWithResponseResize env record)"
| op_G2engine_PurgeRepository:
    "G2engine_operation env ''PurgeRepository'' (G2engine_PurgeRepository env)"
| op_G2engine_ReevaluateEntity:
    "G2engine_operation env ''ReevaluateEntity'' (G2engine_ReevaluateEntity env entityID flags)"
| op_G2engine_ReevaluateEntityWithInfo:
    "G2engine_operation env ''ReevaluateEntityWithInfo'' (G2engine_ReevaluateEntityWithInfo env entityID flags)"
| op_G2engine_ReevaluateRecord:
    "G2engine_operation env ''ReevaluateRecord'' (G2engine_ReevaluateRecord env dataSourceCode recordID flags)"
| op_G2engine_ReevaluateRecordWithInfo:
    "G2engine_operation env ''ReevaluateRecordWithInfo'' (G2engine_ReevaluateRecordWithInfo env dataSourceCode recordID flags)"
| op_G2engine_RegisterObserver:
    "G2engine_operation env ''RegisterObserver'' (G2engine_RegisterObserver env observer)"
| op_G2engine_Reinit:
    "G2engine_operation env ''Reinit'' (G2engine_Reinit env initConfigID)"
| op_G2engine_ReplaceRecord:
    "G2engine_operation env ''ReplaceRecord'' (G2engine_ReplaceRecord env dataSourceCode recordID jsonData loadID)"
| op_G2engine_ReplaceRecordWithInfo:
    "G2engine_operation env ''ReplaceRecordWithInfo'' (G2engine_ReplaceRecordWithInfo env dataSourceCode recordID jsonData loadID flags)"
| op_G2engine_SearchByAttributes:
    "G2engine_operation env ''SearchByAttributes'' (G2engine_SearchByAttributes env jsonData)"
| op_G2engine_SearchByAttributes_V2:
    "G2engine_operation env ''SearchByAttributes_V2'' (G2engine_SearchByAttributes_V2 env jsonData flags)"
| op_G2engine_SetLogLevel:
    "G2engine_operation env ''SetLogLevel'' (G2engine_SetLogLevel env logLevel)"
| op_G2engine_Stats:
    "G2engine_operation env ''Stats'' (G2engine_Stats env)"
| op_G2engine_UnregisterObserver:
    "G2engine_operation env ''UnregisterObserver'' (G2engine_UnregisterObserver env observer)"
| op_G2engine_WhyEntities:
    "G2engine_operation env ''WhyEntities'' (G2engine_WhyEntities env entityID1 entityID2)"
| op_G2engine_WhyEntities_V2:
    "G2engine_operation env ''WhyEntities_V2'' (G2engine_WhyEntities_V2 env entityID1 entityID2 flags)"
| op_G2engine_WhyEntityByEntityID:
    "G2engine_operation env ''WhyEntityByEntityID'' (G2engine_WhyEntityByEntityID env entityID)"
| op_G2engine_WhyEntityByEntityID_V2:
    "G2engine_operation env ''WhyEntityByEntityID_V2'' (G2engine_WhyEntityByEntityID_V2 env entityID flags)"
| op_G2engine_WhyEntityByRecordID:
    "G2engine_operation env ''WhyEntityByRecordID'' (G2engine_WhyEntityByRecordID env dataSourceCode recordID)"
| op_G2engine_WhyEntityByRecordID_V2:
    "G2engine_operation env ''WhyEntityByRecordID_V2'' (G2engine_WhyEntityByRecordID_V2 env dataSourceCode recordID flags)"
| op_G2engine_WhyRecords:
    "G2engine_operation env ''WhyRecords'' (G2engine_WhyRecords env dataSourceCode1 recordID1 dataSourceCode2 recordID2)"
| op_G2engine_WhyRecords_V2:
    "G2engine_operation env ''WhyRecords_V2'' (G2engine_WhyRecords_V2 env dataSourceCode1 recordID1 dataSourceCode2 recordID2 flags)"

subsection \<open>\<^verbatim>\<open>G2configmgr\<close>\<close>

record G2configmgr = Client +
  AddConfigResult :: int64
  GetConfigResult :: string
  GetConfigListResult :: string
  GetDefaultConfigIDResult :: int64

text \<open>The zero value of the struct: what a freshly constructed client is.\<close>

definition G2configmgr_zero :: G2configmgr where
  "G2configmgr_zero =
     \<lparr>isTrace = False,
      logger = None,
      observers = None,
      AddConfigResult = 0,
      GetConfigResult = '''',
      GetConfigListResult = '''',
      GetDefaultConfigIDResult = 0\<rparr>"

definition G2configmgr_AddConfig ::
  "Env \<Rightarrow> string \<Rightarrow> string \<Rightarrow> G2configmgr \<Rightarrow> World \<Rightarrow> G2configmgr outcome" where
  "G2configmgr_AddConfig env configStr configComments client w =
     facade env
       1 [VString configStr, VString configComments]
       8001 [''configComments'' \<mapsto> configComments]
       2 [VString configStr, VString configComments, VInt64 (AddConfigResult client)]
       (\<lambda>err. [VInt64 (AddConfigResult client), VError err])
       client w"

definition G2configmgr_Destroy ::
  "Env \<Rightarrow> G2configmgr \<Rightarrow> World \<Rightarrow> G2configmgr outcome" where
  "G2configmgr_Destroy env client w =
     facade env
       5 []
       8002 Map.empty
       6 []
       (\<lambda>err. [VError err])
       client w"

definition G2configmgr_GetConfig ::
  "Env \<Rightarrow> int64 \<Rightarrow> G2configmgr \<Rightarrow> World \<Rightarrow> G2configmgr outcome" where
  "G2configmgr_GetConfig env configID client w =
     facade env
       7 [VInt64 configID]
       8003 Map.empty
       8 [VInt64 configID, VString (GetConfigResult client)]
       (\<lambda>err. [VString (GetConfigResult client), VError err])
       client w"

definition G2configmgr_GetConfigList ::
  "Env \<Rightarrow> G2configmgr \<Rightarrow> World \<Rightarrow> G2configmgr outcome" where
  "G2configmgr_GetConfigList env client w =
     facade env
       9 []
       8004 Map.empty
       10 [VString (GetConfigListResult client)]
       (\<lambda>err. [VString (GetConfigListResult client), VError err])
       client w"

definition G2configmgr_GetDefaultConfigID ::
  "Env \<Rightarrow> G2configmgr \<Rightarrow> World \<Rightarrow> G2configmgr outcome" where
  "G2configmgr_GetDefaultConfigID env client w =
     facade env
       11 []
       8005 Map.empty
       12 [VInt64 (GetDefaultConfigIDResult client)]
       (\<lambda>err. [VInt64 (GetDefaultConfigIDResult client), VError err])
       client w"

definition G2configmgr_GetSdkId ::
  "Env \<Rightarrow> G2configmgr \<Rightarrow> World \<Rightarrow> G2configmgr outcome" where
  "G2configmgr_GetSdkId env client w =
     facade env
       29 []
       8010 Map.empty
       30 []
       (\<lambda>err. [VString ''mock''])
       client w"

definition G2configmgr_Init ::
  "Env \<Rightarrow> string \<Rightarrow> string \<Rightarrow> int \<Rightarrow> G2configmgr \<Rightarrow> World \<Rightarrow> G2configmgr outcome" where
  "G2configmgr_Init env moduleName iniParams verboseLogging client w =
     facade env
       17 [VString moduleName, VString iniParams, VInt verboseLogging]
       8006 [''iniParams'' \<mapsto> iniParams, ''moduleName'' \<mapsto> moduleName,
            ''verboseLogging'' \<mapsto> Itoa verboseLogging]
       18 [VString moduleName, VString iniParams, VInt verboseLogging]
       (\<lambda>err. [VError err])
       client w"

definition G2configmgr_RegisterObserver ::
  "Env \<Rightarrow> Observer \<Rightarrow> G2configmgr \<Rightarrow> World \<Rightarrow> G2configmgr outcome" where
  "G2configmgr_RegisterObserver env observer client w =
     RegisterObserver env 25 8010 26 observer client w"

definition G2configmgr_ReplaceDefaultConfigID ::
  "Env \<Rightarrow> int64 \<Rightarrow> int64 \<Rightarrow> G2configmgr \<Rightarrow> World \<Rightarrow> G2configmgr outcome" where
  "G2configmgr_ReplaceDefaultConfigID env oldConfigID newConfigID client w =
     facade env
       19 [VInt64 oldConfigID, VInt64 newConfigID]
       8007 [''newConfigID'' \<mapsto> FormatInt newConfigID]
       20 [VInt64 oldConfigID, VInt64 newConfigID]
       (\<lambda>err. [VError err])
       client w"

definition G2configmgr_SetDefaultConfigID ::
  "Env \<Rightarrow> int64 \<Rightarrow> G2configmgr \<Rightarrow> World \<Rightarrow> G2configmgr outcome" where
  "G2configmgr_SetDefaultConfigID env configID client w =
     facade env
       21 [VInt64 configID]
       8008 [''configID'' \<mapsto> FormatInt configID]
       22 [VInt64 configID]
       (\<lambda>err. [VError err])
       client w"

definition G2configmgr_SetLogLevel ::
  "Env \<Rightarrow> Level \<Rightarrow> G2configmgr \<Rightarrow> World \<Rightarrow> G2configmgr outcome" where
  "G2configmgr_SetLogLevel env logLevel client w =
     SetLogLevel env 23 8011 24 logLevel client w"

definition G2configmgr_UnregisterObserver ::
  "Env \<Rightarrow> Observer \<Rightarrow> G2configmgr \<Rightarrow> World \<Rightarrow> G2configmgr outcome" where
  "G2configmgr_UnregisterObserver env observer client w =
     UnregisterObserver env (g2configmgr_ProductId env) 27 8012 28 observer client w"

text \<open>The method set of \<^verbatim>\<open>G2configmgr\<close>: \<open>G2configmgr_operation env name m\<close> holds when \<open>m\<close> is
  the method \<open>name\<close> applied to some arguments.\<close>

inductive G2configmgr_operation ::
  "Env \<Rightarrow> string \<Rightarrow> (G2configmgr \<Rightarrow> World \<Rightarrow> G2configmgr outcome) \<Rightarrow> bool"
  for env :: Env where
  op_G2configmgr_AddConfig:
    "G2configmgr_operation env ''AddConfig'' (G2configmgr_AddConfig env configStr configComments)"
| op_G2configmgr_Destroy:
    "G2configmgr_operation env ''Destroy'' (G2configmgr_Destroy env)"
| op_G2configmgr_GetConfig:
    "G2configmgr_operation env ''GetConfig'' (G2configmgr_GetConfig env configID)"
| op_G2configmgr_GetConfigList:
    "G2configmgr_operation env ''GetConfigList'' (G2configmgr_GetConfigList env)"
| op_G2configmgr_GetDefaultConfigID:
    "G2configmgr_operation env ''GetDefaultConfigID'' (G2configmgr_GetDefaultConfigID env)"
| op_G2configmgr_GetSdkId:
    "G2configmgr_operation env ''GetSdkId'' (G2configmgr_GetSdkId env)"
| op_G2configmgr_Init:
    "G2configmgr_operation env ''Init'' (G2configmgr_Init env moduleName iniParams verboseLogging)"
| op_G2configmgr_RegisterObserver:
    "G2configmgr_operation env ''RegisterObserver'' (G2configmgr_RegisterObserver env observer)"
| op_G2configmgr_ReplaceDefaultConfigID:
    "G2configmgr_operation env ''ReplaceDefaultConfigID'' (G2configmgr_ReplaceDefaultConfigID env oldConfigID newConfigID)"
| op_G2configmgr_SetDefaultConfigID:
    "G2configmgr_operation env ''SetDefaultConfigID'' (G2configmgr_SetDefaultConfigID env configID)"
| op_G2configmgr_SetLogLevel:
    "G2configmgr_operation env ''SetLogLevel'' (G2configmgr_SetLogLevel env logLevel)"
| op_G2configmgr_UnregisterObserver:
    "G2configmgr_operation env ''UnregisterObserver'' (G2configmgr_UnregisterObserver env observer)"

subsection \<open>\<^verbatim>\<open>G2product\<close>\<close>

record G2product = Client +
  LicenseResult :: string
  ValidateLicenseFileResult :: string
  ValidateLicenseStringBase64Result :: string
  VersionResult :: string

text \<open>The zero value of the struct: what a freshly constructed client is.\<close>

definition G2product_zero :: G2product where
  "G2product_zero =
     \<lparr>isTrace = False,
      logger = None,
      observers = None,
      LicenseResult = '''',
      ValidateLicenseFileResult = '''',
      ValidateLicenseStringBase64Result = '''',
      VersionResult = ''''\<rparr>"

definition G2product_Destroy ::
  "Env \<Rightarrow> G2product \<Rightarrow> World \<Rightarrow> G2product outcome" where
  "G2product_Destroy env client w =
     facade env
       3 []
       8001 Map.empty
       4 []
       (\<lambda>err. [VError err])
       client w"

definition G2product_GetSdkId ::
  "Env \<Rightarrow> G2product \<Rightarrow> World \<Rightarrow> G2product outcome" where
  "G2product_GetSdkId env client w =
     facade env
       25 []
       8007 Map.empty
       26 []
       (\<lambda>err. [VString ''mock'', VError None])
       client w"

definition G2product_Init ::
  "Env \<Rightarrow> string \<Rightarrow> string \<Rightarrow> int \<Rightarrow> G2product \<Rightarrow> World \<Rightarrow> G2product outcome" where
  "G2product_Init env moduleName iniParams verboseLogging client w =
     facade env
       9 [VString moduleName, VString iniParams, VInt verboseLogging]
       8002 [''iniParams'' \<mapsto> iniParams, ''moduleName'' \<mapsto> moduleName,
            ''verboseLogging'' \<mapsto> Itoa verboseLogging]
       10 [VString moduleName, VString iniParams, VInt verboseLogging]
       (\<lambda>err. [VError err])
       client w"

definition G2product_License ::
  "Env \<Rightarrow> G2product \<Rightarrow> World \<Rightarrow> G2product outcome" where
  "G2product_License env client w =
     facade env
       11 []
       8003 Map.empty
       12 [VString (LicenseResult client)]
       (\<lambda>err. [VString (LicenseResult client), VError err])
       client w"

definition G2product_RegisterObserver ::
  "Env \<Rightarrow> Observer \<Rightarrow> G2product \<Rightarrow> World \<Rightarrow> G2product outcome" where
  "G2product_RegisterObserver env observer client w =
     RegisterObserver env 21 8008 22 observer client w"

definition G2product_SetLogLevel ::
  "Env \<Rightarrow> Level \<Rightarrow> G2product \<Rightarrow> World \<Rightarrow> G2product outcome" where
  "G2product_SetLogLevel env logLevel client w =
     SetLogLevel env 13 8009 14 logLevel client w"

definition G2product_UnregisterObserver ::
  "Env \<Rightarrow> Observer \<Rightarrow> G2product \<Rightarrow> World \<Rightarrow> G2product outcome" where
  "G2product_UnregisterObserver env observer client w =
     UnregisterObserver env (g2product_ProductId env) 23 8010 24 observer client w"

definition G2product_ValidateLicenseFile ::
  "Env \<Rightarrow> string \<Rightarrow> G2product \<Rightarrow> World \<Rightarrow> G2product outcome" where
  "G2product_ValidateLicenseFile env licenseFilePath client w =
     facade env
       15 [VString licenseFilePath]
       8004 Map.empty
       16 [VString licenseFilePath, VString (ValidateLicenseFileResult client)]
       (\<lambda>err. [VString (ValidateLicenseFileResult client), VError err])
       client w"

definition G2product_ValidateLicenseStringBase64 ::
  "Env \<Rightarrow> string \<Rightarrow> G2product \<Rightarrow> World \<Rightarrow> G2product outcome" where
  "G2product_ValidateLicenseStringBase64 env licenseString client w =
     facade env
       17 [VString licenseString]
       8005 Map.empty
       18 [VString licenseString, VString (ValidateLicenseStringBase64Result client)]
       (\<lambda>err. [VString (ValidateLicenseStringBase64Result client), VError err])
       client w"

definition G2product_Version ::
  "Env \<Rightarrow> G2product \<Rightarrow> World \<Rightarrow> G2product outcome" where
  "G2product_Version env client w =
     facade env
       19 []
       8006 Map.empty
       20 [VString (VersionResult client)]
       (\<lambda>err. [VString (VersionResult client), VError err])
       client w"

text \<open>The method set of \<^verbatim>\<open>G2product\<close>: \<open>G2product_operation env name m\<close> holds when \<open>m\<close> is
  the method \<open>name\<close> applied to some arguments.\<close>

inductive G2product_operation ::
  "Env \<Rightarrow> string \<Rightarrow> (G2product \<Rightarrow> World \<Rightarrow> G2product outcome) \<Rightarrow> bool"
  for env :: Env where
  op_G2product_Destroy:
    "G2product_operation env ''Destroy'' (G2product_Destroy env)"
| op_G2product_GetSdkId:
    "G2product_operation env ''GetSdkId'' (G2product_GetSdkId env)"
| op_G2product_Init:
    "G2product_operation env ''Init'' (G2product_Init env moduleName iniParams verboseLogging)"
| op_G2product_License:
    "G2product_operation env ''License'' (G2product_License env)"
| op_G2product_RegisterObserver:
    "G2product_operation env ''RegisterObserver'' (G2product_RegisterObserver env observer)"
| op_G2product_SetLogLevel:
    "G2product_operation env ''SetLogLevel'' (G2product_SetLogLevel env logLevel)"
| op_G2product_UnregisterObserver:
    "G2product_operation env ''UnregisterObserver'' (G2product_UnregisterObserver env observer)"
| op_G2product_ValidateLicenseFile:
    "G2product_operation env ''ValidateLicenseFile'' (G2product_ValidateLicenseFile env licenseFilePath)"
| op_G2product_ValidateLicenseStringBase64:
    "G2product_operation env ''ValidateLicenseStringBase64'' (G2product_ValidateLicenseStringBase64 env licenseString)"
| op_G2product_Version:
    "G2product_operation env ''Version'' (G2product_Version env)"

section \<open>Observations and properties\<close>

text \<open>What a caller sees of an outcome: the returned tuple (\<open>None\<close> after a panic), and
  the client and the world the call leaves behind.\<close>

fun returned :: "'c outcome \<Rightarrow> gval list option" where
  "returned (Return rs c w) = Some rs"
| "returned (Panic c w) = None"

fun client_of :: "'c outcome \<Rightarrow> 'c" where
  "client_of (Return rs c w) = c"
| "client_of (Panic c w) = c"

fun world_of :: "'c outcome \<Rightarrow> World" where
  "world_of (Return rs c w) = w"
| "world_of (Panic c w) = w"

text \<open>Every \<^verbatim>\<open>error\<close> of a returned tuple is \<^verbatim>\<open>nil\<close>.\<close>

fun nil_error :: "gval \<Rightarrow> bool" where
  "nil_error (VError (Some e)) = False"
| "nil_error v = True"

definition nil_errors :: "gval list \<Rightarrow> bool" where
  "nil_errors rs = list_all nil_error rs"

text \<open>The trace events: the calls of the logger's \<^verbatim>\<open>Log\<close> made by \<^verbatim>\<open>traceEntry\<close> and
  \<^verbatim>\<open>traceExit\<close>.\<close>

fun is_Log :: "event \<Rightarrow> bool" where
  "is_Log (Log n args) = True"
| "is_Log e = False"

fun is_UpdateObserver :: "event \<Rightarrow> bool" where
  "is_UpdateObserver (UpdateObserver obs message) = True"
| "is_UpdateObserver e = False"

text \<open>The events a call added to the world \<open>w\<close> it started in.\<close>

definition emitted :: "World \<Rightarrow> 'c outcome \<Rightarrow> event list" where
  "emitted w out = drop (length (events w)) (events (world_of out))"

text \<open>The state invariant of spec 3: the registry is absent or holds at least one
  observer.\<close>

definition registry_inv :: "'a Client_scheme \<Rightarrow> bool" where
  "registry_inv client =
     (case observers client of None \<Rightarrow> True | Some s \<Rightarrow> subject_HasObservers s)"

text \<open>The map that spec 4.2 describes for \<^verbatim>\<open>Notify(eventId, err, contextFields)\<close>: the
  context fields plus \<^verbatim>\<open>subjectId\<close>, \<^verbatim>\<open>messageId\<close> and \<^verbatim>\<open>messageTime\<close> (the reading of the
  clock in the world \<open>w\<close>), plus \<^verbatim>\<open>error\<close> when the error is not \<^verbatim>\<open>nil\<close>.\<close>

definition spec_notify_map ::
  "Env \<Rightarrow> int \<Rightarrow> int \<Rightarrow> error option \<Rightarrow> (string \<rightharpoonup> string) \<Rightarrow> World \<Rightarrow>
   (string \<rightharpoonup> string)" where
  "spec_notify_map env ProductId messageId err details w =
     (details(''subjectId'' \<mapsto> Itoa ProductId, ''messageId'' \<mapsto> Itoa messageId,
              ''messageTime'' \<mapsto> Itoa (clock env (ticks w))))
       ++ (case err of None \<Rightarrow> Map.empty | Some e \<Rightarrow> [''error'' \<mapsto> Error_text e])"

text \<open>Spec 8, for a method \<open>m\<close> (already applied to its arguments) and its canned result
  field, given by the field's update function: with the field set to \<open>V\<close> the method
  returns \<open>V\<close> and a \<^verbatim>\<open>nil\<close> error, and on the fresh client it returns the zero value
  of the field's type and a \<^verbatim>\<open>nil\<close> error.\<close>

definition returns_canned ::
  "('c \<Rightarrow> World \<Rightarrow> 'c outcome) \<Rightarrow> (('v \<Rightarrow> 'v) \<Rightarrow> 'c \<Rightarrow> 'c) \<Rightarrow> ('v \<Rightarrow> gval) \<Rightarrow> 'c \<Rightarrow> 'v \<Rightarrow> bool" where
  "returns_canned m field_update as_gval fresh zero \<longleftrightarrow>
     (\<forall>V client w. returned (m (field_update (\<lambda>_. V) client) w) = Some [as_gval V, VError None]) \<and>
     (\<forall>w. returned (m fresh w) = Some [as_gval zero, VError None])"

text \<open>The shape of a method: one of the three special bodies, or the common body
  with the method's own literals, whose returned tuple holds no error but \<^verbatim>\<open>nil\<close>.\<close>

definition plain_method ::
  "Env \<Rightarrow> ('a Client_scheme \<Rightarrow> World \<Rightarrow> 'a Client_scheme outcome) \<Rightarrow> bool" where
  "plain_method env m \<longleftrightarrow>
     (\<exists>ec ea ev det xc xa res.
        (\<forall>client. nil_errors (res client None)) \<and>
        (\<forall>client w. m client w =
           facade env ec ea ev (det client) xc (xa client) (res client) client w))"

definition method_shape ::
  "Env \<Rightarrow> string \<Rightarrow> ('a Client_scheme \<Rightarrow> World \<Rightarrow> 'a Client_scheme outcome) \<Rightarrow> bool" where
  "method_shape env name m =
     (if name = ''RegisterObserver''
      then \<exists>ec ev xc obs. m = RegisterObserver env ec ev xc obs
      else if name = ''SetLogLevel''
      then \<exists>ec ev xc lvl. m = SetLogLevel env ec ev xc lvl
      else if name = ''UnregisterObserver''
      then \<exists>pid ec ev xc obs. m = UnregisterObserver env pid ec ev xc obs
      else plain_method env m)"

subsection \<open>A concrete environment for the examples\<close>

text \<open>A stand-in for \<^verbatim>\<open>json.Marshal\<close> that renders the fields \<^verbatim>\<open>notify\<close> and the
  observer methods put into the map, in key order; product ids and clock readings are
  arbitrary.\<close>

definition example_render :: "(string \<rightharpoonup> string) \<Rightarrow> string" where
  "example_render m =
     concat (map (\<lambda>k. case m k of None \<Rightarrow> [] | Some v \<Rightarrow> k @ ''='' @ v @ '';'')
       [''error'', ''messageId'', ''messageTime'', ''observerID'', ''subjectId''])"

definition example_Marshal :: "(string \<rightharpoonup> string) \<Rightarrow> string + string" where
  "example_Marshal m = Inr (example_render m)"

definition example_env :: Env where
  "example_env =
     \<lparr>g2engine_ProductId = 1, g2configmgr_ProductId = 2, g2product_ProductId = 3,
      json_Marshal = example_Marshal, clock = (\<lambda>n. 1000 + int n)\<rparr>"

definition example_world :: World where
  "example_world = \<lparr>ticks = 0, events = []\<rparr>"

lemmas G2engine_defs =
  G2engine_AddRecord_def G2engine_AddRecordWithInfo_def
  G2engine_AddRecordWithInfoWithReturnedRecordID_def G2engine_AddRecordWithReturnedRecordID_def
  G2engine_CheckRecord_def G2engine_CloseExport_def G2engine_CountRedoRecords_def
  G2engine_DeleteRecord_def G2engine_DeleteRecordWithInfo_def G2engine_Destroy_def
  G2engine_ExportConfig_def G2engine_ExportConfigAndConfigID_def
  G2engine_ExportCSVEntityReport_def G2engine_ExportJSONEntityReport_def G2engine_FetchNext_def
  G2engine_FindInterestingEntitiesByEntityID_def G2engine_FindInterestingEntitiesByRecordID_def
  G2engine_FindNetworkByEntityID_def G2engine_FindNetworkByEntityID_V2_def
  G2engine_FindNetworkByRecordID_def G2engine_FindNetworkByRecordID_V2_def
  G2engine_FindPathByEntityID_def G2engine_FindPathByEntityID_V2_def
  G2engine_FindPathByRecordID_def G2engine_FindPathByRecordID_V2_def
  G2engine_FindPathExcludingByEntityID_def G2engine_FindPathExcludingByEntityID_V2_def
  G2engine_FindPathExcludingByRecordID_def G2engine_FindPathExcludingByRecordID_V2_def
  G2engine_FindPathIncludingSourceByEntityID_def
  G2engine_FindPathIncludingSourceByEntityID_V2_def
  G2engine_FindPathIncludingSourceByRecordID_def
  G2engine_FindPathIncludingSourceByRecordID_V2_def G2engine_GetActiveConfigID_def
  G2engine_GetEntityByEntityID_def G2engine_GetEntityByEntityID_V2_def
  G2engine_GetEntityByRecordID_def G2engine_GetEntityByRecordID_V2_def G2engine_GetRecord_def
  G2engine_GetRecord_V2_def G2engine_GetRedoRecord_def
  G2engine_GetRepositoryLastModifiedTime_def G2engine_GetSdkId_def
  G2engine_GetVirtualEntityByRecordID_def G2engine_GetVirtualEntityByRecordID_V2_def
  G2engine_HowEntityByEntityID_def G2engine_HowEntityByEntityID_V2_def G2engine_Init_def
  G2engine_InitWithConfigID_def G2engine_PrimeEngine_def G2engine_Process_def
  G2engine_ProcessRedoRecord_def G2engine_ProcessRedoRecordWithInfo_def
  G2engine_ProcessWithInfo_def G2engine_ProcessWithResponse_def
  G2engine_ProcessWithResponseResize_def G2engine_PurgeRepository_def
  G2engine_ReevaluateEntity_def G2engine_ReevaluateEntityWithInfo_def
  G2engine_ReevaluateRecord_def G2engine_ReevaluateRecordWithInfo_def
  G2engine_RegisterObserver_def G2engine_Reinit_def G2engine_ReplaceRecord_def
  G2engine_ReplaceRecordWithInfo_def G2engine_SearchByAttributes_def
  G2engine_SearchByAttributes_V2_def G2engine_SetLogLevel_def G2engine_Stats_def
  G2engine_UnregisterObserver_def G2engine_WhyEntities_def G2engine_WhyEntities_V2_def
  G2engine_WhyEntityByEntityID_def G2engine_WhyEntityByEntityID_V2_def
  G2engine_WhyEntityByRecordID_def G2engine_WhyEntityByRecordID_V2_def G2engine_WhyRecords_def
  G2engine_WhyRecords_V2_def

lemmas G2configmgr_defs =
  G2configmgr_AddConfig_def G2configmgr_Destroy_def G2configmgr_GetConfig_def
  G2configmgr_GetConfigList_def G2configmgr_GetDefaultConfigID_def G2configmgr_GetSdkId_def
  G2configmgr_Init_def G2configmgr_RegisterObserver_def G2configmgr_ReplaceDefaultConfigID_def
  G2configmgr_SetDefaultConfigID_def G2configmgr_SetLogLevel_def
  G2configmgr_UnregisterObserver_def

lemmas G2product_defs =
  G2product_Destroy_def G2product_GetSdkId_def G2product_Init_def G2product_License_def
  G2product_RegisterObserver_def G2product_SetLogLevel_def G2product_UnregisterObserver_def
  G2product_ValidateLicenseFile_def G2product_ValidateLicenseStringBase64_def
  G2product_Version_def
section \<open>The method bodies, evaluated\<close>

lemma getLogger_fields [simp]:
  "isTrace (snd (getLogger c)) = isTrace c"
  "observers (snd (getLogger c)) = observers c"
  "logger (snd (getLogger c)) = Some (fst (getLogger c))"
  "snd (getLogger (snd (getLogger c))) = snd (getLogger c)"
  by (simp_all add: getLogger_def Let_def split: option.splits)

lemma getLogger_observers_update [simp]:
  "snd (getLogger (c\<lparr>observers := x\<rparr>)) = (snd (getLogger c))\<lparr>observers := x\<rparr>"
  "fst (getLogger (c\<lparr>observers := x\<rparr>)) = fst (getLogger c)"
  by (simp_all add: getLogger_def Let_def split: option.splits)

lemma facade_eq:
  "facade env ec ea ev det xc xa res client w =
     Return (res None)
       (if isTrace client then snd (getLogger client) else client)
       (w\<lparr>ticks := ticks w + (if isTrace client then 2 else 1),
          events := events w
            @ (if isTrace client then [Log ec ea] else [])
            @ (if observers client \<noteq> None then [Go (NotifyTask ev None det)] else [])
            @ (if isTrace client
               then [Log xc (xa @ [VError None,
                       VDuration (clock env (Suc (ticks w)) - clock env (ticks w))])]
               else [])\<rparr>)"
  by (simp add: facade_def traceEntry_def traceExit_def time_Now_def time_Since_def
      logger_Log_def emit_def Let_def split_beta)

lemma foldl_emit:
  "foldl (\<lambda>w' obs. emit (f obs) w') w s = w\<lparr>events := events w @ map f s\<rparr>"
  by (induction s arbitrary: w) (simp_all add: emit_def)

lemma subject_NotifyObservers_eq:
  "subject_NotifyObservers message s w =
     w\<lparr>events := events w @ map (\<lambda>obs. UpdateObserver obs message) s\<rparr>"
  unfolding subject_NotifyObservers_def by (rule foldl_emit)

lemma RegisterObserver_eq:
  "RegisterObserver env ec ev xc obs client w =
     Return [VError None]
       ((if isTrace client then snd (getLogger client) else client)
          \<lparr>observers := Some (snd (subject_RegisterObserver obs
             (case observers client of None \<Rightarrow> SubjectImpl | Some s \<Rightarrow> s)))\<rparr>)
       (w\<lparr>ticks := ticks w + (if isTrace client then 2 else 1),
          events := events w
            @ (if isTrace client then [Log ec [VString (GetObserverId obs)]] else [])
            @ [Go (NotifyTask ev None [''observerID'' \<mapsto> GetObserverId obs])]
            @ (if isTrace client
               then [Log xc [VString (GetObserverId obs), VError None,
                       VDuration (clock env (Suc (ticks w)) - clock env (ticks w))]]
               else [])\<rparr>)"
  by (cases "observers client")
     (simp_all add: RegisterObserver_def traceEntry_def traceExit_def time_Now_def time_Since_def
      logger_Log_def emit_def Let_def split_beta subject_RegisterObserver_def)

lemma SetLogLevel_eq:
  "SetLogLevel env ec ev xc lvl client w =
     Return [VError None]
       (client\<lparr>isTrace := (lvl = LevelTrace),
                logger := Some (logger_SetLogLevel lvl (fst (getLogger client)))\<rparr>)
       (w\<lparr>ticks := ticks w + (if lvl = LevelTrace then 2 else 1),
          events := events w
            @ (if isTrace client then [Log ec [VLevel lvl]] else [])
            @ (if observers client \<noteq> None
               then [Go (NotifyTask ev None [''logLevel'' \<mapsto> LevelToTextMap lvl])] else [])
            @ (if lvl = LevelTrace
               then [Log xc [VLevel lvl, VError None,
                       VDuration (clock env (Suc (ticks w)) - clock env (ticks w))]]
               else [])\<rparr>)"
  by (cases "logger client")
     (simp_all add: SetLogLevel_def traceEntry_def traceExit_def time_Now_def time_Since_def
      logger_Log_def emit_def Let_def split_beta getLogger_def NewSenzingApiLogger_def
      logger_SetLogLevel_def logger_GetLogLevel_def)

lemma notify_eq:
  "notify env pid messageId err details client w =
     (case json_Marshal env (spec_notify_map env pid messageId err details w) of
        Inl e \<Rightarrow> Return [] client
                  (w\<lparr>ticks := Suc (ticks w), events := events w @ [Printf (''Error: '' @ e)]\<rparr>)
      | Inr message \<Rightarrow>
          (case observers client of
             None \<Rightarrow> Panic client (w\<lparr>ticks := Suc (ticks w)\<rparr>)
           | Some s \<Rightarrow> Return [] client
               (w\<lparr>ticks := Suc (ticks w),
                  events := events w @ map (\<lambda>obs. UpdateObserver obs message) s\<rparr>)))"
  by (cases err)
     (simp_all add: notify_def spec_notify_map_def time_Now_def emit_def Let_def
      subject_NotifyObservers_eq split: sum.splits option.splits)

lemma UnregisterObserver_nil:
  "observers client = None \<Longrightarrow>
   UnregisterObserver env pid ec ev xc obs client w =
     Panic (if isTrace client then snd (getLogger client) else client)
       (w\<lparr>ticks := Suc (ticks w),
          events := events w
            @ (if isTrace client then [Log ec [VString (GetObserverId obs)]] else [])\<rparr>)"
  by (simp add: UnregisterObserver_def traceEntry_def time_Now_def
      logger_Log_def emit_def Let_def split_beta)

lemma UnregisterObserver_Some:
  "observers client = Some s \<Longrightarrow>
   UnregisterObserver env pid ec ev xc obs client w =
     Return [VError None]
       ((if isTrace client then snd (getLogger client) else client)
          \<lparr>observers :=
             (if snd (subject_UnregisterObserver obs s) = [] then None
              else Some (snd (subject_UnregisterObserver obs s)))\<rparr>)
       (w\<lparr>ticks := ticks w + (if isTrace client then 3 else 2),
          events := events w
            @ (if isTrace client then [Log ec [VString (GetObserverId obs)]] else [])
            @ (case json_Marshal env
                 (spec_notify_map env pid ev None [''observerID'' \<mapsto> GetObserverId obs]
                    (w\<lparr>ticks := Suc (ticks w)\<rparr>)) of
                 Inl e \<Rightarrow> [Printf (''Error: '' @ e)]
               | Inr message \<Rightarrow> map (\<lambda>x. UpdateObserver x message) s)
            @ (if isTrace client
               then [Log xc [VString (GetObserverId obs), VError None,
                       VDuration (clock env (Suc (Suc (ticks w))) - clock env (ticks w))]]
               else [])\<rparr>)"
  by (simp add: UnregisterObserver_def notify_eq traceEntry_def traceExit_def time_Now_def
      time_Since_def logger_Log_def emit_def Let_def split_beta subject_UnregisterObserver_def
      subject_HasObservers_def spec_notify_map_def split: sum.splits)

section \<open>Every method has one of the four shapes\<close>

lemma plain_methodI:
  "(\<And>client w. m client w =
      facade env ec ea ev (det client) xc (xa client) (res client) client w) \<Longrightarrow>
   (\<And>client. nil_errors (res client None)) \<Longrightarrow> plain_method env m"
  unfolding plain_method_def by blast

lemma G2engine_operation_shape:
  "G2engine_operation env name m \<Longrightarrow> method_shape env name m"
  by (erule G2engine_operation.cases; hypsubst; simp add: method_shape_def;
      ((rule plain_methodI, unfold G2engine_defs, rule refl, simp add: nil_errors_def)
       | (intro exI ext, unfold G2engine_defs, rule refl)))

lemma G2configmgr_operation_shape:
  "G2configmgr_operation env name m \<Longrightarrow> method_shape env name m"
  by (erule G2configmgr_operation.cases; hypsubst; simp add: method_shape_def;
      ((rule plain_methodI, unfold G2configmgr_defs, rule refl, simp add: nil_errors_def)
       | (intro exI ext, unfold G2configmgr_defs, rule refl)))

lemma G2product_operation_shape:
  "G2product_operation env name m \<Longrightarrow> method_shape env name m"
  by (erule G2product_operation.cases; hypsubst; simp add: method_shape_def;
      ((rule plain_methodI, unfold G2product_defs, rule refl, simp add: nil_errors_def)
       | (intro exI ext, unfold G2product_defs, rule refl)))

lemma method_shape_cases [consumes 1, case_names plain register setlevel unregister]:
  assumes "method_shape env name m"
  obtains
    (plain) ec ea ev det xc xa res where
      "name \<noteq> ''RegisterObserver''" "name \<noteq> ''SetLogLevel''" "name \<noteq> ''UnregisterObserver''"
      "\<And>client. nil_errors (res client None)"
      "\<And>client w. m client w =
         facade env ec ea ev (det client) xc (xa client) (res client) client w"
  | (register) ec ev xc obs where
      "name = ''RegisterObserver''" "m = RegisterObserver env ec ev xc obs"
  | (setlevel) ec ev xc lvl where
      "name = ''SetLogLevel''" "m = SetLogLevel env ec ev xc lvl"
  | (unregister) pid ec ev xc obs where
      "name = ''UnregisterObserver''" "m = UnregisterObserver env pid ec ev xc obs"
proof (cases "name = ''RegisterObserver''")
  case True
  with assms register show ?thesis unfolding method_shape_def by auto
next
  case nr: False
  show ?thesis
  proof (cases "name = ''SetLogLevel''")
    case True
    with assms nr setlevel show ?thesis unfolding method_shape_def by auto
  next
    case ns: False
    show ?thesis
    proof (cases "name = ''UnregisterObserver''")
      case True
      with assms nr ns unregister show ?thesis unfolding method_shape_def by auto
    next
      case nu: False
      with assms nr ns have "plain_method env m" unfolding method_shape_def by simp
      then obtain ec ea ev det xc xa res where
        "\<And>client. nil_errors (res client None)"
        "\<And>client w. m client w =
           facade env ec ea ev (det client) xc (xa client) (res client) client w"
        unfolding plain_method_def by blast
      with nr ns nu plain show ?thesis by blast
    qed
  qed
qed

lemma shape_nil_errors:
  assumes "method_shape env name m"
  shows "case returned (m client w) of
           Some rs \<Rightarrow> nil_errors rs
         | None \<Rightarrow> name = ''UnregisterObserver'' \<and> observers client = None"
  using assms
proof (cases rule: method_shape_cases)
  case plain
  then show ?thesis by (simp add: facade_eq)
next
  case register
  then show ?thesis by (simp add: RegisterObserver_eq nil_errors_def)
next
  case setlevel
  then show ?thesis by (simp add: SetLogLevel_eq nil_errors_def)
next
  case unregister
  then show ?thesis
    by (cases "observers client")
       (simp_all add: UnregisterObserver_nil UnregisterObserver_Some nil_errors_def)
qed

lemma shape_registry_inv:
  assumes "method_shape env name m" and "registry_inv client"
  shows "registry_inv (client_of (m client w))"
  using assms(1)
proof (cases rule: method_shape_cases)
  case plain
  with assms(2) show ?thesis by (simp add: facade_eq registry_inv_def)
next
  case register
  then show ?thesis
    by (auto simp add: RegisterObserver_eq registry_inv_def subject_RegisterObserver_def
        subject_HasObservers_def SubjectImpl_def split: option.splits)
next
  case setlevel
  with assms(2) show ?thesis by (simp add: SetLogLevel_eq registry_inv_def)
next
  case unregister
  then show ?thesis
    by (cases "observers client")
       (simp_all add: UnregisterObserver_nil UnregisterObserver_Some registry_inv_def
        subject_HasObservers_def)
qed

lemma shape_no_trace:
  assumes "method_shape env name m" and "\<not> isTrace client"
    and "name = ''SetLogLevel'' \<longrightarrow> \<not> isTrace (client_of (m client w))"
  shows "events (world_of (m client w)) = events w @ emitted w (m client w) \<and>
         filter is_Log (emitted w (m client w)) = []"
  using assms(1)
proof (cases rule: method_shape_cases)
  case plain
  with assms(2) show ?thesis by (simp add: facade_eq emitted_def)
next
  case register
  with assms(2) show ?thesis by (simp add: RegisterObserver_eq emitted_def)
next
  case setlevel
  with assms(2,3) show ?thesis by (simp add: SetLogLevel_eq emitted_def)
next
  case unregister
  with assms(2) show ?thesis
    by (cases "observers client")
       (simp_all add: UnregisterObserver_nil UnregisterObserver_Some emitted_def
        split: sum.splits)
qed

lemma shape_isTrace:
  assumes "method_shape env name m" and "name \<noteq> ''SetLogLevel''"
  shows "isTrace (client_of (m client w)) = isTrace client"
  using assms(1)
proof (cases rule: method_shape_cases)
  case plain
  then show ?thesis by (simp add: facade_eq)
next
  case register
  then show ?thesis by (simp add: RegisterObserver_eq)
next
  case setlevel
  with assms(2) show ?thesis by simp
next
  case unregister
  then show ?thesis
    by (cases "observers client")
       (simp_all add: UnregisterObserver_nil UnregisterObserver_Some)
qed

lemma SetLogLevel_isTrace:
  "isTrace (client_of (SetLogLevel env ec ev xc lvl client w)) =
     (map_option logger_GetLogLevel (logger (client_of (SetLogLevel env ec ev xc lvl client w)))
        = Some LevelTrace)"
  by (simp add: SetLogLevel_eq logger_GetLogLevel_def logger_SetLogLevel_def)

lemma SetLogLevel_level:
  "logger (client_of (SetLogLevel env ec ev xc lvl client w)) =
     Some (logger_SetLogLevel lvl (fst (getLogger client))) \<and>
   map_option logger_GetLogLevel (logger (client_of (SetLogLevel env ec ev xc lvl client w))) =
     Some lvl \<and>
   isTrace (client_of (SetLogLevel env ec ev xc lvl client w)) = (lvl = LevelTrace)"
  by (simp add: SetLogLevel_eq logger_GetLogLevel_def logger_SetLogLevel_def)

lemma RegisterObserver_registry:
  "\<exists>s'. observers (client_of (RegisterObserver env ec ev xc obs client w)) = Some s' \<and>
        GetObserverId obs \<in> GetObserverId ` set s'"
  by (simp add: RegisterObserver_eq subject_RegisterObserver_def)

lemma UnregisterObserver_clears:
  "observers client = Some s \<Longrightarrow>
   (observers (client_of (UnregisterObserver env pid ec ev xc obs client w)) = None) =
     (\<not> subject_HasObservers (snd (subject_UnregisterObserver obs s)))"
  by (simp add: UnregisterObserver_Some subject_HasObservers_def)

lemma filter_is_UpdateObserver_map [simp]:
  "filter is_UpdateObserver (map (\<lambda>x. UpdateObserver x message) s) =
     map (\<lambda>x. UpdateObserver x message) s"
  by (induction s) simp_all

lemma UnregisterObserver_notifies_first:
  assumes "observers client = Some s" and "obs \<in> set s"
    and "json_Marshal env
           (spec_notify_map env pid ev None [''observerID'' \<mapsto> GetObserverId obs]
              (w\<lparr>ticks := Suc (ticks w)\<rparr>)) = Inr message"
  shows "filter is_UpdateObserver (emitted w (UnregisterObserver env pid ec ev xc obs client w)) =
           map (\<lambda>x. UpdateObserver x message) s \<and>
         UpdateObserver obs message \<in> set (emitted w (UnregisterObserver env pid ec ev xc obs client w)) \<and>
         observers (client_of (UnregisterObserver env pid ec ev xc obs client w)) =
           (if snd (subject_UnregisterObserver obs s) = [] then None
            else Some (snd (subject_UnregisterObserver obs s))) \<and>
         obs \<notin> set (snd (subject_UnregisterObserver obs s))"
  using assms
  by (simp add: UnregisterObserver_Some emitted_def subject_UnregisterObserver_def)

lemma SetLogLevel_TRACE_exit:
  "\<not> isTrace client \<Longrightarrow>
   filter is_Log (emitted w (SetLogLevel env ec ev xc LevelTrace client w)) =
     [Log xc [VLevel LevelTrace, VError None,
              VDuration (clock env (Suc (ticks w)) - clock env (ticks w))]]"
  by (simp add: SetLogLevel_eq emitted_def)

section \<open>The claims\<close>

lemma zero_fields [simp]:
  "isTrace G2engine_zero = False" "logger G2engine_zero = None" "observers G2engine_zero = None"
  "isTrace G2configmgr_zero = False" "logger G2configmgr_zero = None"
  "observers G2configmgr_zero = None"
  "isTrace G2product_zero = False" "logger G2product_zero = None"
  "observers G2product_zero = None"
  by (simp_all add: G2engine_zero_def G2configmgr_zero_def G2product_zero_def)

lemma example_fields [simp]:
  "ticks example_world = 0" "events example_world = []"
  "json_Marshal example_env = example_Marshal" "clock example_env n = 1000 + int n"
  "g2engine_ProductId example_env = 1" "g2configmgr_ProductId example_env = 2"
  "g2product_ProductId example_env = 3"
  by (simp_all add: example_world_def example_env_def)

text \<open>
  C1. The claim: \<^verbatim>\<open>UnregisterObserver\<close> called when no registry exists does not panic.
  The code: on the fresh client of each of the three types (the \<^verbatim>\<open>observers\<close> field is
  \<^verbatim>\<open>nil\<close>), the notification is skipped by its guard and the unguarded
  \<^verbatim>\<open>client.observers.UnregisterObserver(ctx, observer)\<close> then panics; nothing is
  returned.
\<close>

theorem UnregisterObserver_without_registry_panics:
  "G2engine_UnregisterObserver env obs G2engine_zero w =
     Panic G2engine_zero (w\<lparr>ticks := Suc (ticks w)\<rparr>) \<and>
   G2configmgr_UnregisterObserver env obs G2configmgr_zero w =
     Panic G2configmgr_zero (w\<lparr>ticks := Suc (ticks w)\<rparr>) \<and>
   G2product_UnregisterObserver env obs G2product_zero w =
     Panic G2product_zero (w\<lparr>ticks := Suc (ticks w)\<rparr>)"
  by (simp add: G2engine_UnregisterObserver_def G2configmgr_UnregisterObserver_def
      G2product_UnregisterObserver_def UnregisterObserver_nil)

text \<open>
  C2. The claim: within one capability group no two operations use the same event id.
  The code: \<^verbatim>\<open>G2configmgr.GetSdkId\<close> and \<^verbatim>\<open>G2configmgr.RegisterObserver\<close> both launch
  \<^verbatim>\<open>client.notify(ctx, 8010, ...)\<close>. Here \<^verbatim>\<open>GetSdkId\<close> runs on a client with the observer
  \<^verbatim>\<open>O1\<close> registered and \<^verbatim>\<open>RegisterObserver(O1)\<close> on the fresh client.
\<close>

theorem G2configmgr_GetSdkId_RegisterObserver_share_event_id:
  "emitted example_world
     (G2configmgr_GetSdkId example_env
        (G2configmgr_zero\<lparr>observers := Some [Observer ''O1'']\<rparr>) example_world) =
     [Go (NotifyTask 8010 None Map.empty)] \<and>
   emitted example_world
     (G2configmgr_RegisterObserver example_env (Observer ''O1'') G2configmgr_zero example_world) =
     [Go (NotifyTask 8010 None [''observerID'' \<mapsto> ''O1''])]"
  by (simp add: G2configmgr_GetSdkId_def G2configmgr_RegisterObserver_def facade_eq
      RegisterObserver_eq emitted_def)

text \<open>
  C3. Each of the 64 operations with a single canned result field (56 of \<^verbatim>\<open>G2engine\<close>,
  4 of \<^verbatim>\<open>G2configmgr\<close>, 4 of \<^verbatim>\<open>G2product\<close>; the field is named after the operation,
  \<^verbatim>\<open>string\<close> or \<^verbatim>\<open>int64\<close>): for every value \<open>V\<close>, every client and every argument, with
  the field set to \<open>V\<close> the operation returns exactly \<open>V\<close> and a \<^verbatim>\<open>nil\<close> error; on the
  freshly constructed client it returns the zero value (the empty string or 0) and a
  \<^verbatim>\<open>nil\<close> error.
\<close>

theorem canned_result_returned_verbatim:
  "returns_canned (G2engine_AddRecordWithInfo env dataSourceCode recordID jsonData loadID flags)
       AddRecordWithInfoResult_update VString G2engine_zero '''' \<and>
   returns_canned (G2engine_AddRecordWithReturnedRecordID env dataSourceCode jsonData loadID)
       AddRecordWithReturnedRecordIDResult_update VString G2engine_zero '''' \<and>
   returns_canned (G2engine_CheckRecord env record recordQueryList)
       CheckRecordResult_update VString G2engine_zero '''' \<and>
   returns_canned (G2engine_CountRedoRecords env)
       CountRedoRecordsResult_update VInt64 G2engine_zero 0 \<and>
   returns_canned (G2engine_DeleteRecordWithInfo env dataSourceCode recordID loadID flags)
       DeleteRecordWithInfoResult_update VString G2engine_zero '''' \<and>
   returns_canned (G2engine_ExportConfig env) ExportConfigResult_update VString G2engine_zero '''' \<and>
   returns_canned (G2engine_FetchNext env responseHandle)
       FetchNextResult_update VString G2engine_zero '''' \<and>
   returns_canned (G2engine_FindInterestingEntitiesByEntityID env entityID flags)
       FindInterestingEntitiesByEntityIDResult_update VString G2engine_zero '''' \<and>
   returns_canned (G2engine_FindInterestingEntitiesByRecordID env dataSourceCode recordID flags)
       FindInterestingEntitiesByRecordIDResult_update VString G2engine_zero '''' \<and>
   returns_canned (G2engine_FindNetworkByEntityID env entityList maxDegree buildOutDegree maxEntities)
       FindNetworkByEntityIDResult_update VString G2engine_zero '''' \<and>
   returns_canned (G2engine_FindNetworkByEntityID_V2 env entityList maxDegree buildOutDegree maxEntities flags)
       FindNetworkByEntityID_V2Result_update VString G2engine_zero '''' \<and>
   returns_canned (G2engine_FindNetworkByRecordID env recordList maxDegree buildOutDegree maxEntities)
       FindNetworkByRecordIDResult_update VString G2engine_zero '''' \<and>
   returns_canned (G2engine_FindNetworkByRecordID_V2 env recordList maxDegree buildOutDegree maxEntities flags)
       FindNetworkByRecordID_V2Result_update VString G2engine_zero '''' \<and>
   returns_canned (G2engine_FindPathByEntityID env entityID1 entityID2 maxDegree)
       FindPathByEntityIDResult_update VString G2engine_zero '''' \<and>
   returns_canned (G2engine_FindPathByEntityID_V2 env entityID1 entityID2 maxDegree flags)
       FindPathByEntityID_V2Result_update VString G2engine_zero '''' \<and>
   returns_canned (G2engine_FindPathByRecordID env dataSourceCode1 recordID1 dataSourceCode2 recordID2 maxDegree)
       FindPathByRecordIDResult_update VString G2engine_zero '''' \<and>
   returns_canned (G2engine_FindPathByRecordID_V2 env dataSourceCode1 recordID1 dataSourceCode2 recordID2 maxDegree flags)
       FindPathByRecordID_V2Result_update VString G2engine_zero '''' \<and>
   returns_canned (G2engine_FindPathExcludingByEntityID env entityID1 entityID2 maxDegree excludedEntities)
       FindPathExcludingByEntityIDResult_update VString G2engine_zero '''' \<and>
   returns_canned (G2engine_FindPathExcludingByEntityID_V2 env entityID1 entityID2 maxDegree excludedEntities flags)
       FindPathExcludingByEntityID_V2Result_update VString G2engine_zero '''' \<and>
   returns_canned (G2engine_FindPathExcludingByRecordID env dataSourceCode1 recordID1 dataSourceCode2 recordID2 maxDegree excludedRecords)
       FindPathExcludingByRecordIDResult_update VString G2engine_zero '''' \<and>
   returns_canned (G2engine_FindPathExcludingByRecordID_V2 env dataSourceCode1 recordID1 dataSourceCode2 recordID2 maxDegree excludedRecords flags)
       FindPathExcludingByRecordID_V2Result_update VString G2engine_zero '''' \<and>
   returns_canned (G2engine_FindPathIncludingSourceByEntityID env entityID1 entityID2 maxDegree excludedEntities requiredDsrcs)
       FindPathIncludingSourceByEntityIDResult_update VString G2engine_zero '''' \<and>
   returns_canned (G2engine_FindPathIncludingSourceByEntityID_V2 env entityID1 entityID2 maxDegree excludedEntities requiredDsrcs flags)
       FindPathIncludingSourceByEntityID_V2Result_update VString G2engine_zero '''' \<and>
   returns_canned (G2engine_FindPathIncludingSourceByRecordID env dataSourceCode1 recordID1 dataSourceCode2 recordID2 maxDegree excludedRecords requiredDsrcs)
       FindPathIncludingSourceByRecordIDResult_update VString G2engine_zero '''' \<and>
   returns_canned (G2engine_FindPathIncludingSourceByRecordID_V2 env dataSourceCode1 recordID1 dataSourceCode2 recordID2 maxDegree excludedRecords requiredDsrcs flags)
       FindPathIncludingSourceByRecordID_V2Result_update VString G2engine_zero '''' \<and>
   returns_canned (G2engine_GetActiveConfigID env)
       GetActiveConfigIDResult_update VInt64 G2engine_zero 0 \<and>
   returns_canned (G2engine_GetEntityByEntityID env entityID)
       GetEntityByEntityIDResult_update VString G2engine_zero '''' \<and>
   returns_canned (G2engine_GetEntityByEntityID_V2 env entityID flags)
       GetEntityByEntityID_V2Result_update VString G2engine_zero '''' \<and>
   returns_canned (G2engine_GetEntityByRecordID env dataSourceCode recordID)
       GetEntityByRecordIDResult_update VString G2engine_zero '''' \<and>
   returns_canned (G2engine_GetEntityByRecordID_V2 env dataSourceCode recordID flags)
       GetEntityByRecordID_V2Result_update VString G2engine_zero '''' \<and>
   returns_canned (G2engine_GetRecord env dataSourceCode recordID)
       GetRecordResult_update VString G2engine_zero '''' \<and>
   returns_canned (G2engine_GetRecord_V2 env dataSourceCode recordID flags)
       GetRecord_V2Result_update VString G2engine_zero '''' \<and>
   returns_canned (G2engine_GetRedoRecord env)
       GetRedoRecordResult_update VString G2engine_zero '''' \<and>
   returns_canned (G2engine_GetRepositoryLastModifiedTime env)
       GetRepositoryLastModifiedTimeResult_update VInt64 G2engine_zero 0 \<and>
   returns_canned (G2engine_GetVirtualEntityByRecordID env recordList)
       GetVirtualEntityByRecordIDResult_update VString G2engine_zero '''' \<and>
   returns_canned (G2engine_GetVirtualEntityByRecordID_V2 env recordList flags)
       GetVirtualEntityByRecordID_V2Result_update VString G2engine_zero '''' \<and>
   returns_canned (G2engine_HowEntityByEntityID env entityID)
       HowEntityByEntityIDResult_update VString G2engine_zero '''' \<and>
   returns_canned (G2engine_HowEntityByEntityID_V2 env entityID flags)
       HowEntityByEntityID_V2Result_update VString G2engine_zero '''' \<and>
   returns_canned (G2engine_ProcessRedoRecord env)
       ProcessRedoRecordResult_update VString G2engine_zero '''' \<and>
   returns_canned (G2engine_ProcessWithInfo env record flags)
       ProcessWithInfoResult_update VString G2engine_zero '''' \<and>
   returns_canned (G2engine_ProcessWithResponse env record)
       ProcessWithResponseResult_update VString G2engine_zero '''' \<and>
   returns_canned (G2engine_ProcessWithResponseResize env record)
       ProcessWithResponseResizeResult_update VString G2engine_zero '''' \<and>
   returns_canned (G2engine_ReevaluateEntityWithInfo env entityID flags)
       ReevaluateEntityWithInfoResult_update VString G2engine_zero '''' \<and>
   returns_canned (G2engine_ReevaluateRecordWithInfo env dataSourceCode recordID flags)
       ReevaluateRecordWithInfoResult_update VString G2engine_zero '''' \<and>
   returns_canned (G2engine_ReplaceRecordWithInfo env dataSourceCode recordID jsonData loadID flags)
       ReplaceRecordWithInfoResult_update VString G2engine_zero '''' \<and>
   returns_canned (G2engine_SearchByAttributes env jsonData)
       SearchByAttributesResult_update VString G2engine_zero '''' \<and>
   returns_canned (G2engine_SearchByAttributes_V2 env jsonData flags)
       SearchByAttributes_V2Result_update VString G2engine_zero '''' \<and>
   returns_canned (G2engine_Stats env) StatsResult_update VString G2engine_zero '''' \<and>
   returns_canned (G2engine_WhyEntities env entityID1 entityID2)
       WhyEntitiesResult_update VString G2engine_zero '''' \<and>
   returns_canned (G2engine_WhyEntities_V2 env entityID1 entityID2 flags)
       WhyEntities_V2Result_update VString G2engine_zero '''' \<and>
   returns_canned (G2engine_WhyEntityByEntityID env entityID)
       WhyEntityByEntityIDResult_update VString G2engine_zero '''' \<and>
   returns_canned (G2engine_WhyEntityByEntityID_V2 env entityID flags)
       WhyEntityByEntityID_V2Result_update VString G2engine_zero '''' \<and>
   returns_canned (G2engine_WhyEntityByRecordID env dataSourceCode recordID)
       WhyEntityByRecordIDResult_update VString G2engine_zero '''' \<and>
   returns_canned (G2engine_WhyEntityByRecordID_V2 env dataSourceCode recordID flags)
       WhyEntityByRecordID_V2Result_update VString G2engine_zero '''' \<and>
   returns_canned (G2engine_WhyRecords env dataSourceCode1 recordID1 dataSourceCode2 recordID2)
       WhyRecordsResult_update VString G2engine_zero '''' \<and>
   returns_canned (G2engine_WhyRecords_V2 env dataSourceCode1 recordID1 dataSourceCode2 recordID2 flags)
       WhyRecords_V2Result_update VString G2engine_zero '''' \<and>
   returns_canned (G2configmgr_AddConfig env configStr configComments)
       AddConfigResult_update VInt64 G2configmgr_zero 0 \<and>
   returns_canned (G2configmgr_GetConfig env configID)
       GetConfigResult_update VString G2configmgr_zero '''' \<and>
   returns_canned (G2configmgr_GetConfigList env)
       GetConfigListResult_update VString G2configmgr_zero '''' \<and>
   returns_canned (G2configmgr_GetDefaultConfigID env)
       GetDefaultConfigIDResult_update VInt64 G2configmgr_zero 0 \<and>
   returns_canned (G2product_License env) LicenseResult_update VString G2product_zero '''' \<and>
   returns_canned (G2product_ValidateLicenseFile env licenseFilePath)
       ValidateLicenseFileResult_update VString G2product_zero '''' \<and>
   returns_canned (G2product_ValidateLicenseStringBase64 env licenseString)
       ValidateLicenseStringBase64Result_update VString G2product_zero '''' \<and>
   returns_canned (G2product_Version env) VersionResult_update VString G2product_zero ''''"
  unfolding returns_canned_def
  by (intro conjI allI;
      simp add: G2engine_defs G2configmgr_defs G2product_defs facade_eq
        G2engine_zero_def G2configmgr_zero_def G2product_zero_def)

text \<open>
  C4. For every method of every client, every input and every client state: whatever
  the call returns, each error value of the returned tuple is \<^verbatim>\<open>nil\<close>. Every call
  returns, but for \<^verbatim>\<open>UnregisterObserver\<close> on a client without registry, which panics
  and returns no value at all (C1). The error of \<^verbatim>\<open>RegisterObserver\<close> and
  \<^verbatim>\<open>UnregisterObserver\<close> is the one the registry hands back.
\<close>

theorem returned_error_is_nil:
  "(G2engine_operation env n1 m1 \<longrightarrow>
      (case returned (m1 engine w1) of
         Some rs \<Rightarrow> nil_errors rs
       | None \<Rightarrow> n1 = ''UnregisterObserver'' \<and> observers engine = None)) \<and>
   (G2configmgr_operation env n2 m2 \<longrightarrow>
      (case returned (m2 configmgr w2) of
         Some rs \<Rightarrow> nil_errors rs
       | None \<Rightarrow> n2 = ''UnregisterObserver'' \<and> observers configmgr = None)) \<and>
   (G2product_operation env n3 m3 \<longrightarrow>
      (case returned (m3 product w3) of
         Some rs \<Rightarrow> nil_errors rs
       | None \<Rightarrow> n3 = ''UnregisterObserver'' \<and> observers product = None))"
  by (intro conjI impI shape_nil_errors G2engine_operation_shape G2configmgr_operation_shape
      G2product_operation_shape)

theorem returned_error_is_nil_witness:
  "G2engine_operation example_env ''RegisterObserver''
     (G2engine_RegisterObserver example_env (Observer ''O1'')) \<and>
   G2configmgr_operation example_env ''AddConfig''
     (G2configmgr_AddConfig example_env ''{}'' ''comment'') \<and>
   G2product_operation example_env ''Version'' (G2product_Version example_env) \<and>
   (case returned (G2engine_RegisterObserver example_env (Observer ''O1'') G2engine_zero
                     example_world) of
      Some rs \<Rightarrow> nil_errors rs
    | None \<Rightarrow> ''RegisterObserver'' = ''UnregisterObserver'' \<and> observers G2engine_zero = None) \<and>
   (case returned (G2configmgr_AddConfig example_env ''{}'' ''comment'' G2configmgr_zero
                     example_world) of
      Some rs \<Rightarrow> nil_errors rs
    | None \<Rightarrow> ''AddConfig'' = ''UnregisterObserver'' \<and> observers G2configmgr_zero = None) \<and>
   (case returned (G2product_Version example_env G2product_zero example_world) of
      Some rs \<Rightarrow> nil_errors rs
    | None \<Rightarrow> ''Version'' = ''UnregisterObserver'' \<and> observers G2product_zero = None)"
proof -
  have h1: "G2engine_operation example_env ''RegisterObserver''
              (G2engine_RegisterObserver example_env (Observer ''O1''))"
    by (rule op_G2engine_RegisterObserver)
  have h2: "G2configmgr_operation example_env ''AddConfig''
              (G2configmgr_AddConfig example_env ''{}'' ''comment'')"
    by (rule op_G2configmgr_AddConfig)
  have h3: "G2product_operation example_env ''Version'' (G2product_Version example_env)"
    by (rule op_G2product_Version)
  show ?thesis
    using h1 h2 h3
      returned_error_is_nil [where env = example_env
        and ?n1.0 = "''RegisterObserver''"
        and ?m1.0 = "G2engine_RegisterObserver example_env (Observer ''O1'')"
        and engine = G2engine_zero and ?w1.0 = example_world
        and ?n2.0 = "''AddConfig''"
        and ?m2.0 = "G2configmgr_AddConfig example_env ''{}'' ''comment''"
        and configmgr = G2configmgr_zero and ?w2.0 = example_world
        and ?n3.0 = "''Version''" and ?m3.0 = "G2product_Version example_env"
        and product = G2product_zero and ?w3.0 = example_world]
    by blast
qed

text \<open>
  C5. \<^verbatim>\<open>notify\<close> of each client, on a client with a registry: the map it hands to
  \<^verbatim>\<open>json.Marshal\<close> is exactly the context fields plus \<^verbatim>\<open>subjectId\<close> (the package's
  \<^verbatim>\<open>ProductId\<close> in decimal), \<^verbatim>\<open>messageId\<close> (the event id in decimal) and \<^verbatim>\<open>messageTime\<close>
  (the clock reading in decimal), plus \<^verbatim>\<open>error\<close> with the error's text iff the error is
  not \<^verbatim>\<open>nil\<close>; the string \<^verbatim>\<open>json.Marshal\<close> gives for it is handed, unchanged, to every
  observer of the registry, and to nobody else.
\<close>

theorem notify_publishes_the_map:
  "(observers client1 = Some s1 \<longrightarrow>
    json_Marshal env
      (spec_notify_map env (g2engine_ProductId env) messageId err details w) = Inr message1 \<longrightarrow>
    G2engine_notify env messageId err details client1 w =
      Return [] client1
        (w\<lparr>ticks := Suc (ticks w),
           events := events w @ map (\<lambda>obs. UpdateObserver obs message1) s1\<rparr>)) \<and>
   (observers client2 = Some s2 \<longrightarrow>
    json_Marshal env
      (spec_notify_map env (g2configmgr_ProductId env) messageId err details w) = Inr message2 \<longrightarrow>
    G2configmgr_notify env messageId err details client2 w =
      Return [] client2
        (w\<lparr>ticks := Suc (ticks w),
           events := events w @ map (\<lambda>obs. UpdateObserver obs message2) s2\<rparr>)) \<and>
   (observers client3 = Some s3 \<longrightarrow>
    json_Marshal env
      (spec_notify_map env (g2product_ProductId env) messageId err details w) = Inr message3 \<longrightarrow>
    G2product_notify env messageId err details client3 w =
      Return [] client3
        (w\<lparr>ticks := Suc (ticks w),
           events := events w @ map (\<lambda>obs. UpdateObserver obs message3) s3\<rparr>))"
  by (simp add: G2engine_notify_def G2configmgr_notify_def G2product_notify_def notify_eq)

theorem notify_publishes_the_map_witness:
  "observers (G2engine_zero\<lparr>observers := Some [Observer ''O1'', Observer ''O2'']\<rparr>) =
     Some [Observer ''O1'', Observer ''O2''] \<and>
   observers (G2configmgr_zero\<lparr>observers := Some [Observer ''O1'']\<rparr>) = Some [Observer ''O1''] \<and>
   observers (G2product_zero\<lparr>observers := Some [Observer ''O2'']\<rparr>) = Some [Observer ''O2''] \<and>
   json_Marshal example_env
     (spec_notify_map example_env (g2engine_ProductId example_env) 8001 (Some (Error ''boom''))
        [''loadID'' \<mapsto> ''L''] example_world) =
     Inr (example_render
            (spec_notify_map example_env (g2engine_ProductId example_env) 8001
               (Some (Error ''boom'')) [''loadID'' \<mapsto> ''L''] example_world)) \<and>
   G2engine_notify example_env 8001 (Some (Error ''boom'')) [''loadID'' \<mapsto> ''L'']
       (G2engine_zero\<lparr>observers := Some [Observer ''O1'', Observer ''O2'']\<rparr>) example_world =
     Return [] (G2engine_zero\<lparr>observers := Some [Observer ''O1'', Observer ''O2'']\<rparr>)
       (example_world\<lparr>ticks := Suc (ticks example_world),
          events := events example_world @
            map (\<lambda>obs. UpdateObserver obs
                   (example_render
                      (spec_notify_map example_env (g2engine_ProductId example_env) 8001
                         (Some (Error ''boom'')) [''loadID'' \<mapsto> ''L''] example_world)))
              [Observer ''O1'', Observer ''O2'']\<rparr>) \<and>
   G2configmgr_notify example_env 8001 (Some (Error ''boom'')) [''loadID'' \<mapsto> ''L'']
       (G2configmgr_zero\<lparr>observers := Some [Observer ''O1'']\<rparr>) example_world =
     Return [] (G2configmgr_zero\<lparr>observers := Some [Observer ''O1'']\<rparr>)
       (example_world\<lparr>ticks := Suc (ticks example_world),
          events := events example_world @
            map (\<lambda>obs. UpdateObserver obs
                   (example_render
                      (spec_notify_map example_env (g2configmgr_ProductId example_env) 8001
                         (Some (Error ''boom'')) [''loadID'' \<mapsto> ''L''] example_world)))
              [Observer ''O1'']\<rparr>) \<and>
   G2product_notify example_env 8001 (Some (Error ''boom'')) [''loadID'' \<mapsto> ''L'']
       (G2product_zero\<lparr>observers := Some [Observer ''O2'']\<rparr>) example_world =
     Return [] (G2product_zero\<lparr>observers := Some [Observer ''O2'']\<rparr>)
       (example_world\<lparr>ticks := Suc (ticks example_world),
          events := events example_world @
            map (\<lambda>obs. UpdateObserver obs
                   (example_render
                      (spec_notify_map example_env (g2product_ProductId example_env) 8001
                         (Some (Error ''boom'')) [''loadID'' \<mapsto> ''L''] example_world)))
              [Observer ''O2'']\<rparr>)"
proof -
  have m: "\<And>pid. json_Marshal example_env
             (spec_notify_map example_env pid 8001 (Some (Error ''boom''))
                [''loadID'' \<mapsto> ''L''] example_world) =
           Inr (example_render
                  (spec_notify_map example_env pid 8001 (Some (Error ''boom''))
                     [''loadID'' \<mapsto> ''L''] example_world))"
    by (simp add: example_Marshal_def)
  show ?thesis
    using notify_publishes_the_map [where env = example_env and messageId = 8001
        and err = "Some (Error ''boom'')" and details = "[''loadID'' \<mapsto> ''L'']"
        and w = example_world
        and ?client1.0 = "G2engine_zero\<lparr>observers := Some [Observer ''O1'', Observer ''O2'']\<rparr>"
        and ?s1.0 = "[Observer ''O1'', Observer ''O2'']"
        and ?client2.0 = "G2configmgr_zero\<lparr>observers := Some [Observer ''O1'']\<rparr>"
        and ?s2.0 = "[Observer ''O1'']"
        and ?client3.0 = "G2product_zero\<lparr>observers := Some [Observer ''O2'']\<rparr>"
        and ?s3.0 = "[Observer ''O2'']"
        and ?message1.0 = "example_render
              (spec_notify_map example_env (g2engine_ProductId example_env) 8001
                 (Some (Error ''boom'')) [''loadID'' \<mapsto> ''L''] example_world)"
        and ?message2.0 = "example_render
              (spec_notify_map example_env (g2configmgr_ProductId example_env) 8001
                 (Some (Error ''boom'')) [''loadID'' \<mapsto> ''L''] example_world)"
        and ?message3.0 = "example_render
              (spec_notify_map example_env (g2product_ProductId example_env) 8001
                 (Some (Error ''boom'')) [''loadID'' \<mapsto> ''L''] example_world)"]
      m
    by simp
qed

text \<open>
  C6. For every client: if the registry is absent or holds at least one observer before
  a method is called, it is so after the call; it is so on the freshly constructed
  client. \<^verbatim>\<open>RegisterObserver\<close> leaves a registry that holds the observer's id (the
  registry is created before the observer is added). \<^verbatim>\<open>UnregisterObserver\<close>, called
  with a registry present, leaves the \<^verbatim>\<open>observers\<close> field \<^verbatim>\<open>nil\<close> exactly when the
  registry holds no observer after the removal.
\<close>

theorem registry_absent_or_nonempty:
  "(G2engine_operation env n1 m1 \<longrightarrow> registry_inv engine \<longrightarrow>
      registry_inv (client_of (m1 engine w1))) \<and>
   (G2configmgr_operation env n2 m2 \<longrightarrow> registry_inv configmgr \<longrightarrow>
      registry_inv (client_of (m2 configmgr w2))) \<and>
   (G2product_operation env n3 m3 \<longrightarrow> registry_inv product \<longrightarrow>
      registry_inv (client_of (m3 product w3))) \<and>
   registry_inv G2engine_zero \<and> registry_inv G2configmgr_zero \<and> registry_inv G2product_zero \<and>
   (\<exists>s'. observers (client_of (G2engine_RegisterObserver env obs engine w1)) = Some s' \<and>
         GetObserverId obs \<in> GetObserverId ` set s') \<and>
   (\<exists>s'. observers (client_of (G2configmgr_RegisterObserver env obs configmgr w2)) = Some s' \<and>
         GetObserverId obs \<in> GetObserverId ` set s') \<and>
   (\<exists>s'. observers (client_of (G2product_RegisterObserver env obs product w3)) = Some s' \<and>
         GetObserverId obs \<in> GetObserverId ` set s') \<and>
   (observers engine = Some s1 \<longrightarrow>
      (observers (client_of (G2engine_UnregisterObserver env obs engine w1)) = None) =
        (\<not> subject_HasObservers (snd (subject_UnregisterObserver obs s1)))) \<and>
   (observers configmgr = Some s2 \<longrightarrow>
      (observers (client_of (G2configmgr_UnregisterObserver env obs configmgr w2)) = None) =
        (\<not> subject_HasObservers (snd (subject_UnregisterObserver obs s2)))) \<and>
   (observers product = Some s3 \<longrightarrow>
      (observers (client_of (G2product_UnregisterObserver env obs product w3)) = None) =
        (\<not> subject_HasObservers (snd (subject_UnregisterObserver obs s3))))"
proof -
  have inv: "registry_inv G2engine_zero" "registry_inv G2configmgr_zero"
    "registry_inv G2product_zero"
    by (simp_all add: registry_inv_def)
  have reg:
    "\<exists>s'. observers (client_of (G2engine_RegisterObserver env obs engine w1)) = Some s' \<and>
          GetObserverId obs \<in> GetObserverId ` set s'"
    "\<exists>s'. observers (client_of (G2configmgr_RegisterObserver env obs configmgr w2)) = Some s' \<and>
          GetObserverId obs \<in> GetObserverId ` set s'"
    "\<exists>s'. observers (client_of (G2product_RegisterObserver env obs product w3)) = Some s' \<and>
          GetObserverId obs \<in> GetObserverId ` set s'"
    unfolding G2engine_RegisterObserver_def G2configmgr_RegisterObserver_def
      G2product_RegisterObserver_def
    by (rule RegisterObserver_registry)+
  have unreg:
    "observers engine = Some s1 \<longrightarrow>
      (observers (client_of (G2engine_UnregisterObserver env obs engine w1)) = None) =
        (\<not> subject_HasObservers (snd (subject_UnregisterObserver obs s1)))"
    "observers configmgr = Some s2 \<longrightarrow>
      (observers (client_of (G2configmgr_UnregisterObserver env obs configmgr w2)) = None) =
        (\<not> subject_HasObservers (snd (subject_UnregisterObserver obs s2)))"
    "observers product = Some s3 \<longrightarrow>
      (observers (client_of (G2product_UnregisterObserver env obs product w3)) = None) =
        (\<not> subject_HasObservers (snd (subject_UnregisterObserver obs s3)))"
    unfolding G2engine_UnregisterObserver_def G2configmgr_UnregisterObserver_def
      G2product_UnregisterObserver_def
    by (intro impI UnregisterObserver_clears; assumption)+
  have pres:
    "G2engine_operation env n1 m1 \<longrightarrow> registry_inv engine \<longrightarrow>
       registry_inv (client_of (m1 engine w1))"
    "G2configmgr_operation env n2 m2 \<longrightarrow> registry_inv configmgr \<longrightarrow>
       registry_inv (client_of (m2 configmgr w2))"
    "G2product_operation env n3 m3 \<longrightarrow> registry_inv product \<longrightarrow>
       registry_inv (client_of (m3 product w3))"
    by (blast intro: shape_registry_inv G2engine_operation_shape G2configmgr_operation_shape
        G2product_operation_shape)+
  from pres inv reg unreg show ?thesis by (intro conjI)
qed

theorem registry_absent_or_nonempty_witness:
  "G2engine_operation example_env ''UnregisterObserver''
     (G2engine_UnregisterObserver example_env (Observer ''O1'')) \<and>
   registry_inv (G2engine_zero\<lparr>observers := Some [Observer ''O1'']\<rparr>) \<and>
   registry_inv (client_of (G2engine_UnregisterObserver example_env (Observer ''O1'')
      (G2engine_zero\<lparr>observers := Some [Observer ''O1'']\<rparr>) example_world)) \<and>
   G2configmgr_operation example_env ''RegisterObserver''
     (G2configmgr_RegisterObserver example_env (Observer ''O1'')) \<and>
   registry_inv G2configmgr_zero \<and>
   registry_inv (client_of (G2configmgr_RegisterObserver example_env (Observer ''O1'')
      G2configmgr_zero example_world)) \<and>
   G2product_operation example_env ''Version'' (G2product_Version example_env) \<and>
   registry_inv (G2product_zero\<lparr>observers := Some [Observer ''O1'', Observer ''O2'']\<rparr>) \<and>
   registry_inv (client_of (G2product_Version example_env
      (G2product_zero\<lparr>observers := Some [Observer ''O1'', Observer ''O2'']\<rparr>) example_world)) \<and>
   observers (G2engine_zero\<lparr>observers := Some [Observer ''O1'']\<rparr>) = Some [Observer ''O1''] \<and>
   \<not> subject_HasObservers (snd (subject_UnregisterObserver (Observer ''O1'') [Observer ''O1''])) \<and>
   observers (client_of (G2engine_UnregisterObserver example_env (Observer ''O1'')
      (G2engine_zero\<lparr>observers := Some [Observer ''O1'']\<rparr>) example_world)) = None \<and>
   observers (G2configmgr_zero\<lparr>observers := Some [Observer ''O1'', Observer ''O2'']\<rparr>) =
     Some [Observer ''O1'', Observer ''O2''] \<and>
   subject_HasObservers
     (snd (subject_UnregisterObserver (Observer ''O1'') [Observer ''O1'', Observer ''O2''])) \<and>
   observers (client_of (G2configmgr_UnregisterObserver example_env (Observer ''O1'')
      (G2configmgr_zero\<lparr>observers := Some [Observer ''O1'', Observer ''O2'']\<rparr>) example_world)) \<noteq> None \<and>
   observers (G2product_zero\<lparr>observers := Some [Observer ''O1'']\<rparr>) = Some [Observer ''O1''] \<and>
   observers (client_of (G2product_UnregisterObserver example_env (Observer ''O1'')
      (G2product_zero\<lparr>observers := Some [Observer ''O1'']\<rparr>) example_world)) = None"
proof -
  have h1: "G2engine_operation example_env ''UnregisterObserver''
              (G2engine_UnregisterObserver example_env (Observer ''O1''))"
    by (rule op_G2engine_UnregisterObserver)
  have h2: "G2configmgr_operation example_env ''RegisterObserver''
              (G2configmgr_RegisterObserver example_env (Observer ''O1''))"
    by (rule op_G2configmgr_RegisterObserver)
  have h3: "G2product_operation example_env ''Version'' (G2product_Version example_env)"
    by (rule op_G2product_Version)
  have i1: "registry_inv (G2engine_zero\<lparr>observers := Some [Observer ''O1'']\<rparr>)"
    and i2: "registry_inv G2configmgr_zero"
    and i3: "registry_inv (G2product_zero\<lparr>observers := Some [Observer ''O1'', Observer ''O2'']\<rparr>)"
    by (simp_all add: registry_inv_def subject_HasObservers_def)
  have o1: "observers (G2engine_zero\<lparr>observers := Some [Observer ''O1'']\<rparr>) =
              Some [Observer ''O1'']"
    and o3: "observers (G2product_zero\<lparr>observers := Some [Observer ''O1'']\<rparr>) =
              Some [Observer ''O1'']"
    and u1: "\<not> subject_HasObservers
               (snd (subject_UnregisterObserver (Observer ''O1'') [Observer ''O1'']))"
    by (simp_all add: subject_HasObservers_def subject_UnregisterObserver_def)
  have o2: "observers (G2configmgr_zero\<lparr>observers := Some [Observer ''O1'', Observer ''O2'']\<rparr>) =
              Some [Observer ''O1'', Observer ''O2'']"
    and u2: "subject_HasObservers
               (snd (subject_UnregisterObserver (Observer ''O1'')
                       [Observer ''O1'', Observer ''O2'']))"
    by (simp_all add: subject_HasObservers_def subject_UnregisterObserver_def)
  note a = registry_absent_or_nonempty [where env = example_env and obs = "Observer ''O1''"
      and ?n1.0 = "''UnregisterObserver''"
      and ?m1.0 = "G2engine_UnregisterObserver example_env (Observer ''O1'')"
      and engine = "G2engine_zero\<lparr>observers := Some [Observer ''O1'']\<rparr>"
      and ?w1.0 = example_world and ?s1.0 = "[Observer ''O1'']"
      and ?n2.0 = "''RegisterObserver''"
      and ?m2.0 = "G2configmgr_RegisterObserver example_env (Observer ''O1'')"
      and configmgr = G2configmgr_zero and ?w2.0 = example_world
      and ?n3.0 = "''Version''" and ?m3.0 = "G2product_Version example_env"
      and product = "G2product_zero\<lparr>observers := Some [Observer ''O1'', Observer ''O2'']\<rparr>"
      and ?w3.0 = example_world]
  note b = registry_absent_or_nonempty [where env = example_env and obs = "Observer ''O1''"
      and configmgr = "G2configmgr_zero\<lparr>observers := Some [Observer ''O1'', Observer ''O2'']\<rparr>"
      and ?w2.0 = example_world and ?s2.0 = "[Observer ''O1'', Observer ''O2'']"
      and product = "G2product_zero\<lparr>observers := Some [Observer ''O1'']\<rparr>"
      and ?w3.0 = example_world and ?s3.0 = "[Observer ''O1'']"]
  show ?thesis
    using h1 h2 h3 i1 i2 i3 o1 o2 o3 u1 u2 a b by blast
qed

text \<open>
  C7. For every client with the observer \<open>obs\<close> registered: \<^verbatim>\<open>UnregisterObserver(obs)\<close>
  hands its notification (the map with \<^verbatim>\<open>observerID\<close> = the id of \<open>obs\<close>, serialized) to
  every observer of the registry as it was when the method was called, \<open>obs\<close> itself
  among them: the notification goes out while \<open>obs\<close> is still registered. After the
  call \<open>obs\<close> is no longer in the registry, and the registry is cleared to \<^verbatim>\<open>nil\<close> when
  nothing is left in it.
\<close>

theorem UnregisterObserver_notifies_before_removal:
  "(observers engine = Some s1 \<longrightarrow> obs \<in> set s1 \<longrightarrow>
    json_Marshal env
      (spec_notify_map env (g2engine_ProductId env) 8078 None
         [''observerID'' \<mapsto> GetObserverId obs] (w\<lparr>ticks := Suc (ticks w)\<rparr>)) = Inr message1 \<longrightarrow>
    filter is_UpdateObserver (emitted w (G2engine_UnregisterObserver env obs engine w)) =
      map (\<lambda>x. UpdateObserver x message1) s1 \<and>
    UpdateObserver obs message1 \<in> set (emitted w (G2engine_UnregisterObserver env obs engine w)) \<and>
    observers (client_of (G2engine_UnregisterObserver env obs engine w)) =
      (if snd (subject_UnregisterObserver obs s1) = [] then None
       else Some (snd (subject_UnregisterObserver obs s1))) \<and>
    obs \<notin> set (snd (subject_UnregisterObserver obs s1))) \<and>
   (observers configmgr = Some s2 \<longrightarrow> obs \<in> set s2 \<longrightarrow>
    json_Marshal env
      (spec_notify_map env (g2configmgr_ProductId env) 8012 None
         [''observerID'' \<mapsto> GetObserverId obs] (w\<lparr>ticks := Suc (ticks w)\<rparr>)) = Inr message2 \<longrightarrow>
    filter is_UpdateObserver (emitted w (G2configmgr_UnregisterObserver env obs configmgr w)) =
      map (\<lambda>x. UpdateObserver x message2) s2 \<and>
    UpdateObserver obs message2 \<in>
      set (emitted w (G2configmgr_UnregisterObserver env obs configmgr w)) \<and>
    observers (client_of (G2configmgr_UnregisterObserver env obs configmgr w)) =
      (if snd (subject_UnregisterObserver obs s2) = [] then None
       else Some (snd (subject_UnregisterObserver obs s2))) \<and>
    obs \<notin> set (snd (subject_UnregisterObserver obs s2))) \<and>
   (observers product = Some s3 \<longrightarrow> obs \<in> set s3 \<longrightarrow>
    json_Marshal env
      (spec_notify_map env (g2product_ProductId env) 8010 None
         [''observerID'' \<mapsto> GetObserverId obs] (w\<lparr>ticks := Suc (ticks w)\<rparr>)) = Inr message3 \<longrightarrow>
    filter is_UpdateObserver (emitted w (G2product_UnregisterObserver env obs product w)) =
      map (\<lambda>x. UpdateObserver x message3) s3 \<and>
    UpdateObserver obs message3 \<in> set (emitted w (G2product_UnregisterObserver env obs product w)) \<and>
    observers (client_of (G2product_UnregisterObserver env obs product w)) =
      (if snd (subject_UnregisterObserver obs s3) = [] then None
       else Some (snd (subject_UnregisterObserver obs s3))) \<and>
    obs \<notin> set (snd (subject_UnregisterObserver obs s3)))"
  unfolding G2engine_UnregisterObserver_def G2configmgr_UnregisterObserver_def
    G2product_UnregisterObserver_def
  by (intro conjI impI UnregisterObserver_notifies_first; assumption)

theorem UnregisterObserver_notifies_before_removal_witness:
  "observers (G2engine_zero\<lparr>observers := Some [Observer ''O1'', Observer ''O2'']\<rparr>) =
     Some [Observer ''O1'', Observer ''O2''] \<and>
   observers (G2configmgr_zero\<lparr>observers := Some [Observer ''O1'', Observer ''O2'']\<rparr>) =
     Some [Observer ''O1'', Observer ''O2''] \<and>
   observers (G2product_zero\<lparr>observers := Some [Observer ''O1'', Observer ''O2'']\<rparr>) =
     Some [Observer ''O1'', Observer ''O2''] \<and>
   Observer ''O1'' \<in> set [Observer ''O1'', Observer ''O2''] \<and>
   json_Marshal example_env
     (spec_notify_map example_env (g2engine_ProductId example_env) 8078 None
        [''observerID'' \<mapsto> GetObserverId (Observer ''O1'')]
        (example_world\<lparr>ticks := Suc (ticks example_world)\<rparr>)) =
     Inr (example_render
            (spec_notify_map example_env (g2engine_ProductId example_env) 8078 None
               [''observerID'' \<mapsto> GetObserverId (Observer ''O1'')]
               (example_world\<lparr>ticks := Suc (ticks example_world)\<rparr>))) \<and>
   UpdateObserver (Observer ''O1'')
     (example_render
        (spec_notify_map example_env (g2engine_ProductId example_env) 8078 None
           [''observerID'' \<mapsto> GetObserverId (Observer ''O1'')]
           (example_world\<lparr>ticks := Suc (ticks example_world)\<rparr>)))
     \<in> set (emitted example_world
          (G2engine_UnregisterObserver example_env (Observer ''O1'')
             (G2engine_zero\<lparr>observers := Some [Observer ''O1'', Observer ''O2'']\<rparr>)
             example_world)) \<and>
   observers (client_of
      (G2engine_UnregisterObserver example_env (Observer ''O1'')
         (G2engine_zero\<lparr>observers := Some [Observer ''O1'', Observer ''O2'']\<rparr>)
         example_world)) = Some [Observer ''O2''] \<and>
   UpdateObserver (Observer ''O1'')
     (example_render
        (spec_notify_map example_env (g2configmgr_ProductId example_env) 8012 None
           [''observerID'' \<mapsto> GetObserverId (Observer ''O1'')]
           (example_world\<lparr>ticks := Suc (ticks example_world)\<rparr>)))
     \<in> set (emitted example_world
          (G2configmgr_UnregisterObserver example_env (Observer ''O1'')
             (G2configmgr_zero\<lparr>observers := Some [Observer ''O1'', Observer ''O2'']\<rparr>)
             example_world)) \<and>
   UpdateObserver (Observer ''O1'')
     (example_render
        (spec_notify_map example_env (g2product_ProductId example_env) 8010 None
           [''observerID'' \<mapsto> GetObserverId (Observer ''O1'')]
           (example_world\<lparr>ticks := Suc (ticks example_world)\<rparr>)))
     \<in> set (emitted example_world
          (G2product_UnregisterObserver example_env (Observer ''O1'')
             (G2product_zero\<lparr>observers := Some [Observer ''O1'', Observer ''O2'']\<rparr>)
             example_world))"
proof -
  have m: "\<And>pid ev. json_Marshal example_env
             (spec_notify_map example_env pid ev None
                [''observerID'' \<mapsto> GetObserverId (Observer ''O1'')]
                (example_world\<lparr>ticks := Suc (ticks example_world)\<rparr>)) =
           Inr (example_render
                  (spec_notify_map example_env pid ev None
                     [''observerID'' \<mapsto> GetObserverId (Observer ''O1'')]
                     (example_world\<lparr>ticks := Suc (ticks example_world)\<rparr>)))"
    by (simp add: example_Marshal_def)
  have u: "snd (subject_UnregisterObserver (Observer ''O1'') [Observer ''O1'', Observer ''O2'']) =
             [Observer ''O2'']"
    by (simp add: subject_UnregisterObserver_def)
  show ?thesis
    using UnregisterObserver_notifies_before_removal [where env = example_env
        and obs = "Observer ''O1''" and w = example_world
        and engine = "G2engine_zero\<lparr>observers := Some [Observer ''O1'', Observer ''O2'']\<rparr>"
        and ?s1.0 = "[Observer ''O1'', Observer ''O2'']"
        and configmgr = "G2configmgr_zero\<lparr>observers := Some [Observer ''O1'', Observer ''O2'']\<rparr>"
        and ?s2.0 = "[Observer ''O1'', Observer ''O2'']"
        and product = "G2product_zero\<lparr>observers := Some [Observer ''O1'', Observer ''O2'']\<rparr>"
        and ?s3.0 = "[Observer ''O1'', Observer ''O2'']"
        and ?message1.0 = "example_render
              (spec_notify_map example_env (g2engine_ProductId example_env) 8078 None
                 [''observerID'' \<mapsto> GetObserverId (Observer ''O1'')]
                 (example_world\<lparr>ticks := Suc (ticks example_world)\<rparr>))"
        and ?message2.0 = "example_render
              (spec_notify_map example_env (g2configmgr_ProductId example_env) 8012 None
                 [''observerID'' \<mapsto> GetObserverId (Observer ''O1'')]
                 (example_world\<lparr>ticks := Suc (ticks example_world)\<rparr>))"
        and ?message3.0 = "example_render
              (spec_notify_map example_env (g2product_ProductId example_env) 8010 None
                 [''observerID'' \<mapsto> GetObserverId (Observer ''O1'')]
                 (example_world\<lparr>ticks := Suc (ticks example_world)\<rparr>))"]
      m u
    by simp
qed

text \<open>
  C8. For every client state, \<^verbatim>\<open>GetSdkId\<close> returns the literal \<^verbatim>\<open>"mock"\<close>: the
  returned tuple does not depend on the client, so no canned result field is read; the
  \<^verbatim>\<open>G2product\<close> method returns a \<^verbatim>\<open>nil\<close> error with it.
\<close>

theorem GetSdkId_returns_mock:
  "returned (G2engine_GetSdkId env engine w1) = Some [VString ''mock''] \<and>
   returned (G2configmgr_GetSdkId env configmgr w2) = Some [VString ''mock''] \<and>
   returned (G2product_GetSdkId env product w3) = Some [VString ''mock'', VError None]"
  by (simp add: G2engine_GetSdkId_def G2configmgr_GetSdkId_def G2product_GetSdkId_def facade_eq)

text \<open>
  C9. The claim as stated fails: on the fresh \<^verbatim>\<open>G2engine\<close> client (tracing off),
  \<^verbatim>\<open>SetLogLevel(ctx, TRACE)\<close> skips the trace entry, turns \<^verbatim>\<open>isTrace\<close> on and then
  registers the deferred \<^verbatim>\<open>traceExit(138, ...)\<close>, which is emitted.
\<close>

theorem SetLogLevel_TRACE_emits_trace_exit:
  "G2engine_operation example_env ''SetLogLevel'' (G2engine_SetLogLevel example_env LevelTrace) \<and>
   \<not> isTrace G2engine_zero \<and>
   filter is_Log
     (emitted example_world
        (G2engine_SetLogLevel example_env LevelTrace G2engine_zero example_world)) =
     [Log 138 [VLevel LevelTrace, VError None, VDuration 1]]"
  by (simp add: op_G2engine_SetLogLevel G2engine_SetLogLevel_def SetLogLevel_eq emitted_def)

text \<open>
  C9, amended. For every client, every operation and every input: if \<^verbatim>\<open>isTrace\<close> is
  false when the operation is invoked, and the operation is not a \<^verbatim>\<open>SetLogLevel\<close>
  that turns \<^verbatim>\<open>isTrace\<close> on, the operation emits no trace event, whatever the registry
  and the canned fields hold. A \<^verbatim>\<open>SetLogLevel\<close> to TRACE on a client with tracing off
  emits no trace entry and exactly its trace exit.
\<close>

theorem no_trace_event_while_tracing_is_off:
  "(G2engine_operation env n1 m1 \<longrightarrow> \<not> isTrace engine \<longrightarrow>
      (n1 = ''SetLogLevel'' \<longrightarrow> \<not> isTrace (client_of (m1 engine w1))) \<longrightarrow>
      events (world_of (m1 engine w1)) = events w1 @ emitted w1 (m1 engine w1) \<and>
      filter is_Log (emitted w1 (m1 engine w1)) = []) \<and>
   (G2configmgr_operation env n2 m2 \<longrightarrow> \<not> isTrace configmgr \<longrightarrow>
      (n2 = ''SetLogLevel'' \<longrightarrow> \<not> isTrace (client_of (m2 configmgr w2))) \<longrightarrow>
      events (world_of (m2 configmgr w2)) = events w2 @ emitted w2 (m2 configmgr w2) \<and>
      filter is_Log (emitted w2 (m2 configmgr w2)) = []) \<and>
   (G2product_operation env n3 m3 \<longrightarrow> \<not> isTrace product \<longrightarrow>
      (n3 = ''SetLogLevel'' \<longrightarrow> \<not> isTrace (client_of (m3 product w3))) \<longrightarrow>
      events (world_of (m3 product w3)) = events w3 @ emitted w3 (m3 product w3) \<and>
      filter is_Log (emitted w3 (m3 product w3)) = []) \<and>
   (\<not> isTrace engine \<longrightarrow>
      filter is_Log (emitted w1 (G2engine_SetLogLevel env LevelTrace engine w1)) =
        [Log 138 [VLevel LevelTrace, VError None,
                  VDuration (clock env (Suc (ticks w1)) - clock env (ticks w1))]]) \<and>
   (\<not> isTrace configmgr \<longrightarrow>
      filter is_Log (emitted w2 (G2configmgr_SetLogLevel env LevelTrace configmgr w2)) =
        [Log 24 [VLevel LevelTrace, VError None,
                 VDuration (clock env (Suc (ticks w2)) - clock env (ticks w2))]]) \<and>
   (\<not> isTrace product \<longrightarrow>
      filter is_Log (emitted w3 (G2product_SetLogLevel env LevelTrace product w3)) =
        [Log 14 [VLevel LevelTrace, VError None,
                 VDuration (clock env (Suc (ticks w3)) - clock env (ticks w3))]])"
proof -
  have quiet:
    "G2engine_operation env n1 m1 \<longrightarrow> \<not> isTrace engine \<longrightarrow>
      (n1 = ''SetLogLevel'' \<longrightarrow> \<not> isTrace (client_of (m1 engine w1))) \<longrightarrow>
      events (world_of (m1 engine w1)) = events w1 @ emitted w1 (m1 engine w1) \<and>
      filter is_Log (emitted w1 (m1 engine w1)) = []"
    "G2configmgr_operation env n2 m2 \<longrightarrow> \<not> isTrace configmgr \<longrightarrow>
      (n2 = ''SetLogLevel'' \<longrightarrow> \<not> isTrace (client_of (m2 configmgr w2))) \<longrightarrow>
      events (world_of (m2 configmgr w2)) = events w2 @ emitted w2 (m2 configmgr w2) \<and>
      filter is_Log (emitted w2 (m2 configmgr w2)) = []"
    "G2product_operation env n3 m3 \<longrightarrow> \<not> isTrace product \<longrightarrow>
      (n3 = ''SetLogLevel'' \<longrightarrow> \<not> isTrace (client_of (m3 product w3))) \<longrightarrow>
      events (world_of (m3 product w3)) = events w3 @ emitted w3 (m3 product w3) \<and>
      filter is_Log (emitted w3 (m3 product w3)) = []"
    using shape_no_trace [OF G2engine_operation_shape, of env n1 m1 engine w1]
      shape_no_trace [OF G2configmgr_operation_shape, of env n2 m2 configmgr w2]
      shape_no_trace [OF G2product_operation_shape, of env n3 m3 product w3]
    by blast+
  have loud:
    "\<not> isTrace engine \<longrightarrow>
      filter is_Log (emitted w1 (G2engine_SetLogLevel env LevelTrace engine w1)) =
        [Log 138 [VLevel LevelTrace, VError None,
                  VDuration (clock env (Suc (ticks w1)) - clock env (ticks w1))]]"
    "\<not> isTrace configmgr \<longrightarrow>
      filter is_Log (emitted w2 (G2configmgr_SetLogLevel env LevelTrace configmgr w2)) =
        [Log 24 [VLevel LevelTrace, VError None,
                 VDuration (clock env (Suc (ticks w2)) - clock env (ticks w2))]]"
    "\<not> isTrace product \<longrightarrow>
      filter is_Log (emitted w3 (G2product_SetLogLevel env LevelTrace product w3)) =
        [Log 14 [VLevel LevelTrace, VError None,
                 VDuration (clock env (Suc (ticks w3)) - clock env (ticks w3))]]"
    by (simp_all add: G2engine_SetLogLevel_def G2configmgr_SetLogLevel_def
        G2product_SetLogLevel_def SetLogLevel_TRACE_exit)
  from quiet loud show ?thesis by (intro conjI)
qed

theorem no_trace_event_while_tracing_is_off_witness:
  "G2engine_operation example_env ''AddRecord''
     (G2engine_AddRecord example_env ''DS'' ''1'' ''{}'' ''L'') \<and>
   G2configmgr_operation example_env ''SetLogLevel''
     (G2configmgr_SetLogLevel example_env LevelDebug) \<and>
   G2product_operation example_env ''License'' (G2product_License example_env) \<and>
   \<not> isTrace (G2engine_zero\<lparr>observers := Some [Observer ''O1'']\<rparr>) \<and>
   \<not> isTrace G2configmgr_zero \<and> \<not> isTrace G2product_zero \<and>
   \<not> isTrace (client_of (G2configmgr_SetLogLevel example_env LevelDebug G2configmgr_zero
                           example_world)) \<and>
   filter is_Log (emitted example_world
     (G2engine_AddRecord example_env ''DS'' ''1'' ''{}'' ''L''
        (G2engine_zero\<lparr>observers := Some [Observer ''O1'']\<rparr>) example_world)) = [] \<and>
   filter is_Log (emitted example_world
     (G2configmgr_SetLogLevel example_env LevelDebug G2configmgr_zero example_world)) = [] \<and>
   filter is_Log (emitted example_world
     (G2product_License example_env G2product_zero example_world)) = [] \<and>
   filter is_Log (emitted example_world
     (G2product_SetLogLevel example_env LevelTrace G2product_zero example_world)) =
     [Log 14 [VLevel LevelTrace, VError None,
              VDuration (clock example_env (Suc (ticks example_world)) -
                         clock example_env (ticks example_world))]]"
proof -
  have h1: "G2engine_operation example_env ''AddRecord''
              (G2engine_AddRecord example_env ''DS'' ''1'' ''{}'' ''L'')"
    by (rule op_G2engine_AddRecord)
  have h2: "G2configmgr_operation example_env ''SetLogLevel''
              (G2configmgr_SetLogLevel example_env LevelDebug)"
    by (rule op_G2configmgr_SetLogLevel)
  have h3: "G2product_operation example_env ''License'' (G2product_License example_env)"
    by (rule op_G2product_License)
  have t1: "\<not> isTrace (G2engine_zero\<lparr>observers := Some [Observer ''O1'']\<rparr>)"
    and t2: "\<not> isTrace G2configmgr_zero" and t3: "\<not> isTrace G2product_zero"
    by simp_all
  have t4: "\<not> isTrace (client_of (G2configmgr_SetLogLevel example_env LevelDebug
                                    G2configmgr_zero example_world))"
    by (simp add: G2configmgr_SetLogLevel_def SetLogLevel_eq)
  have s: "''AddRecord'' \<noteq> ''SetLogLevel''" "''License'' \<noteq> ''SetLogLevel''"
    by simp_all
  show ?thesis
    using h1 h2 h3 t1 t2 t3 t4 s
      no_trace_event_while_tracing_is_off [where env = example_env
        and ?n1.0 = "''AddRecord''"
        and ?m1.0 = "G2engine_AddRecord example_env ''DS'' ''1'' ''{}'' ''L''"
        and engine = "G2engine_zero\<lparr>observers := Some [Observer ''O1'']\<rparr>"
        and ?w1.0 = example_world
        and ?n2.0 = "''SetLogLevel''"
        and ?m2.0 = "G2configmgr_SetLogLevel example_env LevelDebug"
        and configmgr = G2configmgr_zero and ?w2.0 = example_world
        and ?n3.0 = "''License''" and ?m3.0 = "G2product_License example_env"
        and product = G2product_zero and ?w3.0 = example_world]
    by blast
qed

text \<open>
  C10. For every client and every level \<open>L\<close>: after \<^verbatim>\<open>SetLogLevel(ctx, L)\<close> the
  client's logger exists and is the logger the client had (or the one created on first
  use) with \<open>L\<close> handed to its \<^verbatim>\<open>SetLogLevel\<close>; its level is \<open>L\<close>; the flag \<^verbatim>\<open>isTrace\<close>
  is true iff that level is TRACE, that is iff \<open>L\<close> is TRACE. A method other than
  \<^verbatim>\<open>SetLogLevel\<close> leaves \<^verbatim>\<open>isTrace\<close> as it was, whether it returns or panics.
\<close>

theorem isTrace_follows_SetLogLevel_only:
  "logger (client_of (G2engine_SetLogLevel env L engine w1)) =
     Some (logger_SetLogLevel L (fst (getLogger engine))) \<and>
   map_option logger_GetLogLevel (logger (client_of (G2engine_SetLogLevel env L engine w1))) =
     Some L \<and>
   isTrace (client_of (G2engine_SetLogLevel env L engine w1)) = (L = LevelTrace) \<and>
   logger (client_of (G2configmgr_SetLogLevel env L configmgr w2)) =
     Some (logger_SetLogLevel L (fst (getLogger configmgr))) \<and>
   map_option logger_GetLogLevel (logger (client_of (G2configmgr_SetLogLevel env L configmgr w2))) =
     Some L \<and>
   isTrace (client_of (G2configmgr_SetLogLevel env L configmgr w2)) = (L = LevelTrace) \<and>
   logger (client_of (G2product_SetLogLevel env L product w3)) =
     Some (logger_SetLogLevel L (fst (getLogger product))) \<and>
   map_option logger_GetLogLevel (logger (client_of (G2product_SetLogLevel env L product w3))) =
     Some L \<and>
   isTrace (client_of (G2product_SetLogLevel env L product w3)) = (L = LevelTrace) \<and>
   isTrace (client_of (G2engine_SetLogLevel env L engine w1)) =
     (map_option logger_GetLogLevel (logger (client_of (G2engine_SetLogLevel env L engine w1)))
        = Some LevelTrace) \<and>
   isTrace (client_of (G2configmgr_SetLogLevel env L configmgr w2)) =
     (map_option logger_GetLogLevel
        (logger (client_of (G2configmgr_SetLogLevel env L configmgr w2))) = Some LevelTrace) \<and>
   isTrace (client_of (G2product_SetLogLevel env L product w3)) =
     (map_option logger_GetLogLevel (logger (client_of (G2product_SetLogLevel env L product w3)))
        = Some LevelTrace) \<and>
   (G2engine_operation env n1 m1 \<longrightarrow> n1 \<noteq> ''SetLogLevel'' \<longrightarrow>
      isTrace (client_of (m1 engine w1)) = isTrace engine) \<and>
   (G2configmgr_operation env n2 m2 \<longrightarrow> n2 \<noteq> ''SetLogLevel'' \<longrightarrow>
      isTrace (client_of (m2 configmgr w2)) = isTrace configmgr) \<and>
   (G2product_operation env n3 m3 \<longrightarrow> n3 \<noteq> ''SetLogLevel'' \<longrightarrow>
      isTrace (client_of (m3 product w3)) = isTrace product)"
proof -
  have level:
    "logger (client_of (G2engine_SetLogLevel env L engine w1)) =
       Some (logger_SetLogLevel L (fst (getLogger engine))) \<and>
     map_option logger_GetLogLevel (logger (client_of (G2engine_SetLogLevel env L engine w1))) =
       Some L \<and>
     isTrace (client_of (G2engine_SetLogLevel env L engine w1)) = (L = LevelTrace)"
    "logger (client_of (G2configmgr_SetLogLevel env L configmgr w2)) =
       Some (logger_SetLogLevel L (fst (getLogger configmgr))) \<and>
     map_option logger_GetLogLevel
       (logger (client_of (G2configmgr_SetLogLevel env L configmgr w2))) = Some L \<and>
     isTrace (client_of (G2configmgr_SetLogLevel env L configmgr w2)) = (L = LevelTrace)"
    "logger (client_of (G2product_SetLogLevel env L product w3)) =
       Some (logger_SetLogLevel L (fst (getLogger product))) \<and>
     map_option logger_GetLogLevel (logger (client_of (G2product_SetLogLevel env L product w3))) =
       Some L \<and>
     isTrace (client_of (G2product_SetLogLevel env L product w3)) = (L = LevelTrace)"
    unfolding G2engine_SetLogLevel_def G2configmgr_SetLogLevel_def G2product_SetLogLevel_def
    by (rule SetLogLevel_level)+
  have set_level:
    "isTrace (client_of (G2engine_SetLogLevel env L engine w1)) =
       (map_option logger_GetLogLevel (logger (client_of (G2engine_SetLogLevel env L engine w1)))
          = Some LevelTrace)"
    "isTrace (client_of (G2configmgr_SetLogLevel env L configmgr w2)) =
       (map_option logger_GetLogLevel
          (logger (client_of (G2configmgr_SetLogLevel env L configmgr w2))) = Some LevelTrace)"
    "isTrace (client_of (G2product_SetLogLevel env L product w3)) =
       (map_option logger_GetLogLevel
          (logger (client_of (G2product_SetLogLevel env L product w3))) = Some LevelTrace)"
    unfolding G2engine_SetLogLevel_def G2configmgr_SetLogLevel_def G2product_SetLogLevel_def
    by (rule SetLogLevel_isTrace)+
  have others:
    "G2engine_operation env n1 m1 \<longrightarrow> n1 \<noteq> ''SetLogLevel'' \<longrightarrow>
       isTrace (client_of (m1 engine w1)) = isTrace engine"
    "G2configmgr_operation env n2 m2 \<longrightarrow> n2 \<noteq> ''SetLogLevel'' \<longrightarrow>
       isTrace (client_of (m2 configmgr w2)) = isTrace configmgr"
    "G2product_operation env n3 m3 \<longrightarrow> n3 \<noteq> ''SetLogLevel'' \<longrightarrow>
       isTrace (client_of (m3 product w3)) = isTrace product"
    using shape_isTrace [OF G2engine_operation_shape, of env n1 m1 engine w1]
      shape_isTrace [OF G2configmgr_operation_shape, of env n2 m2 configmgr w2]
      shape_isTrace [OF G2product_operation_shape, of env n3 m3 product w3]
    by blast+
  from level set_level others show ?thesis by (elim conjE) (intro conjI)
qed

theorem isTrace_follows_SetLogLevel_only_witness:
  "G2engine_operation example_env ''UnregisterObserver''
     (G2engine_UnregisterObserver example_env (Observer ''O1'')) \<and>
   G2configmgr_operation example_env ''GetConfig'' (G2configmgr_GetConfig example_env 7) \<and>
   G2product_operation example_env ''Destroy'' (G2product_Destroy example_env) \<and>
   ''UnregisterObserver'' \<noteq> ''SetLogLevel'' \<and> ''GetConfig'' \<noteq> ''SetLogLevel'' \<and>
   ''Destroy'' \<noteq> ''SetLogLevel'' \<and>
   isTrace (client_of (G2engine_UnregisterObserver example_env (Observer ''O1'')
      (G2engine_zero\<lparr>isTrace := True\<rparr>) example_world)) =
     isTrace (G2engine_zero\<lparr>isTrace := True\<rparr>) \<and>
   isTrace (client_of (G2configmgr_GetConfig example_env 7 G2configmgr_zero example_world)) =
     isTrace G2configmgr_zero \<and>
   isTrace (client_of (G2product_Destroy example_env (G2product_zero\<lparr>isTrace := True\<rparr>)
      example_world)) = isTrace (G2product_zero\<lparr>isTrace := True\<rparr>) \<and>
   isTrace (client_of (G2engine_SetLogLevel example_env LevelDebug
      (G2engine_zero\<lparr>isTrace := True\<rparr>) example_world)) =
     (map_option logger_GetLogLevel
        (logger (client_of (G2engine_SetLogLevel example_env LevelDebug
           (G2engine_zero\<lparr>isTrace := True\<rparr>) example_world))) = Some LevelTrace) \<and>
   map_option logger_GetLogLevel
     (logger (client_of (G2engine_SetLogLevel example_env LevelDebug
        (G2engine_zero\<lparr>isTrace := True\<rparr>) example_world))) = Some LevelDebug \<and>
   \<not> isTrace (client_of (G2engine_SetLogLevel example_env LevelDebug
      (G2engine_zero\<lparr>isTrace := True\<rparr>) example_world)) \<and>
   map_option logger_GetLogLevel
     (logger (client_of (G2configmgr_SetLogLevel example_env LevelTrace G2configmgr_zero
        example_world))) = Some LevelTrace \<and>
   isTrace (client_of (G2configmgr_SetLogLevel example_env LevelTrace G2configmgr_zero
      example_world))"
proof -
  have h1: "G2engine_operation example_env ''UnregisterObserver''
              (G2engine_UnregisterObserver example_env (Observer ''O1''))"
    by (rule op_G2engine_UnregisterObserver)
  have h2: "G2configmgr_operation example_env ''GetConfig'' (G2configmgr_GetConfig example_env 7)"
    by (rule op_G2configmgr_GetConfig)
  have h3: "G2product_operation example_env ''Destroy'' (G2product_Destroy example_env)"
    by (rule op_G2product_Destroy)
  have s: "''UnregisterObserver'' \<noteq> ''SetLogLevel''" "''GetConfig'' \<noteq> ''SetLogLevel''"
    "''Destroy'' \<noteq> ''SetLogLevel''"
    by simp_all
  note a = isTrace_follows_SetLogLevel_only [where env = example_env and L = LevelDebug
      and ?n1.0 = "''UnregisterObserver''"
      and ?m1.0 = "G2engine_UnregisterObserver example_env (Observer ''O1'')"
      and engine = "G2engine_zero\<lparr>isTrace := True\<rparr>" and ?w1.0 = example_world
      and ?n2.0 = "''GetConfig''" and ?m2.0 = "G2configmgr_GetConfig example_env 7"
      and configmgr = G2configmgr_zero and ?w2.0 = example_world
      and ?n3.0 = "''Destroy''" and ?m3.0 = "G2product_Destroy example_env"
      and product = "G2product_zero\<lparr>isTrace := True\<rparr>" and ?w3.0 = example_world]
  note b = isTrace_follows_SetLogLevel_only [where env = example_env and L = LevelTrace
      and ?n1.0 = "''UnregisterObserver''"
      and ?m1.0 = "G2engine_UnregisterObserver example_env (Observer ''O1'')"
      and engine = "G2engine_zero\<lparr>isTrace := True\<rparr>" and ?w1.0 = example_world
      and ?n2.0 = "''GetConfig''" and ?m2.0 = "G2configmgr_GetConfig example_env 7"
      and configmgr = G2configmgr_zero and ?w2.0 = example_world
      and ?n3.0 = "''Destroy''" and ?m3.0 = "G2product_Destroy example_env"
      and product = "G2product_zero\<lparr>isTrace := True\<rparr>" and ?w3.0 = example_world]
  show ?thesis
    using h1 h2 h3 s a b
    by (simp add: logger_GetLogLevel_def logger_SetLogLevel_def)
qed

end
